theory Spec2Isabelle
  imports Main "HOL-Library.Word"
begin

section \<open>Solidity values, calls and logs\<close>

text \<open>
  The contracts of the repository (\<^verbatim>\<open>HTLC\<close>, \<^verbatim>\<open>MonadHTLC\<close>, \<^verbatim>\<open>MonadBridge\<close>,
  \<^verbatim>\<open>FusionMonadAdapter\<close>) are embedded as functions from the contract storage and the
  transaction environment to either a revert or the new storage together with the list
  of external calls made and events emitted, in program order. \<^verbatim>\<open>uint256\<close> and
  \<^verbatim>\<open>bytes32\<close> are 256-bit words, an \<^verbatim>\<open>address\<close> is a 160-bit word. The hash
  functions \<^verbatim>\<open>keccak256\<close> and \<^verbatim>\<open>sha256\<close> are parameters of every function that
  uses them; \<^verbatim>\<open>abi.encodePacked\<close> is the concatenation of the big-endian bytes of its
  arguments.
\<close>

type_synonym uint256 = "256 word"
type_synonym address = "160 word"
type_synonym bytes32 = "256 word"
type_synonym bytes = "8 word list"

datatype abi_value = AbiAddress address | AbiUint uint256 | AbiBytes32 bytes32

definition be_bytes :: "nat \<Rightarrow> 'a::len word \<Rightarrow> bytes" where
  "be_bytes n w = map (\<lambda>i. ucast (drop_bit (8 * i) w)) (rev [0..<n])"

fun encode_value :: "abi_value \<Rightarrow> bytes" where
  "encode_value (AbiAddress a) = be_bytes 20 a"
| "encode_value (AbiUint u) = be_bytes 32 u"
| "encode_value (AbiBytes32 b) = be_bytes 32 b"

definition encodePacked :: "abi_value list \<Rightarrow> bytes" where
  "encodePacked vs = concat (map encode_value vs)"

text \<open>
  The transaction environment: \<^verbatim>\<open>msg.sender\<close>, \<^verbatim>\<open>msg.value\<close>,
  \<^verbatim>\<open>block.timestamp\<close>, \<^verbatim>\<open>block.difficulty\<close>, and the address of the executing
  contract (\<^verbatim>\<open>address(this)\<close>).
\<close>

record env =
  msg_sender :: address
  msg_value :: uint256
  block_timestamp :: uint256
  block_difficulty :: uint256
  this :: address

text \<open>
  Reverts. \<open>Require\<close> carries the message of a failed \<^verbatim>\<open>require\<close>; the custom errors
  of \<^verbatim>\<open>HTLC\<close> are constructors of their own; \<open>Overflow\<close> is the panic of checked
  arithmetic (Solidity 0.8); \<open>NotPayable\<close> is the revert of a function that is not
  \<^verbatim>\<open>payable\<close> and is called with value; \<open>CallFailed\<close> is a revert that bubbles up from
  an external call (SafeERC20, another contract).
\<close>

datatype sol_error =
    Require string
  | NotLocked
  | WrongHashlock
  | WrongState
  | ZeroAmount
  | TimelockNotExpired uint256 uint256
  | Overflow
  | NotPayable
  | CallFailed

text \<open>External calls to accounts and ERC20 tokens, and the events of the contracts.\<close>

datatype ext_call =
    NativeSend address uint256
  | ERC20Transfer address address uint256
  | ERC20TransferFrom address address address uint256
  | ERC20Approve address address uint256

datatype log =
    Locked address address uint256 address
  | Claimed address bytes32
  | Refunded address
  | HTLCCreated bytes32 address address address uint256 bytes32 uint256
  | HTLCWithdrawn bytes32 bytes32
  | HTLCRefunded bytes32
  | IncomingOrderProcessed bytes32 bytes32 address address address uint256 uint256 bytes32 uint256
  | IncomingOrderFulfilled bytes32 bytes32 bytes32 address
  | OutgoingOrderCreated bytes32 address address address uint256 uint256 bytes32 uint256 uint256 address
  | CrossChainOrderCreated bytes32 address address address uint256 uint256 bytes32 uint256 uint256 address
  | SecretGenerated bytes32 bytes32

datatype action = Call ext_call | Emit log

text \<open>
  Whether an external call goes through is decided outside the contract (the receiving
  account may reject value, a token may revert): it is the oracle \<open>ext\<close> that the
  functions take.
\<close>

type_synonym ext_oracle = "ext_call \<Rightarrow> bool"

definition checked_add :: "uint256 \<Rightarrow> uint256 \<Rightarrow> sol_error + uint256" where
  "checked_add a b = (if unat a + unat b < 2 ^ 256 then Inr (a + b) else Inl Overflow)"

section \<open>HTLC (one escrow per deployed contract, SHA-256 hashlock)\<close>

datatype State = Empty | LockedState | ClaimedState | RefundedState

record HTLC =
  h_sender :: address
  h_receiver :: address
  h_hashlock :: bytes32
  h_timelock :: uint256
  h_token :: address
  h_lockedAmount :: uint256
  h_state :: State

text \<open>
  \<^verbatim>\<open>function claim(bytes32 secret) external nonReentrant\<close>. The function reads neither
  \<^verbatim>\<open>msg.sender\<close> nor \<^verbatim>\<open>block.timestamp\<close>. The reentrancy guard is not entered at
  the start of a transaction, so it never fires on the top-level calls modelled here.
\<close>

definition claim ::
  "(bytes \<Rightarrow> bytes32) \<Rightarrow> ext_oracle \<Rightarrow> env \<Rightarrow> bytes32 \<Rightarrow> HTLC \<Rightarrow> sol_error + (HTLC \<times> action list)" where
  "claim sha256 ext e secret c =
    (if msg_value e \<noteq> 0 then Inl NotPayable
     else if h_state c \<noteq> LockedState then Inl NotLocked
     else if sha256 (encodePacked [AbiBytes32 secret]) \<noteq> h_hashlock c then Inl WrongHashlock
     else
       let amount = h_lockedAmount c;
           c' = c\<lparr>h_state := ClaimedState, h_lockedAmount := 0\<rparr>
       in if h_token c = 0 then
            (if ext (NativeSend (h_receiver c) amount)
             then Inr (c', [Call (NativeSend (h_receiver c) amount),
                            Emit (Claimed (h_receiver c) secret)])
             else Inl (Require ''ETH transfer failed''))
          else
            (if ext (ERC20Transfer (h_token c) (h_receiver c) amount)
             then Inr (c', [Call (ERC20Transfer (h_token c) (h_receiver c) amount),
                            Emit (Claimed (h_receiver c) secret)])
             else Inl CallFailed))"

text \<open>\<^verbatim>\<open>function refund() external nonReentrant\<close>.\<close>

definition refund_HTLC ::
  "ext_oracle \<Rightarrow> env \<Rightarrow> HTLC \<Rightarrow> sol_error + (HTLC \<times> action list)" where
  "refund_HTLC ext e c =
    (if msg_value e \<noteq> 0 then Inl NotPayable
     else if h_state c \<noteq> LockedState then Inl NotLocked
     else if block_timestamp e < h_timelock c
       then Inl (TimelockNotExpired (block_timestamp e) (h_timelock c))
     else
       let amount = h_lockedAmount c;
           c' = c\<lparr>h_state := RefundedState, h_lockedAmount := 0\<rparr>
       in if h_token c = 0 then
            (if ext (NativeSend (h_sender c) amount)
             then Inr (c', [Call (NativeSend (h_sender c) amount), Emit (Refunded (h_sender c))])
             else Inl (Require ''ETH refund failed''))
          else
            (if ext (ERC20Transfer (h_token c) (h_sender c) amount)
             then Inr (c', [Call (ERC20Transfer (h_token c) (h_sender c) amount),
                            Emit (Refunded (h_sender c))])
             else Inl CallFailed))"

section \<open>MonadHTLC (many escrows in one contract, keccak256 hashlock)\<close>

record HTLCData =
  d_sender :: address
  d_receiver :: address
  d_token :: address
  d_amount :: uint256
  d_hashlock :: bytes32
  d_timelock :: uint256
  d_withdrawn :: bool
  d_refunded :: bool
  d_createdAt :: uint256

text \<open>
  \<^verbatim>\<open>mapping(bytes32 => HTLCData) public contracts\<close>: a Solidity mapping is total, a key
  never written reads as the all-zero struct.
\<close>

type_synonym MonadHTLC = "bytes32 \<Rightarrow> HTLCData"

definition zero_HTLCData :: HTLCData where
  "zero_HTLCData = \<lparr>d_sender = 0, d_receiver = 0, d_token = 0, d_amount = 0, d_hashlock = 0,
     d_timelock = 0, d_withdrawn = False, d_refunded = False, d_createdAt = 0\<rparr>"

definition empty_MonadHTLC :: MonadHTLC where
  "empty_MonadHTLC k = zero_HTLCData"

definition contractExists :: "MonadHTLC \<Rightarrow> bytes32 \<Rightarrow> bool" where
  "contractExists contracts cid = (d_sender (contracts cid) \<noteq> 0)"

text \<open>
  \<^verbatim>\<open>function withdraw(bytes32 _contractId, bytes32 _secret) external
  contractExists(_contractId) hashlockMatches(_contractId, _secret)
  withdrawable(_contractId) nonReentrant\<close>: the modifiers run in this order.
\<close>

definition withdraw ::
  "(bytes \<Rightarrow> bytes32) \<Rightarrow> ext_oracle \<Rightarrow> env \<Rightarrow> bytes32 \<Rightarrow> bytes32 \<Rightarrow> MonadHTLC
     \<Rightarrow> sol_error + (MonadHTLC \<times> action list)" where
  "withdraw keccak256 ext e cid secret contracts =
    (let htlc = contracts cid in
     if msg_value e \<noteq> 0 then Inl NotPayable
     else if \<not> contractExists contracts cid then Inl (Require ''contract does not exist'')
     else if d_hashlock htlc \<noteq> keccak256 (encodePacked [AbiBytes32 secret])
       then Inl (Require ''hashlock hash does not match'')
     else if d_receiver htlc \<noteq> msg_sender e then Inl (Require ''withdrawable: not receiver'')
     else if d_withdrawn htlc then Inl (Require ''withdrawable: already withdrawn'')
     else if \<not> (d_timelock htlc > block_timestamp e)
       then Inl (Require ''withdrawable: timelock time must be in the future'')
     else
       let contracts' = contracts(cid := htlc\<lparr>d_withdrawn := True\<rparr>) in
       if d_token htlc = 0 then
         (if ext (NativeSend (d_receiver htlc) (d_amount htlc))
          then Inr (contracts', [Call (NativeSend (d_receiver htlc) (d_amount htlc)),
                                 Emit (HTLCWithdrawn cid secret)])
          else Inl (Require ''Native token transfer failed''))
       else
         (if ext (ERC20Transfer (d_token htlc) (d_receiver htlc) (d_amount htlc))
          then Inr (contracts', [Call (ERC20Transfer (d_token htlc) (d_receiver htlc) (d_amount htlc)),
                                 Emit (HTLCWithdrawn cid secret)])
          else Inl CallFailed))"

section \<open>MonadHTLC: creating an escrow\<close>

text \<open>
  \<^verbatim>\<open>function newContract(address _receiver, bytes32 _hashlock, uint256 _timelock)
  external payable fundsSent futureTimelock(_timelock) returns (bytes32 contractId)\<close>.
\<close>

definition newContract ::
  "(bytes \<Rightarrow> bytes32) \<Rightarrow> env \<Rightarrow> address \<Rightarrow> bytes32 \<Rightarrow> uint256 \<Rightarrow> MonadHTLC
     \<Rightarrow> sol_error + ((bytes32 \<times> MonadHTLC) \<times> action list)" where
  "newContract keccak256 e receiver hashlock timelock contracts =
    (if \<not> (msg_value e > 0) then Inl (Require ''funds must be sent'')
     else if \<not> (timelock > block_timestamp e)
       then Inl (Require ''timelock time must be in the future'')
     else
       let contractId = keccak256 (encodePacked
             [AbiAddress (msg_sender e), AbiAddress receiver, AbiUint (msg_value e),
              AbiBytes32 hashlock, AbiUint timelock, AbiUint (block_timestamp e)])
       in if contractExists contracts contractId then Inl (Require ''contract already exists'')
          else Inr ((contractId,
                     contracts(contractId := \<lparr>d_sender = msg_sender e, d_receiver = receiver,
                       d_token = 0, d_amount = msg_value e, d_hashlock = hashlock,
                       d_timelock = timelock, d_withdrawn = False, d_refunded = False,
                       d_createdAt = block_timestamp e\<rparr>)),
                    [Emit (HTLCCreated contractId (msg_sender e) receiver 0 (msg_value e)
                             hashlock timelock)]))"

text \<open>
  \<^verbatim>\<open>function newContractERC20(address _receiver, bytes32 _hashlock, uint256 _timelock,
  address _token, uint256 _amount) external futureTimelock(_timelock)\<close>. The tokens are
  pulled from the caller after the escrow is stored; a failing pull reverts the call.
\<close>

definition newContractERC20 ::
  "(bytes \<Rightarrow> bytes32) \<Rightarrow> ext_oracle \<Rightarrow> env \<Rightarrow> address \<Rightarrow> bytes32 \<Rightarrow> uint256 \<Rightarrow> address
     \<Rightarrow> uint256 \<Rightarrow> MonadHTLC \<Rightarrow> sol_error + ((bytes32 \<times> MonadHTLC) \<times> action list)" where
  "newContractERC20 keccak256 ext e receiver hashlock timelock tok amount contracts =
    (if msg_value e \<noteq> 0 then Inl NotPayable
     else if \<not> (timelock > block_timestamp e)
       then Inl (Require ''timelock time must be in the future'')
     else if \<not> (amount > 0) then Inl (Require ''token amount must be greater than 0'')
     else if tok = 0 then Inl (Require ''token address cannot be zero'')
     else
       let contractId = keccak256 (encodePacked
             [AbiAddress (msg_sender e), AbiAddress receiver, AbiAddress tok, AbiUint amount,
              AbiBytes32 hashlock, AbiUint timelock, AbiUint (block_timestamp e)])
       in if contractExists contracts contractId then Inl (Require ''contract already exists'')
          else if \<not> ext (ERC20TransferFrom tok (msg_sender e) (this e) amount) then Inl CallFailed
          else Inr ((contractId,
                     contracts(contractId := \<lparr>d_sender = msg_sender e, d_receiver = receiver,
                       d_token = tok, d_amount = amount, d_hashlock = hashlock,
                       d_timelock = timelock, d_withdrawn = False, d_refunded = False,
                       d_createdAt = block_timestamp e\<rparr>)),
                    [Call (ERC20TransferFrom tok (msg_sender e) (this e) amount),
                     Emit (HTLCCreated contractId (msg_sender e) receiver tok amount
                             hashlock timelock)]))"

section \<open>MonadBridge\<close>

record IncomingOrder =
  io_ethereumOrderHash :: bytes32
  io_tokenIn :: address
  io_tokenOut :: address
  io_amountIn :: uint256
  io_amountOut :: uint256
  io_hashlock :: bytes32
  io_timelock :: uint256
  io_ethereumMaker :: address
  io_monadReceiver :: address
  io_fulfilled :: bool
  io_refunded :: bool
  io_createdAt :: uint256
  io_htlcContractId :: bytes32
  io_fulfiller :: address

record OutgoingOrder =
  oo_orderHash :: bytes32
  oo_tokenIn :: address
  oo_tokenOut :: address
  oo_amountIn :: uint256
  oo_amountOut :: uint256
  oo_hashlock :: bytes32
  oo_timelock :: uint256
  oo_maker :: address
  oo_ethereumReceiver :: address
  oo_isActive :: bool
  oo_targetChainId :: uint256
  oo_htlcContractId :: bytes32

definition zero_IncomingOrder :: IncomingOrder where
  "zero_IncomingOrder = \<lparr>io_ethereumOrderHash = 0, io_tokenIn = 0, io_tokenOut = 0,
     io_amountIn = 0, io_amountOut = 0, io_hashlock = 0, io_timelock = 0, io_ethereumMaker = 0,
     io_monadReceiver = 0, io_fulfilled = False, io_refunded = False, io_createdAt = 0,
     io_htlcContractId = 0, io_fulfiller = 0\<rparr>"

definition zero_OutgoingOrder :: OutgoingOrder where
  "zero_OutgoingOrder = \<lparr>oo_orderHash = 0, oo_tokenIn = 0, oo_tokenOut = 0, oo_amountIn = 0,
     oo_amountOut = 0, oo_hashlock = 0, oo_timelock = 0, oo_maker = 0, oo_ethereumReceiver = 0,
     oo_isActive = False, oo_targetChainId = 0, oo_htlcContractId = 0\<rparr>"

text \<open>
  The storage of \<^verbatim>\<open>MonadBridge\<close>. \<open>mb_htlcContract\<close> is the address of the
  \<^verbatim>\<open>MonadHTLC\<close> it was deployed with; the storage of that contract is passed along
  with the bridge's own wherever a function calls into it.
\<close>

record MonadBridge =
  mb_incomingOrders :: "bytes32 \<Rightarrow> IncomingOrder"
  mb_outgoingOrders :: "bytes32 \<Rightarrow> OutgoingOrder"
  mb_userIncomingOrders :: "address \<Rightarrow> bytes32 list"
  mb_userOutgoingOrders :: "address \<Rightarrow> bytes32 list"
  mb_supportedChains :: "uint256 \<Rightarrow> bool"
  mb_authorizedRelayers :: "address \<Rightarrow> bool"
  mb_htlcContract :: address
  mb_defaultTimelock :: uint256
  mb_minTimelock :: uint256
  mb_maxTimelock :: uint256

text \<open>The constructor: chains 1 and 11155111 supported, timelocks of 24 h, 1 h and 7 d.\<close>

definition constructor_MonadBridge :: "address \<Rightarrow> sol_error + MonadBridge" where
  "constructor_MonadBridge htlc =
    (if htlc = 0 then Inl (Require ''Invalid HTLC contract address'')
     else Inr \<lparr>mb_incomingOrders = (\<lambda>k. zero_IncomingOrder),
               mb_outgoingOrders = (\<lambda>k. zero_OutgoingOrder),
               mb_userIncomingOrders = (\<lambda>a. []),
               mb_userOutgoingOrders = (\<lambda>a. []),
               mb_supportedChains = (\<lambda>c. c = 1 \<or> c = 11155111),
               mb_authorizedRelayers = (\<lambda>a. False),
               mb_htlcContract = htlc,
               mb_defaultTimelock = 24 * 3600,
               mb_minTimelock = 1 * 3600,
               mb_maxTimelock = 7 * 86400\<rparr>)"

text \<open>\<^verbatim>\<open>function setRelayerAuthorization(address relayer, bool authorized)\<close> (owner only).\<close>

definition setRelayerAuthorization :: "address \<Rightarrow> bool \<Rightarrow> MonadBridge \<Rightarrow> MonadBridge" where
  "setRelayerAuthorization relayer authorized b =
     b\<lparr>mb_authorizedRelayers := (mb_authorizedRelayers b)(relayer := authorized)\<rparr>"

text \<open>
  \<^verbatim>\<open>function processEthereumOrder(...) external override onlyAuthorizedRelayer
  nonReentrant\<close>: the relayer mirrors an Ethereum order; \<open>timelock\<close> is documented as
  the timelock from the Ethereum order and is stored as it comes.
\<close>

definition processEthereumOrder ::
  "(bytes \<Rightarrow> bytes32) \<Rightarrow> env \<Rightarrow> bytes32 \<Rightarrow> address \<Rightarrow> address \<Rightarrow> uint256 \<Rightarrow> uint256 \<Rightarrow> bytes32
     \<Rightarrow> uint256 \<Rightarrow> address \<Rightarrow> address \<Rightarrow> MonadBridge \<Rightarrow> sol_error + (MonadBridge \<times> action list)" where
  "processEthereumOrder keccak256 e ethereumOrderHash tokenIn tokenOut amountIn amountOut
       hashlock timelock ethereumMaker monadReceiver b =
    (if msg_value e \<noteq> 0 then Inl NotPayable
     else if \<not> mb_authorizedRelayers b (msg_sender e) then Inl (Require ''Not authorized relayer'')
     else if ethereumOrderHash = 0 then Inl (Require ''Invalid Ethereum order hash'')
     else if io_ethereumOrderHash (mb_incomingOrders b ethereumOrderHash) \<noteq> 0
       then Inl (Require ''Order already processed'')
     else if monadReceiver = 0 then Inl (Require ''Invalid receiver address'')
     else if tokenOut = 0 then Inl (Require ''Invalid output token'')
     else if \<not> (amountOut > 0) then Inl (Require ''Invalid output amount'')
     else if \<not> (timelock > block_timestamp e) then Inl (Require ''Invalid timelock'')
     else
       let monadOrderHash = keccak256 (encodePacked
             [AbiBytes32 ethereumOrderHash, AbiAddress tokenOut, AbiUint amountOut,
              AbiAddress monadReceiver, AbiUint (block_timestamp e)]);
           order = \<lparr>io_ethereumOrderHash = ethereumOrderHash, io_tokenIn = tokenIn,
             io_tokenOut = tokenOut, io_amountIn = amountIn, io_amountOut = amountOut,
             io_hashlock = hashlock, io_timelock = timelock, io_ethereumMaker = ethereumMaker,
             io_monadReceiver = monadReceiver, io_fulfilled = False, io_refunded = False,
             io_createdAt = block_timestamp e, io_htlcContractId = 0, io_fulfiller = 0\<rparr>
       in Inr (b\<lparr>mb_incomingOrders := (mb_incomingOrders b)(ethereumOrderHash := order),
                 mb_userIncomingOrders := (mb_userIncomingOrders b)
                   (monadReceiver := mb_userIncomingOrders b monadReceiver @ [ethereumOrderHash])\<rparr>,
               [Emit (IncomingOrderProcessed ethereumOrderHash monadOrderHash monadReceiver
                        tokenIn tokenOut amountIn amountOut hashlock timelock)]))"

text \<open>
  \<^verbatim>\<open>function fulfillIncomingOrder(bytes32 ethereumOrderHash, bytes32 secret) external
  override nonReentrant\<close>. The escrow on Monad is created by the bridge (it is the
  \<^verbatim>\<open>msg.sender\<close> of the call into \<^verbatim>\<open>MonadHTLC\<close>) with the order's own hashlock and
  timelock. A revert inside \<^verbatim>\<open>MonadHTLC\<close> bubbles up unchanged.
\<close>

definition fulfillIncomingOrder ::
  "(bytes \<Rightarrow> bytes32) \<Rightarrow> ext_oracle \<Rightarrow> env \<Rightarrow> bytes32 \<Rightarrow> bytes32 \<Rightarrow> MonadBridge \<times> MonadHTLC
     \<Rightarrow> sol_error + ((MonadBridge \<times> MonadHTLC) \<times> action list)" where
  "fulfillIncomingOrder keccak256 ext e ethereumOrderHash secret w =
    (let b = fst w; contracts = snd w; order = mb_incomingOrders b ethereumOrderHash in
     if msg_value e \<noteq> 0 then Inl NotPayable
     else if io_ethereumOrderHash order = 0 then Inl (Require ''Order does not exist'')
     else if io_fulfilled order then Inl (Require ''Order already fulfilled'')
     else if io_refunded order then Inl (Require ''Order already refunded'')
     else if \<not> (block_timestamp e < io_timelock order) then Inl (Require ''Order expired'')
     else if keccak256 (encodePacked [AbiBytes32 secret]) \<noteq> io_hashlock order
       then Inl (Require ''Invalid secret'')
     else
       let created =
         (if io_tokenOut order = 0 then
            (if msg_value e \<noteq> io_amountOut order
             then Inl (Require ''Incorrect native token amount'')
             else newContract keccak256
                    (e\<lparr>msg_sender := this e, msg_value := io_amountOut order,
                       this := mb_htlcContract b\<rparr>)
                    (io_monadReceiver order) (io_hashlock order) (io_timelock order) contracts)
          else
            (if \<not> ext (ERC20TransferFrom (io_tokenOut order) (msg_sender e) (this e)
                         (io_amountOut order)) then Inl CallFailed
             else if \<not> ext (ERC20Approve (io_tokenOut order) (mb_htlcContract b)
                         (io_amountOut order)) then Inl CallFailed
             else
               (case newContractERC20 keccak256 ext
                       (e\<lparr>msg_sender := this e, msg_value := 0, this := mb_htlcContract b\<rparr>)
                       (io_monadReceiver order) (io_hashlock order) (io_timelock order)
                       (io_tokenOut order) (io_amountOut order) contracts of
                  Inl err \<Rightarrow> Inl err
                | Inr (r, acts) \<Rightarrow>
                    Inr (r, [Call (ERC20TransferFrom (io_tokenOut order) (msg_sender e) (this e)
                                     (io_amountOut order)),
                             Call (ERC20Approve (io_tokenOut order) (mb_htlcContract b)
                                     (io_amountOut order))] @ acts))))
       in case created of
            Inl err \<Rightarrow> Inl err
          | Inr ((htlcContractId, contracts'), acts) \<Rightarrow>
              Inr ((b\<lparr>mb_incomingOrders := (mb_incomingOrders b)
                        (ethereumOrderHash := order\<lparr>io_fulfilled := True,
                           io_fulfiller := msg_sender e,
                           io_htlcContractId := htlcContractId\<rparr>)\<rparr>,
                    contracts'),
                   acts @ [Emit (IncomingOrderFulfilled ethereumOrderHash ethereumOrderHash
                                   secret (msg_sender e))]))"

text \<open>
  \<^verbatim>\<open>function createOutgoingOrder(address tokenIn, address tokenOut, uint256 amountIn,
  uint256 amountOut, address ethereumReceiver, uint256 targetChainId,
  uint256 customTimelock) external override nonReentrant returns (bytes32 orderHash)\<close>.
  The secret is derived on chain, the hashlock is its keccak256, and the last statement
  hands the secret to \<^verbatim>\<open>_storeSecretForRelayer\<close>, which emits it.
\<close>

definition storeSecretForRelayer :: "bytes32 \<Rightarrow> bytes32 \<Rightarrow> action list" where
  "storeSecretForRelayer orderHash secret = [Emit (SecretGenerated orderHash secret)]"

definition createOutgoingOrder ::
  "(bytes \<Rightarrow> bytes32) \<Rightarrow> ext_oracle \<Rightarrow> env \<Rightarrow> address \<Rightarrow> address \<Rightarrow> uint256 \<Rightarrow> uint256 \<Rightarrow> address
     \<Rightarrow> uint256 \<Rightarrow> uint256 \<Rightarrow> MonadBridge \<times> MonadHTLC
     \<Rightarrow> sol_error + ((bytes32 \<times> MonadBridge \<times> MonadHTLC) \<times> action list)" where
  "createOutgoingOrder keccak256 ext e tokenIn tokenOut amountIn amountOut ethereumReceiver
       targetChainId customTimelock w =
    (let b = fst w; contracts = snd w in
     if msg_value e \<noteq> 0 then Inl NotPayable
     else if \<not> mb_supportedChains b targetChainId then Inl (Require ''Unsupported target chain'')
     else if \<not> (amountIn > 0 \<and> amountOut > 0) then Inl (Require ''Invalid amounts'')
     else if ethereumReceiver = 0 then Inl (Require ''Invalid receiver address'')
     else if tokenIn = 0 then Inl (Require ''Invalid input token'')
     else if tokenOut = 0 then Inl (Require ''Invalid output token'')
     else
       let timelock = (if customTimelock = 0 then mb_defaultTimelock b else customTimelock) in
       if \<not> (timelock \<ge> mb_minTimelock b \<and> timelock \<le> mb_maxTimelock b)
         then Inl (Require ''Invalid timelock'')
       else
         let secret = keccak256 (encodePacked
               [AbiAddress (msg_sender e), AbiUint (block_timestamp e),
                AbiUint (block_difficulty e), AbiUint amountIn, AbiUint amountOut]);
             hashlock = keccak256 (encodePacked [AbiBytes32 secret])
         in case checked_add (block_timestamp e) timelock of
              Inl err \<Rightarrow> Inl err
            | Inr deadline \<Rightarrow>
                let orderHash = keccak256 (encodePacked
                      [AbiAddress (msg_sender e), AbiAddress tokenIn, AbiAddress tokenOut,
                       AbiUint amountIn, AbiUint amountOut, AbiBytes32 hashlock, AbiUint deadline,
                       AbiUint targetChainId, AbiAddress ethereumReceiver])
                in if oo_maker (mb_outgoingOrders b orderHash) \<noteq> 0
                     then Inl (Require ''Order already exists'')
                   else
                     let created =
                       (if tokenIn = 0 then
                          (if msg_value e \<noteq> amountIn
                           then Inl (Require ''Incorrect native token amount'')
                           else newContract keccak256
                                  (e\<lparr>msg_sender := this e, msg_value := amountIn,
                                     this := mb_htlcContract b\<rparr>)
                                  (this e) hashlock deadline contracts)
                        else
                          (if \<not> ext (ERC20TransferFrom tokenIn (msg_sender e) (this e) amountIn)
                             then Inl CallFailed
                           else if \<not> ext (ERC20Approve tokenIn (mb_htlcContract b) amountIn)
                             then Inl CallFailed
                           else
                             (case newContractERC20 keccak256 ext
                                     (e\<lparr>msg_sender := this e, msg_value := 0,
                                        this := mb_htlcContract b\<rparr>)
                                     (this e) hashlock deadline tokenIn amountIn contracts of
                                Inl err \<Rightarrow> Inl err
                              | Inr (r, acts) \<Rightarrow>
                                  Inr (r, [Call (ERC20TransferFrom tokenIn (msg_sender e) (this e)
                                                   amountIn),
                                           Call (ERC20Approve tokenIn (mb_htlcContract b) amountIn)]
                                          @ acts))))
                     in case created of
                          Inl err \<Rightarrow> Inl err
                        | Inr ((htlcContractId, contracts'), acts) \<Rightarrow>
                            Inr ((orderHash,
                                  b\<lparr>mb_outgoingOrders := (mb_outgoingOrders b)
                                      (orderHash := \<lparr>oo_orderHash = orderHash, oo_tokenIn = tokenIn,
                                         oo_tokenOut = tokenOut, oo_amountIn = amountIn,
                                         oo_amountOut = amountOut, oo_hashlock = hashlock,
                                         oo_timelock = deadline, oo_maker = msg_sender e,
                                         oo_ethereumReceiver = ethereumReceiver, oo_isActive = True,
                                         oo_targetChainId = targetChainId,
                                         oo_htlcContractId = htlcContractId\<rparr>),
                                    mb_userOutgoingOrders := (mb_userOutgoingOrders b)
                                      (msg_sender e := mb_userOutgoingOrders b (msg_sender e)
                                         @ [orderHash])\<rparr>,
                                  contracts'),
                                 acts
                                 @ [Emit (OutgoingOrderCreated orderHash (msg_sender e) tokenIn
                                            tokenOut amountIn amountOut hashlock deadline
                                            targetChainId ethereumReceiver)]
                                 @ storeSecretForRelayer orderHash secret))"

section \<open>FusionMonadAdapter\<close>

record CrossChainOrder =
  co_orderHash :: bytes32
  co_tokenIn :: address
  co_tokenOut :: address
  co_amountIn :: uint256
  co_amountOut :: uint256
  co_hashlock :: bytes32
  co_timelock :: uint256
  co_maker :: address
  co_monadReceiver :: address
  co_chainId :: uint256
  co_isActive :: bool
  co_isFulfilled :: bool
  co_createdAt :: uint256
  co_htlcContractId :: bytes32

definition zero_CrossChainOrder :: CrossChainOrder where
  "zero_CrossChainOrder = \<lparr>co_orderHash = 0, co_tokenIn = 0, co_tokenOut = 0, co_amountIn = 0,
     co_amountOut = 0, co_hashlock = 0, co_timelock = 0, co_maker = 0, co_monadReceiver = 0,
     co_chainId = 0, co_isActive = False, co_isFulfilled = False, co_createdAt = 0,
     co_htlcContractId = 0\<rparr>"

record FusionMonadAdapter =
  fa_owner :: address
  fa_orders :: "bytes32 \<Rightarrow> CrossChainOrder"
  fa_userOrders :: "address \<Rightarrow> bytes32 list"
  fa_supportedChains :: "uint256 \<Rightarrow> bool"
  fa_htlcContract :: address
  fa_defaultTimelock :: uint256
  fa_minTimelock :: uint256
  fa_maxTimelock :: uint256

text \<open>
  The constructor: the deployer becomes the owner (\<^verbatim>\<open>Ownable\<close>), chains 1 and
  11155111 are supported, and the timelock parameters start at 24 hours (default),
  1 hour (minimum) and 7 days (maximum).
\<close>

definition constructor_FusionMonadAdapter :: "env \<Rightarrow> address \<Rightarrow> sol_error + FusionMonadAdapter" where
  "constructor_FusionMonadAdapter e htlc =
    (if htlc = 0 then Inl (Require ''Invalid HTLC contract address'')
     else Inr \<lparr>fa_owner = msg_sender e,
               fa_orders = (\<lambda>k. zero_CrossChainOrder),
               fa_userOrders = (\<lambda>a. []),
               fa_supportedChains = (\<lambda>c. c = 1 \<or> c = 11155111),
               fa_htlcContract = htlc,
               fa_defaultTimelock = 24 * 3600,
               fa_minTimelock = 1 * 3600,
               fa_maxTimelock = 7 * 86400\<rparr>)"

text \<open>
  \<^verbatim>\<open>function updateTimelockParams(uint256 _minTimelock, uint256 _maxTimelock,
  uint256 _defaultTimelock) external onlyOwner\<close>: the owner replaces the three
  parameters. The message of \<^verbatim>\<open>onlyOwner\<close> is the one of the OpenZeppelin
  \<^verbatim>\<open>Ownable\<close> the contract imports.
\<close>

definition updateTimelockParams ::
  "env \<Rightarrow> uint256 \<Rightarrow> uint256 \<Rightarrow> uint256 \<Rightarrow> FusionMonadAdapter \<Rightarrow> sol_error + FusionMonadAdapter" where
  "updateTimelockParams e newMin newMax newDefault a =
    (if msg_value e \<noteq> 0 then Inl NotPayable
     else if fa_owner a \<noteq> msg_sender e then Inl (Require ''Ownable: caller is not the owner'')
     else if \<not> (newMin < newMax) then Inl (Require ''Invalid timelock range'')
     else if \<not> (newDefault \<ge> newMin \<and> newDefault \<le> newMax)
       then Inl (Require ''Invalid default timelock'')
     else Inr (a\<lparr>fa_minTimelock := newMin, fa_maxTimelock := newMax,
                 fa_defaultTimelock := newDefault\<rparr>))"

text \<open>
  \<^verbatim>\<open>function createCrossChainOrder(address tokenIn, address tokenOut, uint256 amountIn,
  uint256 amountOut, address monadReceiver, uint256 targetChainId, uint256 customTimelock)
  external override nonReentrant returns (bytes32 orderHash)\<close>. The escrow contract
  \<^verbatim>\<open>EthereumHTLC\<close> it calls is not among the sources: its two entry points
  \<^verbatim>\<open>newContract\<close> and \<^verbatim>\<open>newContractERC20\<close> are the parameters \<open>htlcNew\<close> and
  \<open>htlcNewERC20\<close>, over any storage type \<open>'h\<close>.
\<close>

definition createCrossChainOrder ::
  "(bytes \<Rightarrow> bytes32) \<Rightarrow> ext_oracle
     \<Rightarrow> (env \<Rightarrow> address \<Rightarrow> bytes32 \<Rightarrow> uint256 \<Rightarrow> 'h \<Rightarrow> sol_error + ((bytes32 \<times> 'h) \<times> action list))
     \<Rightarrow> (env \<Rightarrow> address \<Rightarrow> bytes32 \<Rightarrow> uint256 \<Rightarrow> address \<Rightarrow> uint256 \<Rightarrow> 'h
           \<Rightarrow> sol_error + ((bytes32 \<times> 'h) \<times> action list))
     \<Rightarrow> env \<Rightarrow> address \<Rightarrow> address \<Rightarrow> uint256 \<Rightarrow> uint256 \<Rightarrow> address \<Rightarrow> uint256 \<Rightarrow> uint256
     \<Rightarrow> FusionMonadAdapter \<times> 'h
     \<Rightarrow> sol_error + ((bytes32 \<times> FusionMonadAdapter \<times> 'h) \<times> action list)" where
  "createCrossChainOrder keccak256 ext htlcNew htlcNewERC20 e tokenIn tokenOut amountIn amountOut
       monadReceiver targetChainId customTimelock w =
    (let a = fst w; contracts = snd w in
     if msg_value e \<noteq> 0 then Inl NotPayable
     else if \<not> fa_supportedChains a targetChainId then Inl (Require ''Unsupported target chain'')
     else if \<not> (amountIn > 0 \<and> amountOut > 0) then Inl (Require ''Invalid amounts'')
     else if monadReceiver = 0 then Inl (Require ''Invalid receiver address'')
     else if tokenIn = 0 then Inl (Require ''Invalid input token'')
     else if tokenOut = 0 then Inl (Require ''Invalid output token'')
     else
       let timelock = (if customTimelock = 0 then fa_defaultTimelock a else customTimelock) in
       if \<not> (timelock \<ge> fa_minTimelock a \<and> timelock \<le> fa_maxTimelock a)
         then Inl (Require ''Invalid timelock'')
       else
         let secret = keccak256 (encodePacked
               [AbiAddress (msg_sender e), AbiUint (block_timestamp e),
                AbiUint (block_difficulty e), AbiUint amountIn, AbiUint amountOut]);
             hashlock = keccak256 (encodePacked [AbiBytes32 secret])
         in case checked_add (block_timestamp e) timelock of
              Inl err \<Rightarrow> Inl err
            | Inr deadline \<Rightarrow>
                let orderHash = keccak256 (encodePacked
                      [AbiAddress (msg_sender e), AbiAddress tokenIn, AbiAddress tokenOut,
                       AbiUint amountIn, AbiUint amountOut, AbiBytes32 hashlock, AbiUint deadline,
                       AbiUint targetChainId, AbiAddress monadReceiver])
                in if co_maker (fa_orders a orderHash) \<noteq> 0
                     then Inl (Require ''Order already exists'')
                   else
                     let created =
                       (if tokenIn = 0 then
                          (if msg_value e \<noteq> amountIn then Inl (Require ''Incorrect ETH amount'')
                           else htlcNew
                                  (e\<lparr>msg_sender := this e, msg_value := amountIn,
                                     this := fa_htlcContract a\<rparr>)
                                  (this e) hashlock deadline contracts)
                        else
                          (if \<not> ext (ERC20TransferFrom tokenIn (msg_sender e) (this e) amountIn)
                             then Inl CallFailed
                           else if \<not> ext (ERC20Approve tokenIn (fa_htlcContract a) amountIn)
                             then Inl CallFailed
                           else
                             (case htlcNewERC20
                                     (e\<lparr>msg_sender := this e, msg_value := 0,
                                        this := fa_htlcContract a\<rparr>)
                                     (this e) hashlock deadline tokenIn amountIn contracts of
                                Inl err \<Rightarrow> Inl err
                              | Inr (r, acts) \<Rightarrow>
                                  Inr (r, [Call (ERC20TransferFrom tokenIn (msg_sender e) (this e)
                                                   amountIn),
                                           Call (ERC20Approve tokenIn (fa_htlcContract a) amountIn)]
                                          @ acts))))
                     in case created of
                          Inl err \<Rightarrow> Inl err
                        | Inr ((htlcContractId, contracts'), acts) \<Rightarrow>
                            Inr ((orderHash,
                                  a\<lparr>fa_orders := (fa_orders a)
                                      (orderHash := \<lparr>co_orderHash = orderHash, co_tokenIn = tokenIn,
                                         co_tokenOut = tokenOut, co_amountIn = amountIn,
                                         co_amountOut = amountOut, co_hashlock = hashlock,
                                         co_timelock = deadline, co_maker = msg_sender e,
                                         co_monadReceiver = monadReceiver, co_chainId = targetChainId,
                                         co_isActive = True, co_isFulfilled = False,
                                         co_createdAt = block_timestamp e,
                                         co_htlcContractId = htlcContractId\<rparr>),
                                    fa_userOrders := (fa_userOrders a)
                                      (msg_sender e := fa_userOrders a (msg_sender e) @ [orderHash])\<rparr>,
                                  contracts'),
                                 acts
                                 @ [Emit (CrossChainOrderCreated orderHash (msg_sender e) tokenIn
                                            tokenOut amountIn amountOut hashlock deadline
                                            targetChainId monadReceiver)]
                                 @ storeSecretForRelayer orderHash secret))"

section \<open>The relayer's mirror call\<close>

text \<open>
  \<^verbatim>\<open>EventMonitor.handleCrossChainOrderCreated\<close> hands the fields of a
  \<^verbatim>\<open>CrossChainOrderCreated\<close> event to \<^verbatim>\<open>RelayerService.relayEthereumToMonad\<close>,
  which calls \<^verbatim>\<open>monadBridge.processEthereumOrder\<close> with them: the order hash, the
  tokens, the amounts (as decimal strings), the hashlock, \<^verbatim>\<open>Number(timelock)\<close>, the
  maker and the receiver. A JavaScript number is accepted for a \<^verbatim>\<open>uint256\<close> only when
  it is a safe integer, so a timelock above 2^53 - 1 is never sent. One attempt is
  modelled; the retry repeats the same call.
\<close>

datatype relay_error = NotSent | Reverted sol_error

fun relayEthereumToMonad ::
  "(bytes \<Rightarrow> bytes32) \<Rightarrow> env \<Rightarrow> log \<Rightarrow> MonadBridge \<Rightarrow> relay_error + (MonadBridge \<times> action list)" where
  "relayEthereumToMonad keccak256 e
       (CrossChainOrderCreated orderHash maker tokenIn tokenOut amountIn amountOut hashlock
          timelock targetChainId monadReceiver) b =
     (if unat timelock > 2 ^ 53 - 1 then Inl NotSent
      else case processEthereumOrder keccak256 e orderHash tokenIn tokenOut amountIn amountOut
                  hashlock timelock maker monadReceiver b of
             Inl err \<Rightarrow> Inl (Reverted err)
           | Inr r \<Rightarrow> Inr r)"
| "relayEthereumToMonad keccak256 e ev b = Inl NotSent"

section \<open>ResolverService (TypeScript)\<close>

text \<open>
  JavaScript numbers that hold block heights, unix times and millisecond clocks are
  integers here. A \<^verbatim>\<open>Map\<close> keeps its entries in insertion order: it is a list of
  pairs, \<^verbatim>\<open>set\<close> replaces the value of a present key in place and appends an absent
  one, \<^verbatim>\<open>delete\<close> drops the entry, \<^verbatim>\<open>size\<close> is the length. Every entry of
  \<^verbatim>\<open>pendingOrders\<close> holds an object of its own, so writing to the object that
  \<^verbatim>\<open>get\<close> returned is an update of that entry.
\<close>

fun map_set :: "'k \<Rightarrow> 'v \<Rightarrow> ('k \<times> 'v) list \<Rightarrow> ('k \<times> 'v) list" where
  "map_set k v [] = [(k, v)]"
| "map_set k v (p # ps) = (if fst p = k then (k, v) # ps else p # map_set k v ps)"

definition map_get :: "('k \<times> 'v) list \<Rightarrow> 'k \<Rightarrow> 'v option" where
  "map_get m k = map_of m k"

datatype chain = ethereum | monad

datatype order_status = pending | resolved | refunded

record PendingOrder =
  p_orderHash :: string
  p_sourceChain :: chain
  p_targetChain :: chain
  p_tokenIn :: string
  p_tokenOut :: string
  p_amountIn :: string
  p_amountOut :: string
  p_hashlock :: string
  p_timelock :: int
  p_maker :: string
  p_receiver :: string
  p_status :: order_status
  p_createdAt :: int
  p_resolvedAt :: "int option"
  p_refundedAt :: "int option"
  p_secret :: "string option"

record resolver =
  pendingOrders :: "(string \<times> PendingOrder) list"
  secretStore :: "(string \<times> string) list"

definition ORDER_TIMEOUT_BUFFER :: int where
  "ORDER_TIMEOUT_BUFFER = 60 * 60"

definition MAX_PENDING_ORDERS :: nat where
  "MAX_PENDING_ORDERS = 1000"

text \<open>
  The transactions the resolver submits through its contract handles. Whether a
  submission throws is decided by the chain: it is the parameter \<open>sent\<close> of the
  functions below. The list of submissions attempted is returned next to the state.
\<close>

datatype submission =
    FulfillOrder string string
  | FulfillIncomingOrder string string
  | AdapterRefund string
  | HtlcWithdraw chain string string

datatype js_error = Error string | TxFailed submission

text \<open>
  \<^verbatim>\<open>executeAtomicSwapBothChains\<close>: Ethereum first for an order from Ethereum, Monad
  first otherwise; the second call is not made when the first throws.
\<close>

definition executeAtomicSwapBothChains ::
  "(submission \<Rightarrow> bool) \<Rightarrow> PendingOrder \<Rightarrow> string \<Rightarrow> submission list \<times> js_error option" where
  "executeAtomicSwapBothChains sent order' secret =
    (let first_call = (if p_sourceChain order' = ethereum
                       then FulfillOrder (p_orderHash order') secret
                       else FulfillIncomingOrder (p_orderHash order') secret);
         second_call = (if p_sourceChain order' = ethereum
                        then FulfillIncomingOrder (p_orderHash order') secret
                        else FulfillOrder (p_orderHash order') secret)
     in if \<not> sent first_call then ([first_call], Some (TxFailed first_call))
        else if \<not> sent second_call then ([first_call, second_call], Some (TxFailed second_call))
        else ([first_call, second_call], None))"

text \<open>
  \<^verbatim>\<open>resolveAtomicSwap(orderHash, secret)\<close>. \<open>keccak256_utf8\<close> is
  \<^verbatim>\<open>ethers.keccak256(ethers.toUtf8Bytes(secret))\<close>, \<open>now\<close> the value of
  \<^verbatim>\<open>Date.now()\<close> when the order is marked. The result is the state and the
  submissions, and the error rethrown by the \<^verbatim>\<open>catch\<close> block if there is one.
\<close>

definition resolveAtomicSwap ::
  "(string \<Rightarrow> string) \<Rightarrow> (submission \<Rightarrow> bool) \<Rightarrow> int \<Rightarrow> string \<Rightarrow> string \<Rightarrow> resolver
     \<Rightarrow> (resolver \<times> submission list) \<times> js_error option" where
  "resolveAtomicSwap keccak256_utf8 sent now orderHash secret r =
    (case map_get (pendingOrders r) orderHash of
       None \<Rightarrow> ((r, []), Some (Error (''No pending order found for hash '' @ orderHash)))
     | Some pendingOrder \<Rightarrow>
         if keccak256_utf8 secret \<noteq> p_hashlock pendingOrder
         then ((r, []), Some (Error ''Invalid secret provided''))
         else
           let r1 = r\<lparr>secretStore := map_set orderHash secret (secretStore r)\<rparr> in
           (case executeAtomicSwapBothChains sent pendingOrder secret of
              (calls, Some err) \<Rightarrow> ((r1, calls), Some err)
            | (calls, None) \<Rightarrow>
                ((r1\<lparr>pendingOrders := map_set orderHash
                        (pendingOrder\<lparr>p_status := resolved, p_secret := Some secret,
                           p_resolvedAt := Some now\<rparr>)
                        (pendingOrders r1)\<rparr>,
                  calls), None)))"

text \<open>
  \<^verbatim>\<open>processRefund(order)\<close>: for an order from Ethereum the adapter's
  \<^verbatim>\<open>refund\<close> is submitted and the order is marked once the call has returned; when
  the call throws, the error is logged and the order is left as it was. For an order from
  Monad nothing is submitted and the order is marked. \<open>stamp\<close> gives
  \<^verbatim>\<open>Date.now()\<close> at the moment the order is marked.
\<close>

definition processRefund ::
  "(submission \<Rightarrow> bool) \<Rightarrow> (PendingOrder \<Rightarrow> int) \<Rightarrow> PendingOrder
     \<Rightarrow> PendingOrder \<times> submission list" where
  "processRefund sent stamp order' =
    (if p_sourceChain order' = ethereum then
       (if sent (AdapterRefund (p_orderHash order'))
        then (order'\<lparr>p_status := refunded, p_refundedAt := Some (stamp order')\<rparr>,
              [AdapterRefund (p_orderHash order')])
        else (order', [AdapterRefund (p_orderHash order')]))
     else (order'\<lparr>p_status := refunded, p_refundedAt := Some (stamp order')\<rparr>, []))"

text \<open>
  JavaScript arithmetic is done on IEEE doubles. On integers it is exact as long as the
  result is below 2^53 in magnitude; a larger result is rounded to the nearest double,
  which keeps the 53 leading bits and rounds a tie to the even neighbour.
  \<open>to_double\<close> is that rounding on integers, \<open>js_times\<close> and \<open>js_minus\<close> are
  \<^verbatim>\<open>*\<close> and \<^verbatim>\<open>-\<close> on integer-valued numbers. A result beyond the largest
  double is the infinity in JavaScript and a very large integer here, which compares in
  the same way with any clock value.
\<close>

function bit_length :: "int \<Rightarrow> nat" where
  "bit_length n = (if n \<le> 0 then 0 else Suc (bit_length (n div 2)))"
  by pat_completeness auto
termination
  by (relation "measure nat") auto

declare bit_length.simps [simp del]

definition to_double :: "int \<Rightarrow> int" where
  "to_double x =
    (if \<bar>x\<bar> < 2 ^ 53 then x
     else
       let e = bit_length \<bar>x\<bar> - 53;
           q = \<bar>x\<bar> div 2 ^ e;
           r = \<bar>x\<bar> mod 2 ^ e;
           half = 2 ^ (e - 1);
           q' = (if r > half \<or> (r = half \<and> odd q) then q + 1 else q)
       in sgn x * (q' * 2 ^ e))"

definition js_times :: "int \<Rightarrow> int \<Rightarrow> int" where
  "js_times a b = to_double (a * b)"

definition js_minus :: "int \<Rightarrow> int \<Rightarrow> int" where
  "js_minus a b = to_double (a - b)"

text \<open>
  \<^verbatim>\<open>handleTimeoutRefunds()\<close>: the orders selected are those with
  \<^verbatim>\<open>status === 'pending' && currentTime > (order.timelock * 1000) - (this.ORDER_TIMEOUT_BUFFER * 1000)\<close>,
  with \<open>currentTime\<close> in milliseconds and the timelock, a whole number of seconds, in
  seconds; they are refunded one after the other in the order of the table.
\<close>

definition expired :: "int \<Rightarrow> PendingOrder \<Rightarrow> bool" where
  "expired currentTime order' =
     (p_status order' = pending
      \<and> currentTime > js_minus (js_times (p_timelock order') 1000)
                                 (js_times ORDER_TIMEOUT_BUFFER 1000))"

fun refundEach ::
  "(submission \<Rightarrow> bool) \<Rightarrow> (PendingOrder \<Rightarrow> int) \<Rightarrow> int \<Rightarrow> (string \<times> PendingOrder) list
     \<Rightarrow> (string \<times> PendingOrder) list \<times> submission list" where
  "refundEach sent stamp currentTime [] = ([], [])"
| "refundEach sent stamp currentTime ((k, order') # rest) =
     (if expired currentTime order' then
        (case processRefund sent stamp order' of (refundedOrder, calls) \<Rightarrow>
           (case refundEach sent stamp currentTime rest of (rest', calls') \<Rightarrow>
              ((k, refundedOrder) # rest', calls @ calls')))
      else
        (case refundEach sent stamp currentTime rest of (rest', calls') \<Rightarrow>
           ((k, order') # rest', calls')))"

definition handleTimeoutRefunds ::
  "(submission \<Rightarrow> bool) \<Rightarrow> (PendingOrder \<Rightarrow> int) \<Rightarrow> int \<Rightarrow> resolver
     \<Rightarrow> resolver \<times> submission list" where
  "handleTimeoutRefunds sent stamp currentTime r =
    (case refundEach sent stamp currentTime (pendingOrders r) of
       (orders', calls) \<Rightarrow> (r\<lparr>pendingOrders := orders'\<rparr>, calls))"

text \<open>
  \<^verbatim>\<open>cleanupOldOrders()\<close> deletes the entries that are not pending and were created
  more than 24 hours before \<open>now\<close>; \<^verbatim>\<open>addPendingOrder(order)\<close> runs it when the
  table holds \<^verbatim>\<open>MAX_PENDING_ORDERS\<close> entries or more, and then stores the order.
  \<open>now\<close> is the value of \<^verbatim>\<open>Date.now()\<close>, at most 8.64 * 10^15 in magnitude, so
  that the cutoff \<^verbatim>\<open>Date.now() - (24 * 60 * 60 * 1000)\<close> is computed without rounding.
\<close>

definition cleanupOldOrders :: "int \<Rightarrow> (string \<times> PendingOrder) list \<Rightarrow> (string \<times> PendingOrder) list" where
  "cleanupOldOrders now m =
     filter (\<lambda>p. \<not> (p_status (snd p) \<noteq> pending
                     \<and> p_createdAt (snd p) < now - 24 * 60 * 60 * 1000)) m"

definition addPendingOrder :: "int \<Rightarrow> PendingOrder \<Rightarrow> resolver \<Rightarrow> resolver" where
  "addPendingOrder now order' r =
    (let cleaned = (if length (pendingOrders r) \<ge> MAX_PENDING_ORDERS
                    then cleanupOldOrders now (pendingOrders r) else pendingOrders r)
     in r\<lparr>pendingOrders := map_set (p_orderHash order') order' cleaned\<rparr>)"

text \<open>
  The HTLC events that \<^verbatim>\<open>processEvents\<close> is given, and its handlers.
  \<^verbatim>\<open>handleHTLCCreated\<close> and \<^verbatim>\<open>handleHTLCRefunded\<close> only log;
  \<^verbatim>\<open>handleHTLCWithdrawn\<close> calls \<^verbatim>\<open>propagateSecret\<close> when the event carries a
  non-empty secret, which submits \<^verbatim>\<open>withdraw(contractId, secret)\<close> on the other
  chain and logs a failure. None of them reads or writes the resolver's tables, and
  there is no set of events already seen.
\<close>

datatype event_type = ev_created | ev_withdrawn | ev_refunded

record HTLCEvent =
  ev_type :: event_type
  ev_contractId :: string
  ev_chain :: string
  ev_blockNumber :: int
  ev_transactionHash :: string
  ev_secret :: "string option"

definition propagateSecret :: "string \<Rightarrow> string \<Rightarrow> string \<Rightarrow> submission list" where
  "propagateSecret contractId secret sourceChain =
    (let targetChain = (if sourceChain = ''ethereum'' then ''monad'' else ''ethereum'') in
     if targetChain = ''monad'' then [HtlcWithdraw monad contractId secret]
     else [HtlcWithdraw ethereum contractId secret])"

definition handleHTLCWithdrawn :: "HTLCEvent \<Rightarrow> submission list" where
  "handleHTLCWithdrawn event =
    (case ev_secret event of
       None \<Rightarrow> []
     | Some s \<Rightarrow> if s = [] then [] else propagateSecret (ev_contractId event) s (ev_chain event))"

fun processEvents :: "HTLCEvent list \<Rightarrow> resolver \<Rightarrow> resolver \<times> submission list" where
  "processEvents [] r = (r, [])"
| "processEvents (event # events) r =
     (let calls = (case ev_type event of
                     ev_created \<Rightarrow> []
                   | ev_withdrawn \<Rightarrow> handleHTLCWithdrawn event
                   | ev_refunded \<Rightarrow> [])
      in case processEvents events r of (r', calls') \<Rightarrow> (r', calls @ calls'))"

section \<open>EventMonitor (TypeScript)\<close>

text \<open>
  One polling iteration per chain. What the chain answers is the environment of the
  iteration: the block number (or the error of the call, which includes not reaching a
  provider at all), for every event filter and block range the events found (or the
  error of the query), and for every attempt to relay an order whether that attempt goes
  through. An event whose arguments cannot be read makes its handler throw inside the
  handler's own \<^verbatim>\<open>try\<close>; the handler logs it and returns. The iteration yields the
  new monitor state and what was done: events handled and errors logged, in order.
\<close>

record monitor =
  isRunning :: bool
  lastProcessedEthereum :: int
  lastProcessedMonad :: int

definition BLOCK_CONFIRMATIONS :: int where
  "BLOCK_CONFIRMATIONS = 3"

definition MAX_BLOCKS_PER_QUERY :: int where
  "MAX_BLOCKS_PER_QUERY = 100"

record chain_event =
  ce_filter :: string
  ce_blockNumber :: int
  ce_decodable :: bool

datatype monitor_action = Handled chain_event | Relayed chain_event nat | LoggedError string

record chain_env =
  getBlockNumber :: "js_error + int"
  queryFilter :: "string \<Rightarrow> int \<Rightarrow> int \<Rightarrow> js_error + chain_event list"
  relayAttempt :: "chain_event \<Rightarrow> nat \<Rightarrow> bool"

text \<open>
  \<^verbatim>\<open>RelayerService.relayEthereumToMonad\<close> as the monitor awaits it. A failed call is
  caught inside the function, which then awaits
  \<^verbatim>\<open>retryWithBackoff(() => this.relayEthereumToMonad(orderData), ...)\<close>: the function
  it retries is itself, and that call catches its own failure in the same way. So no
  invocation ever throws, \<^verbatim>\<open>retryWithBackoff\<close> never counts a retry, and the
  attempts go on until one goes through. \<open>relayUntilSent attempt n\<close> makes attempt
  number \<open>n\<close> and the following ones; it returns the number of the attempt that went
  through, and does not return (the value \<open>None\<close>) when none does.
\<close>

partial_function (option) relayUntilSent :: "(nat \<Rightarrow> bool) \<Rightarrow> nat \<Rightarrow> nat option" where
  "relayUntilSent attempt n = (if attempt n then Some n else relayUntilSent attempt (Suc n))"

text \<open>
  The handlers. Every handler wraps its body in \<^verbatim>\<open>try\<close>/\<^verbatim>\<open>catch\<close> and logs
  under its own message. \<^verbatim>\<open>handleCrossChainOrderCreated\<close> awaits the relay, so it
  returns only if the relay does; the others only log.
\<close>

definition handleCrossChainOrderCreated :: "chain_env \<Rightarrow> chain_event \<Rightarrow> monitor_action option" where
  "handleCrossChainOrderCreated env event =
     (if \<not> ce_decodable event
      then Some (LoggedError ''Failed to handle CrossChainOrderCreated event:'')
      else case relayUntilSent (relayAttempt env event) 0 of
             None \<Rightarrow> None
           | Some n \<Rightarrow> Some (Relayed event n))"

definition handleCrossChainOrderFulfilled :: "chain_event \<Rightarrow> monitor_action" where
  "handleCrossChainOrderFulfilled event =
     (if ce_decodable event then Handled event
      else LoggedError ''Failed to handle CrossChainOrderFulfilled event:'')"

definition handleCrossChainOrderRefunded :: "chain_event \<Rightarrow> monitor_action" where
  "handleCrossChainOrderRefunded event =
     (if ce_decodable event then Handled event
      else LoggedError ''Failed to handle CrossChainOrderRefunded event:'')"

definition handleHTLCCreated :: "chain_event \<Rightarrow> string \<Rightarrow> monitor_action" where
  "handleHTLCCreated event chain =
     (if ce_decodable event then Handled event
      else LoggedError (''Failed to handle HTLC Created event on '' @ chain @ '':''))"

definition handleHTLCWithdrawn_monitor :: "chain_event \<Rightarrow> string \<Rightarrow> monitor_action" where
  "handleHTLCWithdrawn_monitor event chain =
     (if ce_decodable event then Handled event
      else LoggedError (''Failed to handle HTLC Withdrawn event on '' @ chain @ '':''))"

definition handleHTLCRefunded :: "chain_event \<Rightarrow> string \<Rightarrow> monitor_action" where
  "handleHTLCRefunded event chain =
     (if ce_decodable event then Handled event
      else LoggedError (''Failed to handle HTLC Refunded event on '' @ chain @ '':''))"

definition handleIncomingOrderProcessed :: "chain_event \<Rightarrow> monitor_action" where
  "handleIncomingOrderProcessed event =
     (if ce_decodable event then Handled event
      else LoggedError ''Failed to handle IncomingOrderProcessed event:'')"

definition handleOutgoingOrderCreated :: "chain_event \<Rightarrow> monitor_action" where
  "handleOutgoingOrderCreated event =
     (if ce_decodable event then Handled event
      else LoggedError ''Failed to handle OutgoingOrderCreated event:'')"

text \<open>
  \<^verbatim>\<open>for (const event of orderCreatedEvents) await this.handleCrossChainOrderCreated(event)\<close>:
  the loop does not get past an event whose handler does not return.
\<close>

fun handleOrderCreatedEvents :: "chain_env \<Rightarrow> chain_event list \<Rightarrow> monitor_action list option" where
  "handleOrderCreatedEvents env [] = Some []"
| "handleOrderCreatedEvents env (event # events) =
     (case handleCrossChainOrderCreated env event of
        None \<Rightarrow> None
      | Some handled \<Rightarrow>
          (case handleOrderCreatedEvents env events of
             None \<Rightarrow> None
           | Some rest \<Rightarrow> Some (handled # rest)))"

definition processFusionAdapterEvents ::
  "chain_env \<Rightarrow> int \<Rightarrow> int \<Rightarrow> monitor_action list option" where
  "processFusionAdapterEvents env fromBlock toBlock =
    (case queryFilter env ''CrossChainOrderCreated'' fromBlock toBlock of
       Inl err \<Rightarrow> Some [LoggedError ''Failed to process Fusion Adapter events:'']
     | Inr orderCreatedEvents \<Rightarrow>
         (case handleOrderCreatedEvents env orderCreatedEvents of
            None \<Rightarrow> None
          | Some relayed \<Rightarrow>
              Some (relayed @
                (case queryFilter env ''CrossChainOrderFulfilled'' fromBlock toBlock of
                   Inl err \<Rightarrow> [LoggedError ''Failed to process Fusion Adapter events:'']
                 | Inr orderFulfilledEvents \<Rightarrow>
                     map handleCrossChainOrderFulfilled orderFulfilledEvents @
                     (case queryFilter env ''CrossChainOrderRefunded'' fromBlock toBlock of
                        Inl err \<Rightarrow> [LoggedError ''Failed to process Fusion Adapter events:'']
                      | Inr orderRefundedEvents \<Rightarrow>
                          map handleCrossChainOrderRefunded orderRefundedEvents)))))"

text \<open>
  The three HTLC queries are awaited together (\<^verbatim>\<open>Promise.all\<close>): if one of them
  fails, no event of the range is handled.
\<close>

definition processEthereumHTLCEvents :: "chain_env \<Rightarrow> int \<Rightarrow> int \<Rightarrow> monitor_action list" where
  "processEthereumHTLCEvents env fromBlock toBlock =
    (case (queryFilter env ''HTLCCreated'' fromBlock toBlock,
           queryFilter env ''HTLCWithdrawn'' fromBlock toBlock,
           queryFilter env ''HTLCRefunded'' fromBlock toBlock) of
       (Inr createdEvents, Inr withdrawnEvents, Inr refundedEvents) \<Rightarrow>
         map (\<lambda>event. handleHTLCCreated event ''ethereum'') createdEvents
         @ map (\<lambda>event. handleHTLCWithdrawn_monitor event ''ethereum'') withdrawnEvents
         @ map (\<lambda>event. handleHTLCRefunded event ''ethereum'') refundedEvents
     | _ \<Rightarrow> [LoggedError ''Failed to process Ethereum HTLC events:''])"

definition processMonadHTLCEvents :: "chain_env \<Rightarrow> int \<Rightarrow> int \<Rightarrow> monitor_action list" where
  "processMonadHTLCEvents env fromBlock toBlock =
    (case (queryFilter env ''HTLCCreated'' fromBlock toBlock,
           queryFilter env ''HTLCWithdrawn'' fromBlock toBlock,
           queryFilter env ''HTLCRefunded'' fromBlock toBlock) of
       (Inr createdEvents, Inr withdrawnEvents, Inr refundedEvents) \<Rightarrow>
         map (\<lambda>event. handleHTLCCreated event ''monad'') createdEvents
         @ map (\<lambda>event. handleHTLCWithdrawn_monitor event ''monad'') withdrawnEvents
         @ map (\<lambda>event. handleHTLCRefunded event ''monad'') refundedEvents
     | _ \<Rightarrow> [LoggedError ''Failed to process Monad HTLC events:''])"

definition processMonadBridgeEvents :: "chain_env \<Rightarrow> int \<Rightarrow> int \<Rightarrow> monitor_action list" where
  "processMonadBridgeEvents env fromBlock toBlock =
    (case queryFilter env ''IncomingOrderProcessed'' fromBlock toBlock of
       Inl err \<Rightarrow> [LoggedError ''Failed to process Monad Bridge events:'']
     | Inr incomingOrderEvents \<Rightarrow>
         map handleIncomingOrderProcessed incomingOrderEvents @
         (case queryFilter env ''OutgoingOrderCreated'' fromBlock toBlock of
            Inl err \<Rightarrow> [LoggedError ''Failed to process Monad Bridge events:'']
          | Inr outgoingOrderEvents \<Rightarrow>
              map handleOutgoingOrderCreated outgoingOrderEvents))"

text \<open>
  \<^verbatim>\<open>monitorEthereumEvents()\<close>. The cursor is assigned after both processing calls
  have returned; \<open>None\<close> is the iteration that does not return.
\<close>

definition monitorEthereumEvents ::
  "chain_env \<Rightarrow> monitor \<Rightarrow> (monitor \<times> monitor_action list) option" where
  "monitorEthereumEvents env m =
    (if \<not> isRunning m then Some (m, [])
     else case getBlockNumber env of
       Inl err \<Rightarrow> Some (m, [LoggedError ''Failed to monitor Ethereum events:''])
     | Inr currentBlock \<Rightarrow>
         let safeBlock = currentBlock - BLOCK_CONFIRMATIONS in
         if safeBlock \<le> lastProcessedEthereum m then Some (m, [])
         else
           let fromBlock = lastProcessedEthereum m + 1;
               toBlock = min safeBlock (fromBlock + MAX_BLOCKS_PER_QUERY - 1)
           in (case processFusionAdapterEvents env fromBlock toBlock of
                 None \<Rightarrow> None
               | Some adapterActions \<Rightarrow>
                   Some (m\<lparr>lastProcessedEthereum := toBlock\<rparr>,
                         adapterActions @ processEthereumHTLCEvents env fromBlock toBlock)))"

text \<open>\<^verbatim>\<open>monitorMonadEvents()\<close>: none of its handlers awaits a relay.\<close>

definition monitorMonadEvents :: "chain_env \<Rightarrow> monitor \<Rightarrow> monitor \<times> monitor_action list" where
  "monitorMonadEvents env m =
    (if \<not> isRunning m then (m, [])
     else case getBlockNumber env of
       Inl err \<Rightarrow> (m, [LoggedError ''Failed to monitor Monad events:''])
     | Inr currentBlock \<Rightarrow>
         let safeBlock = currentBlock - BLOCK_CONFIRMATIONS in
         if safeBlock \<le> lastProcessedMonad m then (m, [])
         else
           let fromBlock = lastProcessedMonad m + 1;
               toBlock = min safeBlock (fromBlock + MAX_BLOCKS_PER_QUERY - 1)
           in (m\<lparr>lastProcessedMonad := toBlock\<rparr>,
               processMonadBridgeEvents env fromBlock toBlock
               @ processMonadHTLCEvents env fromBlock toBlock))"

section \<open>Concrete inputs\<close>

text \<open>Concrete stand-ins used where a statement is evaluated at an explicit input.\<close>

definition toy_hash :: "bytes \<Rightarrow> bytes32" where
  "toy_hash bs = word_of_nat (sum_list (map unat bs)) + 1"

definition all_calls_succeed :: ext_oracle where
  "all_calls_succeed c = True"

text \<open>The asset transfer of a pay-out: value for the native asset, an ERC20 transfer otherwise.\<close>

definition payout :: "address \<Rightarrow> address \<Rightarrow> uint256 \<Rightarrow> ext_call" where
  "payout tok to amount = (if tok = 0 then NativeSend to amount else ERC20Transfer tok to amount)"

text \<open>
  An escrow of 10^18 wei locked for receiver 45067 under the hashlock of the secret 4660,
  expiring at 1700086400, and a call made two days after that by the account 2989.
\<close>

definition locked_htlc :: HTLC where
  "locked_htlc = \<lparr>h_sender = 659150, h_receiver = 45067, h_hashlock = 71,
     h_timelock = 1700086400, h_token = 0, h_lockedAmount = 1000000000000000000,
     h_state = LockedState\<rparr>"

definition late_stranger_env :: env where
  "late_stranger_env = \<lparr>msg_sender = 2989, msg_value = 0, block_timestamp = 1700172800,
     block_difficulty = 0, this = 0\<rparr>"

definition receiver_env :: env where
  "receiver_env = \<lparr>msg_sender = 45067, msg_value = 0, block_timestamp = 1700000060,
     block_difficulty = 0, this = 0\<rparr>"

definition one_htlc :: MonadHTLC where
  "one_htlc = empty_MonadHTLC(9 := \<lparr>d_sender = 659150, d_receiver = 45067, d_token = 0,
     d_amount = 1000000000000000000, d_hashlock = 71, d_timelock = 1700086400,
     d_withdrawn = False, d_refunded = False, d_createdAt = 1700000000\<rparr>)"

text \<open>
  The duration that the order-creating functions enforce:
  \<^verbatim>\<open>customTimelock == 0 ? defaultTimelock : customTimelock\<close>.
\<close>

definition effectiveTimelock :: "uint256 \<Rightarrow> uint256 \<Rightarrow> uint256" where
  "effectiveTimelock customTimelock defaultTimelock =
     (if customTimelock = 0 then defaultTimelock else customTimelock)"

text \<open>The secret that both order-creating functions derive on chain.\<close>

definition order_secret :: "(bytes \<Rightarrow> bytes32) \<Rightarrow> env \<Rightarrow> uint256 \<Rightarrow> uint256 \<Rightarrow> bytes32" where
  "order_secret keccak256 e amountIn amountOut = keccak256 (encodePacked
     [AbiAddress (msg_sender e), AbiUint (block_timestamp e), AbiUint (block_difficulty e),
      AbiUint amountIn, AbiUint amountOut])"

text \<open>
  A freshly deployed adapter (escrow contract at 4096, adapter at 8192) and the maker
  659150 creating an order of 10^18 of token 1001 for 98 * 10^16 of token 1002 at time
  1700000000 with the default timelock. \<^verbatim>\<open>MonadHTLC\<close>, documented as identical in
  functionality to \<^verbatim>\<open>EthereumHTLC\<close>, stands in for the absent escrow contract.
\<close>

definition deployed_adapter :: FusionMonadAdapter where
  "deployed_adapter = \<lparr>fa_owner = 57005,
     fa_orders = (\<lambda>k. zero_CrossChainOrder),
     fa_userOrders = (\<lambda>a. []),
     fa_supportedChains = (\<lambda>c. c = 1 \<or> c = 11155111),
     fa_htlcContract = 4096,
     fa_defaultTimelock = 24 * 3600,
     fa_minTimelock = 1 * 3600,
     fa_maxTimelock = 7 * 86400\<rparr>"

definition maker_env :: env where
  "maker_env = \<lparr>msg_sender = 659150, msg_value = 0, block_timestamp = 1700000000,
     block_difficulty = 0, this = 8192\<rparr>"

definition created_order :: CrossChainOrder where
  "created_order = \<lparr>co_orderHash = 3294, co_tokenIn = 1001, co_tokenOut = 1002,
     co_amountIn = 1000000000000000000, co_amountOut = 980000000000000000, co_hashlock = 192,
     co_timelock = 1700086400, co_maker = 659150, co_monadReceiver = 45067, co_chainId = 1,
     co_isActive = True, co_isFulfilled = False, co_createdAt = 1700000000,
     co_htlcContractId = 2163\<rparr>"

definition created_adapter :: FusionMonadAdapter where
  "created_adapter = deployed_adapter
     \<lparr>fa_orders := (fa_orders deployed_adapter)(3294 := created_order),
      fa_userOrders := (fa_userOrders deployed_adapter)(659150 := [3294])\<rparr>"

definition created_escrows :: MonadHTLC where
  "created_escrows = empty_MonadHTLC(2163 := \<lparr>d_sender = 8192, d_receiver = 8192,
     d_token = 1001, d_amount = 1000000000000000000, d_hashlock = 192,
     d_timelock = 1700086400, d_withdrawn = False, d_refunded = False,
     d_createdAt = 1700000000\<rparr>)"

definition created_actions :: "action list" where
  "created_actions =
    [Call (ERC20TransferFrom 1001 659150 8192 1000000000000000000),
     Call (ERC20Approve 1001 4096 1000000000000000000),
     Call (ERC20TransferFrom 1001 8192 4096 1000000000000000000),
     Emit (HTLCCreated 2163 8192 8192 1001 1000000000000000000 192 1700086400),
     Emit (CrossChainOrderCreated 3294 659150 1001 1002 1000000000000000000 980000000000000000
             192 1700086400 1 45067),
     Emit (SecretGenerated 3294 2486)]"

text \<open>
  The Monad side of the same order: a bridge deployed at 8192 over the escrow contract at
  4096, the relayer 7777 authorised by the owner, the mirror call at time 1700000030 and
  the fulfiller 3054 locking the target funds at time 1700000060.
\<close>

definition deployed_bridge :: MonadBridge where
  "deployed_bridge = \<lparr>mb_incomingOrders = (\<lambda>k. zero_IncomingOrder),
     mb_outgoingOrders = (\<lambda>k. zero_OutgoingOrder),
     mb_userIncomingOrders = (\<lambda>a. []),
     mb_userOutgoingOrders = (\<lambda>a. []),
     mb_supportedChains = (\<lambda>c. c = 1 \<or> c = 11155111),
     mb_authorizedRelayers = (\<lambda>a. False),
     mb_htlcContract = 4096,
     mb_defaultTimelock = 24 * 3600,
     mb_minTimelock = 1 * 3600,
     mb_maxTimelock = 7 * 86400\<rparr>"

definition relayer_env :: env where
  "relayer_env = \<lparr>msg_sender = 7777, msg_value = 0, block_timestamp = 1700000030,
     block_difficulty = 0, this = 8192\<rparr>"

definition fulfiller_env :: env where
  "fulfiller_env = \<lparr>msg_sender = 3054, msg_value = 0, block_timestamp = 1700000060,
     block_difficulty = 0, this = 8192\<rparr>"

definition created_event :: log where
  "created_event = CrossChainOrderCreated 3294 659150 1001 1002 1000000000000000000
     980000000000000000 192 1700086400 1 45067"

definition mirrored_order :: IncomingOrder where
  "mirrored_order = \<lparr>io_ethereumOrderHash = 3294, io_tokenIn = 1001, io_tokenOut = 1002,
     io_amountIn = 1000000000000000000, io_amountOut = 980000000000000000, io_hashlock = 192,
     io_timelock = 1700086400, io_ethereumMaker = 659150, io_monadReceiver = 45067,
     io_fulfilled = False, io_refunded = False, io_createdAt = 1700000030,
     io_htlcContractId = 0, io_fulfiller = 0\<rparr>"

definition authorised_bridge :: MonadBridge where
  "authorised_bridge = setRelayerAuthorization 7777 True deployed_bridge"

definition mirrored_bridge :: MonadBridge where
  "mirrored_bridge = authorised_bridge
     \<lparr>mb_incomingOrders := (mb_incomingOrders authorised_bridge)(3294 := mirrored_order),
      mb_userIncomingOrders := (mb_userIncomingOrders authorised_bridge)(45067 := [3294])\<rparr>"

definition fulfilled_bridge :: MonadBridge where
  "fulfilled_bridge = mirrored_bridge
     \<lparr>mb_incomingOrders := (mb_incomingOrders mirrored_bridge)
        (3294 := mirrored_order\<lparr>io_fulfilled := True, io_fulfiller := 3054,
                   io_htlcContractId := 2479\<rparr>)\<rparr>"

definition target_escrows :: MonadHTLC where
  "target_escrows = empty_MonadHTLC(2479 := \<lparr>d_sender = 8192, d_receiver = 45067,
     d_token = 1002, d_amount = 980000000000000000, d_hashlock = 192,
     d_timelock = 1700086400, d_withdrawn = False, d_refunded = False,
     d_createdAt = 1700000060\<rparr>)"

definition fulfil_actions :: "action list" where
  "fulfil_actions =
    [Call (ERC20TransferFrom 1002 3054 8192 980000000000000000),
     Call (ERC20Approve 1002 4096 980000000000000000),
     Call (ERC20TransferFrom 1002 8192 4096 980000000000000000),
     Emit (HTLCCreated 2479 8192 45067 1002 980000000000000000 192 1700086400),
     Emit (IncomingOrderFulfilled 3294 3294 2486 3054)]"

text \<open>The same order created on Monad with \<^verbatim>\<open>createOutgoingOrder\<close>.\<close>

definition outgoing_order :: OutgoingOrder where
  "outgoing_order = \<lparr>oo_orderHash = 3294, oo_tokenIn = 1001, oo_tokenOut = 1002,
     oo_amountIn = 1000000000000000000, oo_amountOut = 980000000000000000, oo_hashlock = 192,
     oo_timelock = 1700086400, oo_maker = 659150, oo_ethereumReceiver = 45067,
     oo_isActive = True, oo_targetChainId = 1, oo_htlcContractId = 2163\<rparr>"

definition outgoing_bridge :: MonadBridge where
  "outgoing_bridge = deployed_bridge
     \<lparr>mb_outgoingOrders := (mb_outgoingOrders deployed_bridge)(3294 := outgoing_order),
      mb_userOutgoingOrders := (mb_userOutgoingOrders deployed_bridge)(659150 := [3294])\<rparr>"

definition outgoing_actions :: "action list" where
  "outgoing_actions =
    [Call (ERC20TransferFrom 1001 659150 8192 1000000000000000000),
     Call (ERC20Approve 1001 4096 1000000000000000000),
     Call (ERC20TransferFrom 1001 8192 4096 1000000000000000000),
     Emit (HTLCCreated 2163 8192 8192 1001 1000000000000000000 192 1700086400),
     Emit (OutgoingOrderCreated 3294 659150 1001 1002 1000000000000000000 980000000000000000
             192 1700086400 1 45067),
     Emit (SecretGenerated 3294 2486)]"

text \<open>
  Inputs for the resolver: a toy stand-in for the hash of a secret string, one pending
  order from Ethereum under the key \<open>''0xaa''\<close>, and the chain accepting every
  submission.
\<close>

definition toy_text_hash :: "string \<Rightarrow> string" where
  "toy_text_hash s = ''0x'' @ rev s"

definition all_sent :: "submission \<Rightarrow> bool" where
  "all_sent call = True"

definition sample_order :: PendingOrder where
  "sample_order = \<lparr>p_orderHash = ''0xaa'', p_sourceChain = ethereum, p_targetChain = monad,
     p_tokenIn = ''0x01'', p_tokenOut = ''0x02'', p_amountIn = ''1000000000000000000'',
     p_amountOut = ''980000000000000000'', p_hashlock = ''0xterces'', p_timelock = 1700086400,
     p_maker = ''0xa0ece'', p_receiver = ''0xb00b'', p_status = pending,
     p_createdAt = 1700000000000, p_resolvedAt = None, p_refundedAt = None, p_secret = None\<rparr>"

definition sample_resolver :: resolver where
  "sample_resolver = \<lparr>pendingOrders = [(''0xaa'', sample_order)], secretStore = []\<rparr>"

definition stamp_at_sweep :: "PendingOrder \<Rightarrow> int" where
  "stamp_at_sweep order' = 1700084600001"

text \<open>
  A table of 1000 pending orders with distinct keys (\<open>''order''\<close> followed by a
  run of the digit 1), and a further order under the key \<open>''0xaa''\<close>.
\<close>

definition numbered_order :: "nat \<Rightarrow> PendingOrder" where
  "numbered_order i = sample_order\<lparr>p_orderHash := ''order'' @ replicate i (CHR ''1'')\<rparr>"

definition numbered_entry :: "nat \<Rightarrow> string \<times> PendingOrder" where
  "numbered_entry i = (p_orderHash (numbered_order i), numbered_order i)"

definition full_resolver :: resolver where
  "full_resolver = \<lparr>pendingOrders = map numbered_entry [0..<1000], secretStore = []\<rparr>"

definition terminal_orders :: "(string \<times> PendingOrder) list \<Rightarrow> (string \<times> PendingOrder) list" where
  "terminal_orders m = filter (\<lambda>p. p_status (snd p) \<noteq> pending) m"

text \<open>
  A withdrawal seen on Monad that carries the secret, and an iteration of the monitor
  in which the chain is at block 1000 and every event query fails.
\<close>

definition withdrawn_event :: HTLCEvent where
  "withdrawn_event = \<lparr>ev_type = ev_withdrawn, ev_contractId = ''0xc1'', ev_chain = ''monad'',
     ev_blockNumber = 120, ev_transactionHash = ''0xf00d'', ev_secret = Some ''secret''\<rparr>"

definition failing_queries :: chain_env where
  "failing_queries = \<lparr>getBlockNumber = Inr 1000,
     queryFilter = (\<lambda>name fromBlock toBlock. Inl (Error ''could not decode result data'')),
     relayAttempt = (\<lambda>event n. True)\<rparr>"

definition quiet_chain :: chain_env where
  "quiet_chain = \<lparr>getBlockNumber = Inr 150,
     queryFilter = (\<lambda>name fromBlock toBlock. Inr []),
     relayAttempt = (\<lambda>event n. True)\<rparr>"

definition unreachable_chain :: chain_env where
  "unreachable_chain = \<lparr>getBlockNumber = Inl (Error ''network error''),
     queryFilter = (\<lambda>name fromBlock toBlock. Inr []),
     relayAttempt = (\<lambda>event n. True)\<rparr>"

definition running_monitor :: monitor where
  "running_monitor = \<lparr>isRunning = True, lastProcessedEthereum = 100, lastProcessedMonad = 100\<rparr>"

text \<open>
  The hashlock and the order hash that the order-creating functions compute, and the
  order record that \<^verbatim>\<open>createCrossChainOrder\<close> stores.
\<close>

definition order_hashlock :: "(bytes \<Rightarrow> bytes32) \<Rightarrow> env \<Rightarrow> uint256 \<Rightarrow> uint256 \<Rightarrow> bytes32" where
  "order_hashlock keccak256 e amountIn amountOut =
     keccak256 (encodePacked [AbiBytes32 (order_secret keccak256 e amountIn amountOut)])"

definition order_hash ::
  "(bytes \<Rightarrow> bytes32) \<Rightarrow> env \<Rightarrow> address \<Rightarrow> address \<Rightarrow> uint256 \<Rightarrow> uint256 \<Rightarrow> uint256 \<Rightarrow> uint256
     \<Rightarrow> address \<Rightarrow> bytes32" where
  "order_hash keccak256 e tokenIn tokenOut amountIn amountOut deadline targetChainId receiver =
     keccak256 (encodePacked
       [AbiAddress (msg_sender e), AbiAddress tokenIn, AbiAddress tokenOut, AbiUint amountIn,
        AbiUint amountOut, AbiBytes32 (order_hashlock keccak256 e amountIn amountOut),
        AbiUint deadline, AbiUint targetChainId, AbiAddress receiver])"

text \<open>
  The deployer 57005 of the adapter, the adapter after the owner has set the timelock
  parameters to 60 seconds (minimum), 7 days (maximum) and 1 hour (default), and the
  orders that the maker creates with a custom timelock of 7200 and of 60 seconds.
\<close>

definition deployer_env :: env where
  "deployer_env = \<lparr>msg_sender = 57005, msg_value = 0, block_timestamp = 1699990000,
     block_difficulty = 0, this = 8192\<rparr>"

definition short_adapter :: FusionMonadAdapter where
  "short_adapter = deployed_adapter\<lparr>fa_minTimelock := 60, fa_maxTimelock := 604800,
     fa_defaultTimelock := 3600\<rparr>"

definition two_hour_order :: CrossChainOrder where
  "two_hour_order = created_order\<lparr>co_orderHash := 3144, co_timelock := 1700007200,
     co_htlcContractId := 2013\<rparr>"

definition two_hour_escrows :: MonadHTLC where
  "two_hour_escrows = empty_MonadHTLC(2013 := \<lparr>d_sender = 8192, d_receiver = 8192,
     d_token = 1001, d_amount = 1000000000000000000, d_hashlock = 192,
     d_timelock = 1700007200, d_withdrawn = False, d_refunded = False,
     d_createdAt = 1700000000\<rparr>)"

definition two_hour_outgoing :: OutgoingOrder where
  "two_hour_outgoing = outgoing_order\<lparr>oo_orderHash := 3144, oo_timelock := 1700007200,
     oo_htlcContractId := 2013\<rparr>"

definition minute_order :: CrossChainOrder where
  "minute_order = created_order\<lparr>co_orderHash := 3399, co_timelock := 1700000060,
     co_htlcContractId := 2268\<rparr>"

definition minute_escrows :: MonadHTLC where
  "minute_escrows = empty_MonadHTLC(2268 := \<lparr>d_sender = 8192, d_receiver = 8192,
     d_token = 1001, d_amount = 1000000000000000000, d_hashlock = 192,
     d_timelock = 1700000060, d_withdrawn = False, d_refunded = False,
     d_createdAt = 1700000000\<rparr>)"

definition two_hour_adapter :: FusionMonadAdapter where
  "two_hour_adapter = deployed_adapter
     \<lparr>fa_orders := (fa_orders deployed_adapter)(3144 := two_hour_order),
      fa_userOrders := (fa_userOrders deployed_adapter)(659150 := [3144])\<rparr>"

definition two_hour_escrow_actions :: "action list" where
  "two_hour_escrow_actions =
    [Call (ERC20TransferFrom 1001 8192 4096 1000000000000000000),
     Emit (HTLCCreated 2013 8192 8192 1001 1000000000000000000 192 1700007200)]"

definition two_hour_actions :: "action list" where
  "two_hour_actions =
    [Call (ERC20TransferFrom 1001 659150 8192 1000000000000000000),
     Call (ERC20Approve 1001 4096 1000000000000000000),
     Call (ERC20TransferFrom 1001 8192 4096 1000000000000000000),
     Emit (HTLCCreated 2013 8192 8192 1001 1000000000000000000 192 1700007200),
     Emit (CrossChainOrderCreated 3144 659150 1001 1002 1000000000000000000 980000000000000000
             192 1700007200 1 45067),
     Emit (SecretGenerated 3144 2486)]"

definition two_hour_bridge :: MonadBridge where
  "two_hour_bridge = deployed_bridge
     \<lparr>mb_outgoingOrders := (mb_outgoingOrders deployed_bridge)(3144 := two_hour_outgoing),
      mb_userOutgoingOrders := (mb_userOutgoingOrders deployed_bridge)(659150 := [3144])\<rparr>"

definition two_hour_outgoing_actions :: "action list" where
  "two_hour_outgoing_actions =
    [Call (ERC20TransferFrom 1001 659150 8192 1000000000000000000),
     Call (ERC20Approve 1001 4096 1000000000000000000),
     Call (ERC20TransferFrom 1001 8192 4096 1000000000000000000),
     Emit (HTLCCreated 2013 8192 8192 1001 1000000000000000000 192 1700007200),
     Emit (OutgoingOrderCreated 3144 659150 1001 1002 1000000000000000000 980000000000000000
             192 1700007200 1 45067),
     Emit (SecretGenerated 3144 2486)]"

definition minute_adapter :: FusionMonadAdapter where
  "minute_adapter = short_adapter
     \<lparr>fa_orders := (fa_orders short_adapter)(3399 := minute_order),
      fa_userOrders := (fa_userOrders short_adapter)(659150 := [3399])\<rparr>"

definition minute_actions :: "action list" where
  "minute_actions =
    [Call (ERC20TransferFrom 1001 659150 8192 1000000000000000000),
     Call (ERC20Approve 1001 4096 1000000000000000000),
     Call (ERC20TransferFrom 1001 8192 4096 1000000000000000000),
     Emit (HTLCCreated 2268 8192 8192 1001 1000000000000000000 192 1700000060),
     Emit (CrossChainOrderCreated 3399 659150 1001 1002 1000000000000000000 980000000000000000
             192 1700000060 1 45067),
     Emit (SecretGenerated 3399 2486)]"

text \<open>
  A table of 1000 orders of which those numbered below 400 are resolved and the others
  pending, and those numbered from 200 to 699 were created on 1700000199000 and the
  others on 1600000000000. At 1700000200000 the 200 orders numbered below 200 are
  resolved and more than 24 hours old; every other order is pending or recent.
\<close>

definition aged_order :: "nat \<Rightarrow> PendingOrder" where
  "aged_order i = (numbered_order i)
     \<lparr>p_status := (if i < 400 then resolved else pending),
      p_createdAt := (if 200 \<le> i \<and> i < 700 then 1700000199000 else 1600000000000)\<rparr>"

definition aged_entry :: "nat \<Rightarrow> string \<times> PendingOrder" where
  "aged_entry i = (p_orderHash (aged_order i), aged_order i)"

definition aged_resolver :: resolver where
  "aged_resolver = \<lparr>pendingOrders = map aged_entry [0..<1000], secretStore = []\<rparr>"

text \<open>
  An order whose timelock in milliseconds is not a double, and iterations of the monitor
  in which one \<^verbatim>\<open>CrossChainOrderCreated\<close> event is found: its relay goes through at
  the third attempt in the one and at no attempt in the other.
\<close>

definition far_order :: PendingOrder where
  "far_order = sample_order\<lparr>p_timelock := 72057594037929\<rparr>"

definition order_event :: chain_event where
  "order_event = \<lparr>ce_filter = ''CrossChainOrderCreated'', ce_blockNumber = 110,
     ce_decodable = True\<rparr>"

definition one_order_found :: "string \<Rightarrow> int \<Rightarrow> int \<Rightarrow> js_error + chain_event list" where
  "one_order_found name fromBlock toBlock =
     (if name = ''CrossChainOrderCreated'' then Inr [order_event] else Inr [])"

definition third_attempt_relays :: chain_env where
  "third_attempt_relays = \<lparr>getBlockNumber = Inr 130, queryFilter = one_order_found,
     relayAttempt = (\<lambda>event n. 2 \<le> n)\<rparr>"

definition never_relays :: chain_env where
  "never_relays = \<lparr>getBlockNumber = Inr 130, queryFilter = one_order_found,
     relayAttempt = (\<lambda>event n. False)\<rparr>"

section \<open>Facts about the concrete stand-ins\<close>

lemma toy_hash_secret_4660: "toy_hash (encodePacked [AbiBytes32 4660]) = 71"
  by code_simp

lemma toy_hash_order_secret:
  "toy_hash (encodePacked [AbiAddress 659150, AbiUint 1700000000, AbiUint 0,
     AbiUint 1000000000000000000, AbiUint 980000000000000000]) = 2486"
  by code_simp

lemma toy_hash_order_hashlock: "toy_hash (encodePacked [AbiBytes32 2486]) = 192"
  by code_simp

lemma toy_hash_order_hash:
  "toy_hash (encodePacked [AbiAddress 659150, AbiAddress 1001, AbiAddress 1002,
     AbiUint 1000000000000000000, AbiUint 980000000000000000, AbiBytes32 192,
     AbiUint 1700086400, AbiUint 1, AbiAddress 45067]) = 3294"
  by code_simp

lemma toy_hash_escrow_id:
  "toy_hash (encodePacked [AbiAddress 8192, AbiAddress 8192, AbiAddress 1001,
     AbiUint 1000000000000000000, AbiBytes32 192, AbiUint 1700086400, AbiUint 1700000000]) = 2163"
  by code_simp

lemma created_order_run:
  "createCrossChainOrder toy_hash all_calls_succeed (newContract toy_hash)
      (newContractERC20 toy_hash all_calls_succeed) maker_env 1001 1002
      1000000000000000000 980000000000000000 45067 1 0 (deployed_adapter, empty_MonadHTLC)
   = Inr ((3294, created_adapter, created_escrows), created_actions)"
  by (simp add: createCrossChainOrder_def newContractERC20_def storeSecretForRelayer_def
      deployed_adapter_def maker_env_def created_adapter_def created_order_def
      created_escrows_def created_actions_def empty_MonadHTLC_def zero_HTLCData_def
      zero_CrossChainOrder_def contractExists_def all_calls_succeed_def checked_add_def Let_def
      toy_hash_order_secret toy_hash_order_hashlock toy_hash_order_hash toy_hash_escrow_id)

lemma toy_hash_target_escrow_id:
  "toy_hash (encodePacked [AbiAddress 8192, AbiAddress 45067, AbiAddress 1002,
     AbiUint 980000000000000000, AbiBytes32 192, AbiUint 1700086400, AbiUint 1700000060]) = 2479"
  by code_simp

lemma toy_hash_monad_order_hash:
  "toy_hash (encodePacked [AbiBytes32 3294, AbiAddress 1002, AbiUint 980000000000000000,
     AbiAddress 45067, AbiUint 1700000030]) = 2079"
  by code_simp

lemma constructor_deployed_bridge: "constructor_MonadBridge 4096 = Inr deployed_bridge"
  by (simp add: constructor_MonadBridge_def deployed_bridge_def)

lemma outgoing_order_run:
  "createOutgoingOrder toy_hash all_calls_succeed maker_env 1001 1002
      1000000000000000000 980000000000000000 45067 1 0 (deployed_bridge, empty_MonadHTLC)
   = Inr ((3294, outgoing_bridge, created_escrows), outgoing_actions)"
  by (simp add: createOutgoingOrder_def newContractERC20_def storeSecretForRelayer_def
      deployed_bridge_def maker_env_def outgoing_bridge_def outgoing_order_def
      created_escrows_def outgoing_actions_def empty_MonadHTLC_def zero_HTLCData_def
      zero_OutgoingOrder_def contractExists_def all_calls_succeed_def checked_add_def Let_def
      toy_hash_order_secret toy_hash_order_hashlock toy_hash_order_hash toy_hash_escrow_id)

lemma mirror_run:
  "relayEthereumToMonad toy_hash relayer_env created_event authorised_bridge
   = Inr (mirrored_bridge,
          [Emit (IncomingOrderProcessed 3294 2079 45067 1001 1002 1000000000000000000
                   980000000000000000 192 1700086400)])"
  by (simp add: created_event_def processEthereumOrder_def relayer_env_def
      authorised_bridge_def setRelayerAuthorization_def deployed_bridge_def mirrored_bridge_def
      mirrored_order_def zero_IncomingOrder_def Let_def toy_hash_monad_order_hash)

lemma fulfil_run:
  "fulfillIncomingOrder toy_hash all_calls_succeed fulfiller_env 3294 2486
      (mirrored_bridge, empty_MonadHTLC)
   = Inr ((fulfilled_bridge, target_escrows), fulfil_actions)"
  by (simp add: fulfillIncomingOrder_def newContractERC20_def fulfiller_env_def
      fulfilled_bridge_def mirrored_bridge_def authorised_bridge_def setRelayerAuthorization_def
      deployed_bridge_def mirrored_order_def target_escrows_def fulfil_actions_def
      empty_MonadHTLC_def zero_HTLCData_def contractExists_def all_calls_succeed_def Let_def
      toy_hash_order_hashlock toy_hash_target_escrow_id)

lemma process_run:
  "processEthereumOrder toy_hash relayer_env 3294 1001 1002 1000000000000000000
      980000000000000000 192 1700086400 659150 45067 authorised_bridge
   = Inr (mirrored_bridge,
          [Emit (IncomingOrderProcessed 3294 2079 45067 1001 1002 1000000000000000000
                   980000000000000000 192 1700086400)])"
  by (simp add: processEthereumOrder_def relayer_env_def
      authorised_bridge_def setRelayerAuthorization_def deployed_bridge_def mirrored_bridge_def
      mirrored_order_def zero_IncomingOrder_def Let_def toy_hash_monad_order_hash)

section \<open>C1: when a claim goes through\<close>

text \<open>
  C1, as the code has it. \<^verbatim>\<open>HTLC.claim\<close> succeeds exactly when the call carries no
  value, the escrow is in state Locked, the SHA-256 of the secret equals the hashlock and
  the transfer of the locked amount to the receiver goes through: it looks neither at the
  caller nor at the timelock. \<^verbatim>\<open>MonadHTLC.withdraw\<close>, on an escrow that has not been
  refunded, succeeds exactly when the call carries no value, the escrow exists, the
  keccak256 of the secret equals the hashlock, the caller is the receiver, the escrow has
  not been withdrawn, the timestamp is strictly before the timelock and the transfer goes
  through. On success each marks the escrow claimed, transfers the locked amount to the
  receiver and emits its claim event with the secret.
\<close>

theorem claim_succeeds_iff:
  "((claim sha256 ext e secret c = Inr r) =
      (msg_value e = 0 \<and> h_state c = LockedState
       \<and> sha256 (encodePacked [AbiBytes32 secret]) = h_hashlock c
       \<and> ext (payout (h_token c) (h_receiver c) (h_lockedAmount c))
       \<and> r = (c\<lparr>h_state := ClaimedState, h_lockedAmount := 0\<rparr>,
              [Call (payout (h_token c) (h_receiver c) (h_lockedAmount c)),
               Emit (Claimed (h_receiver c) secret)])))
   \<and> (\<not> d_refunded (contracts cid) \<longrightarrow>
      (withdraw keccak256 ext e cid secret' contracts = Inr r') =
      (msg_value e = 0 \<and> contractExists contracts cid
       \<and> \<not> d_withdrawn (contracts cid) \<and> \<not> d_refunded (contracts cid)
       \<and> keccak256 (encodePacked [AbiBytes32 secret']) = d_hashlock (contracts cid)
       \<and> msg_sender e = d_receiver (contracts cid)
       \<and> block_timestamp e < d_timelock (contracts cid)
       \<and> ext (payout (d_token (contracts cid)) (d_receiver (contracts cid)) (d_amount (contracts cid)))
       \<and> r' = (contracts(cid := (contracts cid)\<lparr>d_withdrawn := True\<rparr>),
               [Call (payout (d_token (contracts cid)) (d_receiver (contracts cid))
                        (d_amount (contracts cid))),
                Emit (HTLCWithdrawn cid secret')])))"
proof (intro conjI impI)
  show "(claim sha256 ext e secret c = Inr r) =
      (msg_value e = 0 \<and> h_state c = LockedState
       \<and> sha256 (encodePacked [AbiBytes32 secret]) = h_hashlock c
       \<and> ext (payout (h_token c) (h_receiver c) (h_lockedAmount c))
       \<and> r = (c\<lparr>h_state := ClaimedState, h_lockedAmount := 0\<rparr>,
              [Call (payout (h_token c) (h_receiver c) (h_lockedAmount c)),
               Emit (Claimed (h_receiver c) secret)]))"
    by (auto simp: claim_def payout_def Let_def)
next
  assume "\<not> d_refunded (contracts cid)"
  then show "(withdraw keccak256 ext e cid secret' contracts = Inr r') =
      (msg_value e = 0 \<and> contractExists contracts cid
       \<and> \<not> d_withdrawn (contracts cid) \<and> \<not> d_refunded (contracts cid)
       \<and> keccak256 (encodePacked [AbiBytes32 secret']) = d_hashlock (contracts cid)
       \<and> msg_sender e = d_receiver (contracts cid)
       \<and> block_timestamp e < d_timelock (contracts cid)
       \<and> ext (payout (d_token (contracts cid)) (d_receiver (contracts cid)) (d_amount (contracts cid)))
       \<and> r' = (contracts(cid := (contracts cid)\<lparr>d_withdrawn := True\<rparr>),
               [Call (payout (d_token (contracts cid)) (d_receiver (contracts cid))
                        (d_amount (contracts cid))),
                Emit (HTLCWithdrawn cid secret')]))"
    by (auto simp: withdraw_def payout_def Let_def)
qed

theorem claim_succeeds_iff_witness:
  "claim toy_hash all_calls_succeed receiver_env 4660 locked_htlc =
     Inr (locked_htlc\<lparr>h_state := ClaimedState, h_lockedAmount := 0\<rparr>,
          [Call (NativeSend 45067 1000000000000000000), Emit (Claimed 45067 4660)])
   \<and> \<not> d_refunded (one_htlc 9)
   \<and> withdraw toy_hash all_calls_succeed receiver_env 9 4660 one_htlc =
     Inr (one_htlc(9 := (one_htlc 9)\<lparr>d_withdrawn := True\<rparr>),
          [Call (NativeSend 45067 1000000000000000000), Emit (HTLCWithdrawn 9 4660)])"
  using claim_succeeds_iff [of toy_hash all_calls_succeed receiver_env 4660 locked_htlc
      "(locked_htlc\<lparr>h_state := ClaimedState, h_lockedAmount := 0\<rparr>,
          [Call (NativeSend 45067 1000000000000000000), Emit (Claimed 45067 4660)])"
      one_htlc 9 toy_hash 4660
      "(one_htlc(9 := (one_htlc 9)\<lparr>d_withdrawn := True\<rparr>),
          [Call (NativeSend 45067 1000000000000000000), Emit (HTLCWithdrawn 9 4660)])"]
  by (simp add: toy_hash_secret_4660 all_calls_succeed_def receiver_env_def locked_htlc_def
      one_htlc_def payout_def contractExists_def empty_MonadHTLC_def zero_HTLCData_def)

text \<open>
  The claim as the specification states it fails on \<^verbatim>\<open>HTLC.claim\<close>: an account that is
  not the receiver claims the escrow two days after its timelock.
\<close>

theorem claim_by_stranger_after_timelock:
  "claim toy_hash all_calls_succeed late_stranger_env 4660 locked_htlc =
     Inr (locked_htlc\<lparr>h_state := ClaimedState, h_lockedAmount := 0\<rparr>,
          [Call (NativeSend 45067 1000000000000000000), Emit (Claimed 45067 4660)])
   \<and> msg_sender late_stranger_env \<noteq> h_receiver locked_htlc
   \<and> \<not> block_timestamp late_stranger_env < h_timelock locked_htlc"
  by (simp add: claim_def toy_hash_secret_4660 all_calls_succeed_def late_stranger_env_def
      locked_htlc_def)

section \<open>C7: an order that pays in the native asset\<close>

text \<open>
  C7. The specification asks that an order whose \<open>tokenIn\<close> is the zero address (the
  native asset) can be created. In the code, with \<open>tokenIn = 0\<close>, both
  \<^verbatim>\<open>createCrossChainOrder\<close> and \<^verbatim>\<open>createOutgoingOrder\<close> revert on every input:
  the last revert they can reach is \<^verbatim>\<open>require(tokenIn != address(0), "Invalid input token")\<close>,
  ahead of the branch \<^verbatim>\<open>if (tokenIn == address(0))\<close> that would lock the value.
\<close>

theorem native_order_always_reverts:
  "createCrossChainOrder keccak ext htlcNew htlcNewToken e 0 tokenOut amountIn amountOut
       monadReceiver targetChainId customTimelock w =
     Inl (if msg_value e \<noteq> 0 then NotPayable
          else if \<not> fa_supportedChains (fst w) targetChainId
            then Require ''Unsupported target chain''
          else if \<not> (amountIn > 0 \<and> amountOut > 0) then Require ''Invalid amounts''
          else if monadReceiver = 0 then Require ''Invalid receiver address''
          else Require ''Invalid input token'')
   \<and> createOutgoingOrder keccak ext e 0 tokenOut amountIn amountOut
       monadReceiver targetChainId customTimelock v =
     Inl (if msg_value e \<noteq> 0 then NotPayable
          else if \<not> mb_supportedChains (fst v) targetChainId
            then Require ''Unsupported target chain''
          else if \<not> (amountIn > 0 \<and> amountOut > 0) then Require ''Invalid amounts''
          else if monadReceiver = 0 then Require ''Invalid receiver address''
          else Require ''Invalid input token'')"
  by (simp add: createCrossChainOrder_def createOutgoingOrder_def Let_def)

text \<open>
  The happy path of the specification (10^18 of the native asset for 98 * 10^16 of the
  native asset, default timelock), once without and once with the value attached.
\<close>

theorem native_order_always_reverts_witness:
  "createCrossChainOrder toy_hash all_calls_succeed (newContract toy_hash)
      (newContractERC20 toy_hash all_calls_succeed) maker_env 0 0
      1000000000000000000 980000000000000000 45067 1 0 (deployed_adapter, empty_MonadHTLC)
     = Inl (Require ''Invalid input token'')
   \<and> createCrossChainOrder toy_hash all_calls_succeed (newContract toy_hash)
      (newContractERC20 toy_hash all_calls_succeed)
      (maker_env\<lparr>msg_value := 1000000000000000000\<rparr>) 0 0
      1000000000000000000 980000000000000000 45067 1 0 (deployed_adapter, empty_MonadHTLC)
     = Inl NotPayable"
  using native_order_always_reverts [of toy_hash all_calls_succeed "newContract toy_hash"
      "newContractERC20 toy_hash all_calls_succeed" maker_env 0
      1000000000000000000 980000000000000000 45067 1 0 "(deployed_adapter, empty_MonadHTLC)"]
    native_order_always_reverts [of toy_hash all_calls_succeed "newContract toy_hash"
      "newContractERC20 toy_hash all_calls_succeed"
      "maker_env\<lparr>msg_value := 1000000000000000000\<rparr>" 0
      1000000000000000000 980000000000000000 45067 1 0 "(deployed_adapter, empty_MonadHTLC)"]
  by (simp add: maker_env_def deployed_adapter_def)

section \<open>C3: the secret at order creation\<close>

text \<open>
  C3, as the code has it. Every successful \<^verbatim>\<open>createCrossChainOrder\<close> and every
  successful \<^verbatim>\<open>createOutgoingOrder\<close> ends by emitting
  \<^verbatim>\<open>SecretGenerated(orderHash, secret)\<close>, and the hashlock stored for the order is
  the keccak256 of that very secret: the preimage of the hashlock is public from the
  creation of the order on, before any escrow is claimed.
\<close>

theorem creation_emits_secret:
  "(createCrossChainOrder keccak ext htlcNew htlcNewToken e tokenIn tokenOut amountIn amountOut
        receiver targetChainId customTimelock w = Inr ((orderHash, newAdapter, newEscrows), acts)
     \<longrightarrow> last acts = Emit (SecretGenerated orderHash (order_secret keccak e amountIn amountOut))
       \<and> Emit (SecretGenerated orderHash (order_secret keccak e amountIn amountOut)) \<in> set acts
       \<and> co_hashlock (fa_orders newAdapter orderHash)
           = keccak (encodePacked [AbiBytes32 (order_secret keccak e amountIn amountOut)]))
   \<and> (createOutgoingOrder keccak ext e tokenIn tokenOut amountIn amountOut
        receiver targetChainId customTimelock v = Inr ((outHash, newBridge, outEscrows), outActs)
     \<longrightarrow> last outActs = Emit (SecretGenerated outHash (order_secret keccak e amountIn amountOut))
       \<and> Emit (SecretGenerated outHash (order_secret keccak e amountIn amountOut)) \<in> set outActs
       \<and> oo_hashlock (mb_outgoingOrders newBridge outHash)
           = keccak (encodePacked [AbiBytes32 (order_secret keccak e amountIn amountOut)]))"
proof (intro conjI impI)
  assume run: "createCrossChainOrder keccak ext htlcNew htlcNewToken e tokenIn tokenOut
        amountIn amountOut receiver targetChainId customTimelock w
        = Inr ((orderHash, newAdapter, newEscrows), acts)"
  from run show "last acts = Emit (SecretGenerated orderHash (order_secret keccak e amountIn amountOut))"
    by (auto simp add: createCrossChainOrder_def storeSecretForRelayer_def order_secret_def
        Let_def split: if_splits sum.splits prod.splits)
  from run show "Emit (SecretGenerated orderHash (order_secret keccak e amountIn amountOut)) \<in> set acts"
    by (auto simp add: createCrossChainOrder_def storeSecretForRelayer_def order_secret_def
        Let_def split: if_splits sum.splits prod.splits)
  from run show "co_hashlock (fa_orders newAdapter orderHash)
           = keccak (encodePacked [AbiBytes32 (order_secret keccak e amountIn amountOut)])"
    by (auto simp add: createCrossChainOrder_def order_secret_def
        Let_def split: if_splits sum.splits prod.splits)
next
  assume run: "createOutgoingOrder keccak ext e tokenIn tokenOut amountIn amountOut
        receiver targetChainId customTimelock v = Inr ((outHash, newBridge, outEscrows), outActs)"
  from run show "last outActs = Emit (SecretGenerated outHash (order_secret keccak e amountIn amountOut))"
    by (auto simp add: createOutgoingOrder_def storeSecretForRelayer_def order_secret_def
        Let_def split: if_splits sum.splits prod.splits)
  from run show "Emit (SecretGenerated outHash (order_secret keccak e amountIn amountOut)) \<in> set outActs"
    by (auto simp add: createOutgoingOrder_def storeSecretForRelayer_def order_secret_def
        Let_def split: if_splits sum.splits prod.splits)
  from run show "oo_hashlock (mb_outgoingOrders newBridge outHash)
           = keccak (encodePacked [AbiBytes32 (order_secret keccak e amountIn amountOut)])"
    by (auto simp add: createOutgoingOrder_def order_secret_def
        Let_def split: if_splits sum.splits prod.splits)
qed

theorem creation_emits_secret_witness:
  "createCrossChainOrder toy_hash all_calls_succeed (newContract toy_hash)
      (newContractERC20 toy_hash all_calls_succeed) maker_env 1001 1002
      1000000000000000000 980000000000000000 45067 1 0 (deployed_adapter, empty_MonadHTLC)
     = Inr ((3294, created_adapter, created_escrows), created_actions)
   \<and> last created_actions = Emit (SecretGenerated 3294 2486)
   \<and> co_hashlock (fa_orders created_adapter 3294) = toy_hash (encodePacked [AbiBytes32 2486])
   \<and> createOutgoingOrder toy_hash all_calls_succeed maker_env 1001 1002
      1000000000000000000 980000000000000000 45067 1 0 (deployed_bridge, empty_MonadHTLC)
     = Inr ((3294, outgoing_bridge, created_escrows), outgoing_actions)
   \<and> last outgoing_actions = Emit (SecretGenerated 3294 2486)
   \<and> oo_hashlock (mb_outgoingOrders outgoing_bridge 3294)
       = toy_hash (encodePacked [AbiBytes32 2486])"
  using creation_emits_secret [where keccak = toy_hash and ext = all_calls_succeed
      and htlcNew = "newContract toy_hash"
      and htlcNewToken = "newContractERC20 toy_hash all_calls_succeed" and e = maker_env
      and tokenIn = 1001 and tokenOut = 1002 and amountIn = 1000000000000000000
      and amountOut = 980000000000000000 and receiver = 45067 and targetChainId = 1
      and customTimelock = 0 and w = "(deployed_adapter, empty_MonadHTLC)"
      and orderHash = 3294 and newAdapter = created_adapter and newEscrows = created_escrows
      and acts = created_actions and v = "(deployed_bridge, empty_MonadHTLC)"
      and outHash = 3294 and newBridge = outgoing_bridge and outEscrows = created_escrows
      and outActs = outgoing_actions]
    created_order_run outgoing_order_run
  by (simp add: order_secret_def maker_env_def toy_hash_order_secret)

text \<open>
  The claim as the specification states it fails: the creation of order 3294 emits the
  event \<^verbatim>\<open>SecretGenerated(3294, 2486)\<close>, and 2486 is the preimage of the order's
  hashlock 192.
\<close>

theorem creation_reveals_preimage:
  "createCrossChainOrder toy_hash all_calls_succeed (newContract toy_hash)
      (newContractERC20 toy_hash all_calls_succeed) maker_env 1001 1002
      1000000000000000000 980000000000000000 45067 1 0 (deployed_adapter, empty_MonadHTLC)
     = Inr ((3294, created_adapter, created_escrows), created_actions)
   \<and> Emit (SecretGenerated 3294 2486) \<in> set created_actions
   \<and> co_hashlock (fa_orders created_adapter 3294) = 192
   \<and> toy_hash (encodePacked [AbiBytes32 2486]) = 192"
  by (simp add: created_order_run toy_hash_order_hashlock created_actions_def
      created_adapter_def created_order_def)

section \<open>C2: the timelock of the target-side escrow\<close>

text \<open>
  C2, as the code has it. \<^verbatim>\<open>processEthereumOrder\<close> stores the timelock it is given,
  the relayer gives it the timelock of the \<^verbatim>\<open>CrossChainOrderCreated\<close> event, that
  event carries the timelock stored for the source order, and
  \<^verbatim>\<open>fulfillIncomingOrder\<close> creates the target-side escrow with the timelock (and the
  hashlock, receiver, token and amount) of the mirrored order. The target-side escrow
  therefore expires at the same instant as the source side: no gap is applied.
\<close>

theorem target_timelock_is_source_timelock:
  "(createCrossChainOrder keccak ext htlcNew htlcNewToken e tokenIn tokenOut amountIn amountOut
        receiver targetChainId customTimelock w = Inr ((orderHash, newAdapter, newEscrows), acts)
     \<longrightarrow> Emit (CrossChainOrderCreated orderHash (msg_sender e) tokenIn tokenOut amountIn amountOut
                 (co_hashlock (fa_orders newAdapter orderHash))
                 (co_timelock (fa_orders newAdapter orderHash)) targetChainId receiver) \<in> set acts)
   \<and> (relayEthereumToMonad keccak re
         (CrossChainOrderCreated hash maker tokIn tokOut amtIn amtOut hashlock timelock chain recv)
         bridge = Inr (mirrored, relayActs)
     \<longrightarrow> io_timelock (mb_incomingOrders mirrored hash) = timelock
       \<and> io_hashlock (mb_incomingOrders mirrored hash) = hashlock)
   \<and> (processEthereumOrder keccak re hash tokIn tokOut amtIn amtOut hashlock timelock maker recv
         bridge = Inr (mirrored, relayActs)
     \<longrightarrow> io_timelock (mb_incomingOrders mirrored hash) = timelock
       \<and> io_hashlock (mb_incomingOrders mirrored hash) = hashlock)
   \<and> (fulfillIncomingOrder keccak ext fe hash secret (b, escrows)
         = Inr ((fulfilled, targetEscrows), fulfilActs)
     \<longrightarrow> d_timelock (targetEscrows (io_htlcContractId (mb_incomingOrders fulfilled hash)))
           = io_timelock (mb_incomingOrders b hash)
       \<and> d_hashlock (targetEscrows (io_htlcContractId (mb_incomingOrders fulfilled hash)))
           = io_hashlock (mb_incomingOrders b hash)
       \<and> d_receiver (targetEscrows (io_htlcContractId (mb_incomingOrders fulfilled hash)))
           = io_monadReceiver (mb_incomingOrders b hash)
       \<and> d_token (targetEscrows (io_htlcContractId (mb_incomingOrders fulfilled hash)))
           = io_tokenOut (mb_incomingOrders b hash)
       \<and> d_amount (targetEscrows (io_htlcContractId (mb_incomingOrders fulfilled hash)))
           = io_amountOut (mb_incomingOrders b hash))"
proof (intro conjI impI)
  assume "createCrossChainOrder keccak ext htlcNew htlcNewToken e tokenIn tokenOut amountIn
        amountOut receiver targetChainId customTimelock w
        = Inr ((orderHash, newAdapter, newEscrows), acts)"
  then show "Emit (CrossChainOrderCreated orderHash (msg_sender e) tokenIn tokenOut amountIn amountOut
                 (co_hashlock (fa_orders newAdapter orderHash))
                 (co_timelock (fa_orders newAdapter orderHash)) targetChainId receiver) \<in> set acts"
    by (auto simp add: createCrossChainOrder_def Let_def split: if_splits sum.splits prod.splits)
next
  assume run: "relayEthereumToMonad keccak re
         (CrossChainOrderCreated hash maker tokIn tokOut amtIn amtOut hashlock timelock chain recv)
         bridge = Inr (mirrored, relayActs)"
  from run show "io_timelock (mb_incomingOrders mirrored hash) = timelock"
    by (auto simp add: processEthereumOrder_def Let_def split: if_splits sum.splits)
  from run show "io_hashlock (mb_incomingOrders mirrored hash) = hashlock"
    by (auto simp add: processEthereumOrder_def Let_def split: if_splits sum.splits)
next
  assume run: "processEthereumOrder keccak re hash tokIn tokOut amtIn amtOut hashlock timelock
         maker recv bridge = Inr (mirrored, relayActs)"
  from run show "io_timelock (mb_incomingOrders mirrored hash) = timelock"
    by (auto simp add: processEthereumOrder_def Let_def split: if_splits)
  from run show "io_hashlock (mb_incomingOrders mirrored hash) = hashlock"
    by (auto simp add: processEthereumOrder_def Let_def split: if_splits)
next
  assume run: "fulfillIncomingOrder keccak ext fe hash secret (b, escrows)
         = Inr ((fulfilled, targetEscrows), fulfilActs)"
  from run show "d_timelock (targetEscrows (io_htlcContractId (mb_incomingOrders fulfilled hash)))
           = io_timelock (mb_incomingOrders b hash)"
    by (auto simp add: fulfillIncomingOrder_def newContract_def newContractERC20_def Let_def
        split: if_splits sum.splits prod.splits)
  from run show "d_hashlock (targetEscrows (io_htlcContractId (mb_incomingOrders fulfilled hash)))
           = io_hashlock (mb_incomingOrders b hash)"
    by (auto simp add: fulfillIncomingOrder_def newContract_def newContractERC20_def Let_def
        split: if_splits sum.splits prod.splits)
  from run show "d_receiver (targetEscrows (io_htlcContractId (mb_incomingOrders fulfilled hash)))
           = io_monadReceiver (mb_incomingOrders b hash)"
    by (auto simp add: fulfillIncomingOrder_def newContract_def newContractERC20_def Let_def
        split: if_splits sum.splits prod.splits)
  from run show "d_token (targetEscrows (io_htlcContractId (mb_incomingOrders fulfilled hash)))
           = io_tokenOut (mb_incomingOrders b hash)"
    by (auto simp add: fulfillIncomingOrder_def newContract_def newContractERC20_def Let_def
        split: if_splits sum.splits prod.splits)
  from run show "d_amount (targetEscrows (io_htlcContractId (mb_incomingOrders fulfilled hash)))
           = io_amountOut (mb_incomingOrders b hash)"
    by (auto simp add: fulfillIncomingOrder_def newContract_def newContractERC20_def Let_def
        split: if_splits sum.splits prod.splits)
qed

theorem target_timelock_is_source_timelock_witness:
  "createCrossChainOrder toy_hash all_calls_succeed (newContract toy_hash)
      (newContractERC20 toy_hash all_calls_succeed) maker_env 1001 1002
      1000000000000000000 980000000000000000 45067 1 0 (deployed_adapter, empty_MonadHTLC)
     = Inr ((3294, created_adapter, created_escrows), created_actions)
   \<and> Emit created_event \<in> set created_actions
   \<and> relayEthereumToMonad toy_hash relayer_env created_event authorised_bridge
     = Inr (mirrored_bridge,
            [Emit (IncomingOrderProcessed 3294 2079 45067 1001 1002 1000000000000000000
                     980000000000000000 192 1700086400)])
   \<and> io_timelock (mb_incomingOrders mirrored_bridge 3294) = 1700086400
   \<and> fulfillIncomingOrder toy_hash all_calls_succeed fulfiller_env 3294 2486
        (mirrored_bridge, empty_MonadHTLC)
     = Inr ((fulfilled_bridge, target_escrows), fulfil_actions)
   \<and> io_htlcContractId (mb_incomingOrders fulfilled_bridge 3294) = 2479
   \<and> d_timelock (target_escrows 2479) = 1700086400"
proof -
  note inst = target_timelock_is_source_timelock [where keccak = toy_hash
      and ext = all_calls_succeed and htlcNew = "newContract toy_hash"
      and htlcNewToken = "newContractERC20 toy_hash all_calls_succeed" and e = maker_env
      and tokenIn = 1001 and tokenOut = 1002 and amountIn = 1000000000000000000
      and amountOut = 980000000000000000 and receiver = 45067 and targetChainId = 1
      and customTimelock = 0 and w = "(deployed_adapter, empty_MonadHTLC)"
      and orderHash = 3294 and newAdapter = created_adapter and newEscrows = created_escrows
      and acts = created_actions and re = relayer_env and hash = 3294 and maker = 659150
      and tokIn = 1001 and tokOut = 1002 and amtIn = 1000000000000000000
      and amtOut = 980000000000000000 and hashlock = 192 and timelock = 1700086400
      and chain = 1 and recv = 45067 and bridge = authorised_bridge
      and mirrored = mirrored_bridge
      and relayActs = "[Emit (IncomingOrderProcessed 3294 2079 45067 1001 1002
                          1000000000000000000 980000000000000000 192 1700086400)]"
      and fe = fulfiller_env and secret = 2486 and b = mirrored_bridge
      and escrows = empty_MonadHTLC and fulfilled = fulfilled_bridge
      and targetEscrows = target_escrows and fulfilActs = fulfil_actions]
  have id: "io_htlcContractId (mb_incomingOrders fulfilled_bridge 3294) = 2479"
    by (simp add: fulfilled_bridge_def)
  have src: "co_hashlock (fa_orders created_adapter 3294) = 192"
    "co_timelock (fa_orders created_adapter 3294) = 1700086400"
    by (simp_all add: created_adapter_def created_order_def)
  have old: "io_timelock (mb_incomingOrders mirrored_bridge 3294) = 1700086400"
    by (simp add: mirrored_bridge_def mirrored_order_def)
  from inst created_order_run mirror_run [unfolded created_event_def] process_run fulfil_run
  show ?thesis
    by (simp add: id src old created_event_def maker_env_def)
qed

text \<open>
  The claim as the specification states it fails: order 3294 is created on Ethereum with
  an escrow expiring at 1700086400, mirrored by the relayer and fulfilled on Monad, and
  the escrow on Monad expires at 1700086400 as well, not before.
\<close>

theorem target_escrow_does_not_expire_first:
  "createCrossChainOrder toy_hash all_calls_succeed (newContract toy_hash)
      (newContractERC20 toy_hash all_calls_succeed) maker_env 1001 1002
      1000000000000000000 980000000000000000 45067 1 0 (deployed_adapter, empty_MonadHTLC)
     = Inr ((3294, created_adapter, created_escrows), created_actions)
   \<and> Emit created_event \<in> set created_actions
   \<and> relayEthereumToMonad toy_hash relayer_env created_event authorised_bridge
     = Inr (mirrored_bridge,
            [Emit (IncomingOrderProcessed 3294 2079 45067 1001 1002 1000000000000000000
                     980000000000000000 192 1700086400)])
   \<and> fulfillIncomingOrder toy_hash all_calls_succeed fulfiller_env 3294 2486
        (mirrored_bridge, empty_MonadHTLC)
     = Inr ((fulfilled_bridge, target_escrows), fulfil_actions)
   \<and> co_htlcContractId (fa_orders created_adapter 3294) = 2163
   \<and> io_htlcContractId (mb_incomingOrders fulfilled_bridge 3294) = 2479
   \<and> d_timelock (created_escrows 2163) = 1700086400
   \<and> d_timelock (target_escrows 2479) = 1700086400
   \<and> \<not> d_timelock (target_escrows 2479) < d_timelock (created_escrows 2163)"
  by (simp add: created_order_run process_run fulfil_run created_event_def created_actions_def
      created_adapter_def created_order_def fulfilled_bridge_def created_escrows_def
      target_escrows_def)

section \<open>Facts about the insertion-ordered map\<close>

lemma map_get_map_set: "map_get (map_set k v m) k = Some v"
  by (induction m) (auto simp: map_get_def)

lemma map_get_map_set_other: "k' \<noteq> k \<Longrightarrow> map_get (map_set k v m) k' = map_get m k'"
  by (induction m) (auto simp: map_get_def)

lemma keys_map_set: "fst ` set (map_set k v m) = insert k (fst ` set m)"
  by (induction m) auto

lemma length_map_set_le: "length (map_set k v m) \<le> Suc (length m)"
  by (induction m) auto

lemma length_map_set_fresh: "k \<notin> fst ` set m \<Longrightarrow> length (map_set k v m) = Suc (length m)"
  by (induction m) auto

lemma length_map_set_present: "k \<in> fst ` set m \<Longrightarrow> length (map_set k v m) = length m"
  by (induction m) auto

section \<open>C9: delivering an event twice\<close>

lemma processEvents_state: "fst (processEvents events r) = r"
  by (induction events) (auto split: prod.splits)

lemma processEvents_append:
  "snd (processEvents (xs @ ys) r) = snd (processEvents xs r) @ snd (processEvents ys r)"
  by (induction xs) (auto split: prod.splits)

text \<open>
  C9, as the code has it. \<^verbatim>\<open>processEvents\<close> never writes to the resolver's tables,
  so \<^verbatim>\<open>pendingOrders\<close> and \<^verbatim>\<open>secretStore\<close> are the same after one delivery of an
  event and after two. The handling itself is repeated in full: nothing records the
  events already seen, and every delivery of a withdrawal event that carries a non-empty
  secret submits \<^verbatim>\<open>withdraw(contractId, secret)\<close> on the other chain again.
\<close>

theorem processEvents_repeats_submissions:
  "fst (processEvents [event, event] r) = fst (processEvents [event] r)
   \<and> fst (processEvents events r) = r
   \<and> snd (processEvents [event, event] r)
       = snd (processEvents [event] r) @ snd (processEvents [event] r)
   \<and> (ev_type event = ev_withdrawn \<and> ev_secret event = Some s \<and> s \<noteq> []
     \<longrightarrow> snd (processEvents [event] r)
         = [HtlcWithdraw (if ev_chain event = ''ethereum'' then monad else ethereum)
              (ev_contractId event) s])"
proof (intro conjI impI)
  show "fst (processEvents [event, event] r) = fst (processEvents [event] r)"
    by (simp add: processEvents_state)
  show "fst (processEvents events r) = r"
    by (rule processEvents_state)
  show "snd (processEvents [event, event] r)
       = snd (processEvents [event] r) @ snd (processEvents [event] r)"
    using processEvents_append [of "[event]" "[event]" r] by simp
next
  assume "ev_type event = ev_withdrawn \<and> ev_secret event = Some s \<and> s \<noteq> []"
  then show "snd (processEvents [event] r)
         = [HtlcWithdraw (if ev_chain event = ''ethereum'' then monad else ethereum)
              (ev_contractId event) s]"
    by (simp add: handleHTLCWithdrawn_def propagateSecret_def)
qed

theorem processEvents_repeats_submissions_witness:
  "ev_type withdrawn_event = ev_withdrawn \<and> ev_secret withdrawn_event = Some ''secret''
   \<and> snd (processEvents [withdrawn_event] sample_resolver)
       = [HtlcWithdraw ethereum ''0xc1'' ''secret'']
   \<and> snd (processEvents [withdrawn_event, withdrawn_event] sample_resolver)
       = [HtlcWithdraw ethereum ''0xc1'' ''secret'', HtlcWithdraw ethereum ''0xc1'' ''secret'']
   \<and> fst (processEvents [withdrawn_event, withdrawn_event] sample_resolver) = sample_resolver"
proof -
  have ev: "ev_type withdrawn_event = ev_withdrawn" "ev_secret withdrawn_event = Some ''secret''"
    "ev_chain withdrawn_event = ''monad''" "ev_contractId withdrawn_event = ''0xc1''"
    by (simp_all add: withdrawn_event_def)
  from processEvents_repeats_submissions [where event = withdrawn_event
      and r = sample_resolver and s = "''secret''"
      and events = "[withdrawn_event, withdrawn_event]"] ev
  show ?thesis by simp
qed

text \<open>
  The claim as the specification states it fails: the second delivery of the same
  withdrawal event is handled like the first and submits the withdrawal a second time.
\<close>

theorem second_delivery_submits_again:
  "processEvents [withdrawn_event] sample_resolver
     = (sample_resolver, [HtlcWithdraw ethereum ''0xc1'' ''secret''])
   \<and> processEvents [withdrawn_event, withdrawn_event] sample_resolver
     = (sample_resolver,
        [HtlcWithdraw ethereum ''0xc1'' ''secret'', HtlcWithdraw ethereum ''0xc1'' ''secret''])
   \<and> processEvents [withdrawn_event, withdrawn_event] sample_resolver
       \<noteq> processEvents [withdrawn_event] sample_resolver"
  by (simp add: withdrawn_event_def handleHTLCWithdrawn_def propagateSecret_def)

section \<open>C10: resolveAtomicSwap checks the secret before it writes\<close>

text \<open>
  C10. \<^verbatim>\<open>resolveAtomicSwap\<close> changes the resolver's tables only when a pending order
  exists for \<open>orderHash\<close> and the keccak256 of the UTF-8 bytes of the secret equals
  the order's hashlock. When there is no such order, or the hash differs, it throws,
  submits nothing and leaves \<^verbatim>\<open>pendingOrders\<close> and \<^verbatim>\<open>secretStore\<close> as they
  were. When the hash matches and both chain calls go through, the secret is stored and
  the order is marked resolved with the secret.
\<close>

theorem resolveAtomicSwap_checks_secret:
  "(fst (fst (resolveAtomicSwap keccak sent now orderHash secret r)) \<noteq> r
     \<longrightarrow> (\<exists>p. map_get (pendingOrders r) orderHash = Some p \<and> keccak secret = p_hashlock p))
   \<and> (map_get (pendingOrders r) orderHash = None
     \<longrightarrow> resolveAtomicSwap keccak sent now orderHash secret r
         = ((r, []), Some (Error (''No pending order found for hash '' @ orderHash))))
   \<and> (map_get (pendingOrders r) orderHash = Some p \<and> keccak secret \<noteq> p_hashlock p
     \<longrightarrow> resolveAtomicSwap keccak sent now orderHash secret r
         = ((r, []), Some (Error ''Invalid secret provided'')))
   \<and> (map_get (pendingOrders r) orderHash = Some p \<and> keccak secret = p_hashlock p
       \<and> snd (executeAtomicSwapBothChains sent p secret) = None
     \<longrightarrow> snd (resolveAtomicSwap keccak sent now orderHash secret r) = None
       \<and> map_get (secretStore (fst (fst (resolveAtomicSwap keccak sent now orderHash secret r))))
           orderHash = Some secret
       \<and> map_get (pendingOrders (fst (fst (resolveAtomicSwap keccak sent now orderHash secret r))))
           orderHash
         = Some (p\<lparr>p_status := resolved, p_secret := Some secret, p_resolvedAt := Some now\<rparr>))"
proof (intro conjI impI)
  assume "fst (fst (resolveAtomicSwap keccak sent now orderHash secret r)) \<noteq> r"
  then show "\<exists>p. map_get (pendingOrders r) orderHash = Some p \<and> keccak secret = p_hashlock p"
    by (auto simp: resolveAtomicSwap_def split: option.splits if_splits)
next
  assume "map_get (pendingOrders r) orderHash = None"
  then show "resolveAtomicSwap keccak sent now orderHash secret r
         = ((r, []), Some (Error (''No pending order found for hash '' @ orderHash)))"
    by (simp add: resolveAtomicSwap_def)
next
  assume "map_get (pendingOrders r) orderHash = Some p \<and> keccak secret \<noteq> p_hashlock p"
  then show "resolveAtomicSwap keccak sent now orderHash secret r
         = ((r, []), Some (Error ''Invalid secret provided''))"
    by (simp add: resolveAtomicSwap_def)
next
  assume ok: "map_get (pendingOrders r) orderHash = Some p \<and> keccak secret = p_hashlock p
       \<and> snd (executeAtomicSwapBothChains sent p secret) = None"
  then obtain calls where ex: "executeAtomicSwapBothChains sent p secret = (calls, None)"
    by (cases "executeAtomicSwapBothChains sent p secret") auto
  from ok ex show "snd (resolveAtomicSwap keccak sent now orderHash secret r) = None"
    by (simp add: resolveAtomicSwap_def Let_def)
  from ok ex show "map_get (secretStore (fst (fst (resolveAtomicSwap keccak sent now orderHash secret r))))
           orderHash = Some secret"
    by (simp add: resolveAtomicSwap_def Let_def map_get_map_set)
  from ok ex show "map_get (pendingOrders (fst (fst (resolveAtomicSwap keccak sent now orderHash secret r))))
           orderHash
         = Some (p\<lparr>p_status := resolved, p_secret := Some secret, p_resolvedAt := Some now\<rparr>)"
    by (simp add: resolveAtomicSwap_def Let_def map_get_map_set)
qed

lemma resolve_sample_run:
  "resolveAtomicSwap toy_text_hash all_sent 1700000100000 ''0xaa'' ''secret'' sample_resolver
   = ((\<lparr>pendingOrders = [(''0xaa'', sample_order\<lparr>p_status := resolved,
           p_secret := Some ''secret'', p_resolvedAt := Some 1700000100000\<rparr>)],
        secretStore = [(''0xaa'', ''secret'')]\<rparr>,
       [FulfillOrder ''0xaa'' ''secret'', FulfillIncomingOrder ''0xaa'' ''secret'']), None)"
  by (simp add: resolveAtomicSwap_def executeAtomicSwapBothChains_def map_get_def
      sample_resolver_def sample_order_def toy_text_hash_def all_sent_def Let_def)

theorem resolveAtomicSwap_checks_secret_witness:
  "resolveAtomicSwap toy_text_hash all_sent 1700000100000 ''0xbb'' ''secret'' sample_resolver
     = ((sample_resolver, []), Some (Error ''No pending order found for hash 0xbb''))
   \<and> resolveAtomicSwap toy_text_hash all_sent 1700000100000 ''0xaa'' ''guess'' sample_resolver
     = ((sample_resolver, []), Some (Error ''Invalid secret provided''))
   \<and> fst (fst (resolveAtomicSwap toy_text_hash all_sent 1700000100000 ''0xaa'' ''secret''
                   sample_resolver)) \<noteq> sample_resolver
   \<and> toy_text_hash ''secret'' = p_hashlock sample_order
   \<and> snd (resolveAtomicSwap toy_text_hash all_sent 1700000100000 ''0xaa'' ''secret''
             sample_resolver) = None
   \<and> map_get (secretStore (fst (fst (resolveAtomicSwap toy_text_hash all_sent 1700000100000
        ''0xaa'' ''secret'' sample_resolver)))) ''0xaa'' = Some ''secret''
   \<and> map_get (pendingOrders (fst (fst (resolveAtomicSwap toy_text_hash all_sent 1700000100000
        ''0xaa'' ''secret'' sample_resolver)))) ''0xaa''
       = Some (sample_order\<lparr>p_status := resolved, p_secret := Some ''secret'',
                 p_resolvedAt := Some 1700000100000\<rparr>)"
proof -
  have get: "map_get (pendingOrders sample_resolver) ''0xaa'' = Some sample_order"
    "map_get (pendingOrders sample_resolver) ''0xbb'' = None"
    by (simp_all add: map_get_def sample_resolver_def)
  have hashes: "toy_text_hash ''secret'' = p_hashlock sample_order"
    "toy_text_hash ''guess'' \<noteq> p_hashlock sample_order"
    by (simp_all add: toy_text_hash_def sample_order_def)
  have both: "snd (executeAtomicSwapBothChains all_sent sample_order ''secret'') = None"
    by (simp add: executeAtomicSwapBothChains_def all_sent_def Let_def)
  have changed: "fst (fst (resolveAtomicSwap toy_text_hash all_sent 1700000100000 ''0xaa''
                   ''secret'' sample_resolver)) \<noteq> sample_resolver"
    unfolding resolve_sample_run by (simp add: sample_resolver_def)
  note missing = resolveAtomicSwap_checks_secret [where keccak = toy_text_hash
      and sent = all_sent and now = 1700000100000 and orderHash = "''0xbb''"
      and secret = "''secret''" and r = sample_resolver and p = sample_order]
  note wrong = resolveAtomicSwap_checks_secret [where keccak = toy_text_hash
      and sent = all_sent and now = 1700000100000 and orderHash = "''0xaa''"
      and secret = "''guess''" and r = sample_resolver and p = sample_order]
  note right = resolveAtomicSwap_checks_secret [where keccak = toy_text_hash
      and sent = all_sent and now = 1700000100000 and orderHash = "''0xaa''"
      and secret = "''secret''" and r = sample_resolver and p = sample_order]
  from missing wrong right get hashes both changed show ?thesis
    by simp
qed

section \<open>C8: the timelock bounds at order creation\<close>

lemma toy_hash_two_hour_order_hash:
  "toy_hash (encodePacked [AbiAddress 659150, AbiAddress 1001, AbiAddress 1002,
     AbiUint 1000000000000000000, AbiUint 980000000000000000, AbiBytes32 192,
     AbiUint 1700007200, AbiUint 1, AbiAddress 45067]) = 3144"
  by code_simp

lemma toy_hash_two_hour_escrow_id:
  "toy_hash (encodePacked [AbiAddress 8192, AbiAddress 8192, AbiAddress 1001,
     AbiUint 1000000000000000000, AbiBytes32 192, AbiUint 1700007200, AbiUint 1700000000]) = 2013"
  by code_simp

lemma toy_hash_minute_order_hash:
  "toy_hash (encodePacked [AbiAddress 659150, AbiAddress 1001, AbiAddress 1002,
     AbiUint 1000000000000000000, AbiUint 980000000000000000, AbiBytes32 192,
     AbiUint 1700000060, AbiUint 1, AbiAddress 45067]) = 3399"
  by code_simp

lemma toy_hash_minute_escrow_id:
  "toy_hash (encodePacked [AbiAddress 8192, AbiAddress 8192, AbiAddress 1001,
     AbiUint 1000000000000000000, AbiBytes32 192, AbiUint 1700000060, AbiUint 1700000000]) = 2268"
  by code_simp

lemma constructor_deployed_adapter:
  "constructor_FusionMonadAdapter deployer_env 4096 = Inr deployed_adapter"
  by (simp add: constructor_FusionMonadAdapter_def deployed_adapter_def deployer_env_def)

lemma update_run:
  "updateTimelockParams deployer_env 60 604800 3600 deployed_adapter = Inr short_adapter"
  by (simp add: updateTimelockParams_def deployer_env_def deployed_adapter_def short_adapter_def)

lemma two_hour_escrow_run:
  "newContractERC20 toy_hash all_calls_succeed
     (maker_env\<lparr>msg_sender := 8192, msg_value := 0, this := 4096\<rparr>) 8192 192 1700007200 1001
     1000000000000000000 empty_MonadHTLC
   = Inr ((2013, two_hour_escrows), two_hour_escrow_actions)"
  by (simp add: newContractERC20_def maker_env_def two_hour_escrows_def
      two_hour_escrow_actions_def empty_MonadHTLC_def zero_HTLCData_def contractExists_def
      all_calls_succeed_def Let_def toy_hash_two_hour_escrow_id)

lemma minute_order_run:
  "createCrossChainOrder toy_hash all_calls_succeed (newContract toy_hash)
      (newContractERC20 toy_hash all_calls_succeed) maker_env 1001 1002
      1000000000000000000 980000000000000000 45067 1 60 (short_adapter, empty_MonadHTLC)
   = Inr ((3399, minute_adapter, minute_escrows), minute_actions)"
  by (simp add: createCrossChainOrder_def newContractERC20_def storeSecretForRelayer_def
      short_adapter_def deployed_adapter_def maker_env_def minute_adapter_def minute_order_def
      created_order_def minute_escrows_def minute_actions_def empty_MonadHTLC_def
      zero_HTLCData_def zero_CrossChainOrder_def contractExists_def all_calls_succeed_def
      checked_add_def Let_def
      toy_hash_order_secret toy_hash_order_hashlock toy_hash_minute_order_hash
      toy_hash_minute_escrow_id)

lemma checked_add_fits:
  "unat a + unat b < 2 ^ 256 \<Longrightarrow> checked_add a b = Inr (a + b)"
  by (simp add: checked_add_def)

lemma create_order_succeeds:
  assumes "duration = effectiveTimelock customTimelock (fa_defaultTimelock (fst w))"
    and "msg_value e = 0" and "fa_supportedChains (fst w) targetChainId"
    and "0 < amountIn" and "0 < amountOut" and "receiver \<noteq> 0"
    and "tokenIn \<noteq> 0" and "tokenOut \<noteq> 0"
    and "fa_minTimelock (fst w) \<le> duration" and "duration \<le> fa_maxTimelock (fst w)"
    and "unat (block_timestamp e) + unat duration < 2 ^ 256"
    and "newHash = order_hash keccak e tokenIn tokenOut amountIn amountOut
           (block_timestamp e + duration) targetChainId receiver"
    and "co_maker (fa_orders (fst w) newHash) = 0"
    and "ext (ERC20TransferFrom tokenIn (msg_sender e) (this e) amountIn)"
    and "ext (ERC20Approve tokenIn (fa_htlcContract (fst w)) amountIn)"
    and "htlcNewToken (e\<lparr>msg_sender := this e, msg_value := 0,
             this := fa_htlcContract (fst w)\<rparr>) (this e)
           (order_hashlock keccak e amountIn amountOut) (block_timestamp e + duration)
           tokenIn amountIn (snd w) = Inr ((escrowId, escrows), escrowActs)"
  shows "createCrossChainOrder keccak ext htlcNew htlcNewToken e tokenIn tokenOut
           amountIn amountOut receiver targetChainId customTimelock w
         = Inr ((newHash,
                 (fst w)\<lparr>fa_orders := (fa_orders (fst w))
                     (newHash := \<lparr>co_orderHash = newHash, co_tokenIn = tokenIn,
                        co_tokenOut = tokenOut, co_amountIn = amountIn,
                        co_amountOut = amountOut,
                        co_hashlock = order_hashlock keccak e amountIn amountOut,
                        co_timelock = block_timestamp e + duration, co_maker = msg_sender e,
                        co_monadReceiver = receiver, co_chainId = targetChainId,
                        co_isActive = True, co_isFulfilled = False,
                        co_createdAt = block_timestamp e, co_htlcContractId = escrowId\<rparr>),
                   fa_userOrders := (fa_userOrders (fst w))
                     (msg_sender e := fa_userOrders (fst w) (msg_sender e) @ [newHash])\<rparr>,
                 escrows),
                [Call (ERC20TransferFrom tokenIn (msg_sender e) (this e) amountIn),
                 Call (ERC20Approve tokenIn (fa_htlcContract (fst w)) amountIn)]
                @ escrowActs
                @ [Emit (CrossChainOrderCreated newHash (msg_sender e) tokenIn tokenOut
                           amountIn amountOut (order_hashlock keccak e amountIn amountOut)
                           (block_timestamp e + duration) targetChainId receiver),
                   Emit (SecretGenerated newHash
                           (order_secret keccak e amountIn amountOut))])"
  using assms
  by (simp add: createCrossChainOrder_def Let_def effectiveTimelock_def checked_add_fits
      order_hash_def order_hashlock_def order_secret_def storeSecretForRelayer_def)

lemma create_outgoing_succeeds:
  assumes "span = effectiveTimelock customTimelock (mb_defaultTimelock (fst v))"
    and "msg_value e = 0" and "mb_supportedChains (fst v) targetChainId"
    and "0 < amountIn" and "0 < amountOut" and "receiver \<noteq> 0"
    and "tokenIn \<noteq> 0" and "tokenOut \<noteq> 0"
    and "mb_minTimelock (fst v) \<le> span" and "span \<le> mb_maxTimelock (fst v)"
    and "unat (block_timestamp e) + unat span < 2 ^ 256"
    and "outgoing = order_hash keccak e tokenIn tokenOut amountIn amountOut
           (block_timestamp e + span) targetChainId receiver"
    and "oo_maker (mb_outgoingOrders (fst v) outgoing) = 0"
    and "ext (ERC20TransferFrom tokenIn (msg_sender e) (this e) amountIn)"
    and "ext (ERC20Approve tokenIn (mb_htlcContract (fst v)) amountIn)"
    and "newContractERC20 keccak ext (e\<lparr>msg_sender := this e, msg_value := 0,
             this := mb_htlcContract (fst v)\<rparr>) (this e)
           (order_hashlock keccak e amountIn amountOut) (block_timestamp e + span)
           tokenIn amountIn (snd v) = Inr ((lockId, locks), lockActs)"
  shows "createOutgoingOrder keccak ext e tokenIn tokenOut
           amountIn amountOut receiver targetChainId customTimelock v
         = Inr ((outgoing,
                 (fst v)\<lparr>mb_outgoingOrders := (mb_outgoingOrders (fst v))
                     (outgoing := \<lparr>oo_orderHash = outgoing, oo_tokenIn = tokenIn,
                        oo_tokenOut = tokenOut, oo_amountIn = amountIn,
                        oo_amountOut = amountOut,
                        oo_hashlock = order_hashlock keccak e amountIn amountOut,
                        oo_timelock = block_timestamp e + span, oo_maker = msg_sender e,
                        oo_ethereumReceiver = receiver, oo_isActive = True,
                        oo_targetChainId = targetChainId, oo_htlcContractId = lockId\<rparr>),
                   mb_userOutgoingOrders := (mb_userOutgoingOrders (fst v))
                     (msg_sender e := mb_userOutgoingOrders (fst v) (msg_sender e)
                        @ [outgoing])\<rparr>,
                 locks),
                [Call (ERC20TransferFrom tokenIn (msg_sender e) (this e) amountIn),
                 Call (ERC20Approve tokenIn (mb_htlcContract (fst v)) amountIn)]
                @ lockActs
                @ [Emit (OutgoingOrderCreated outgoing (msg_sender e) tokenIn tokenOut
                           amountIn amountOut (order_hashlock keccak e amountIn amountOut)
                           (block_timestamp e + span) targetChainId receiver),
                   Emit (SecretGenerated outgoing
                           (order_secret keccak e amountIn amountOut))])"
  using assms
  by (simp add: createOutgoingOrder_def Let_def effectiveTimelock_def checked_add_fits
      order_hash_def order_hashlock_def order_secret_def storeSecretForRelayer_def)

text \<open>
  C8, as the code has it. \<^verbatim>\<open>createCrossChainOrder\<close> (and its twin
  \<^verbatim>\<open>createOutgoingOrder\<close>) checks the effective duration, \<open>customTimelock\<close> when
  nonzero and the configured default otherwise, against the configured minimum and
  maximum. The call reverts whenever the duration is below the configured minimum or
  above the configured maximum. A call that succeeds had its duration within them and
  stored \<open>block.timestamp + duration\<close> (without wrap-around) as the order's timelock.
  And a call succeeds, storing the order with that timelock, when its duration is within
  them and the remaining checks pass: no value is sent, the target chain is supported,
  the amounts are positive, the receiver and the tokens are not the zero address,
  \<open>block.timestamp + duration\<close> fits 256 bits, the order hash is new, and the token
  transfer, the approval and the creation of the escrow go through. The parameters are
  1 hour, 7 days and 24 hours at deployment; the owner of the adapter replaces them
  through \<^verbatim>\<open>updateTimelockParams\<close> by any minimum below the maximum and a default
  between the two (\<^verbatim>\<open>MonadBridge\<close> has the same function), so the bounds enforced
  are the configured ones and not 1 hour and 7 days for every call.
\<close>

theorem timelock_bounds_enforced:
  "((effectiveTimelock customTimelock (fa_defaultTimelock (fst w)) < fa_minTimelock (fst w)
      \<or> fa_maxTimelock (fst w) < effectiveTimelock customTimelock (fa_defaultTimelock (fst w)))
     \<longrightarrow> isl (createCrossChainOrder keccak ext htlcNew htlcNewToken e tokenIn tokenOut
               amountIn amountOut receiver targetChainId customTimelock w))
   \<and> (createCrossChainOrder keccak ext htlcNew htlcNewToken e tokenIn tokenOut
         amountIn amountOut receiver targetChainId customTimelock w
         = Inr ((orderHash, newAdapter, newEscrows), acts)
     \<longrightarrow> fa_minTimelock (fst w) \<le> effectiveTimelock customTimelock (fa_defaultTimelock (fst w))
       \<and> effectiveTimelock customTimelock (fa_defaultTimelock (fst w)) \<le> fa_maxTimelock (fst w)
       \<and> co_timelock (fa_orders newAdapter orderHash)
           = block_timestamp e + effectiveTimelock customTimelock (fa_defaultTimelock (fst w))
       \<and> unat (co_timelock (fa_orders newAdapter orderHash))
           = unat (block_timestamp e)
             + unat (effectiveTimelock customTimelock (fa_defaultTimelock (fst w))))
   \<and> ((effectiveTimelock customTimelock (mb_defaultTimelock (fst v)) < mb_minTimelock (fst v)
      \<or> mb_maxTimelock (fst v) < effectiveTimelock customTimelock (mb_defaultTimelock (fst v)))
     \<longrightarrow> isl (createOutgoingOrder keccak ext e tokenIn tokenOut
               amountIn amountOut receiver targetChainId customTimelock v))
   \<and> (createOutgoingOrder keccak ext e tokenIn tokenOut
         amountIn amountOut receiver targetChainId customTimelock v
         = Inr ((outHash, newBridge, outEscrows), outActs)
     \<longrightarrow> mb_minTimelock (fst v) \<le> effectiveTimelock customTimelock (mb_defaultTimelock (fst v))
       \<and> effectiveTimelock customTimelock (mb_defaultTimelock (fst v)) \<le> mb_maxTimelock (fst v)
       \<and> oo_timelock (mb_outgoingOrders newBridge outHash)
           = block_timestamp e + effectiveTimelock customTimelock (mb_defaultTimelock (fst v))
       \<and> unat (oo_timelock (mb_outgoingOrders newBridge outHash))
           = unat (block_timestamp e)
             + unat (effectiveTimelock customTimelock (mb_defaultTimelock (fst v))))
   \<and> (constructor_FusionMonadAdapter admin htlc = Inr freshAdapter
     \<longrightarrow> fa_minTimelock freshAdapter = 3600 \<and> fa_maxTimelock freshAdapter = 604800
       \<and> fa_defaultTimelock freshAdapter = 86400 \<and> fa_owner freshAdapter = msg_sender admin)
   \<and> (constructor_MonadBridge htlc = Inr freshBridge
     \<longrightarrow> mb_minTimelock freshBridge = 3600 \<and> mb_maxTimelock freshBridge = 604800
       \<and> mb_defaultTimelock freshBridge = 86400)
   \<and> (duration = effectiveTimelock customTimelock (fa_defaultTimelock (fst w))
      \<and> msg_value e = 0 \<and> fa_supportedChains (fst w) targetChainId
      \<and> 0 < amountIn \<and> 0 < amountOut \<and> receiver \<noteq> 0 \<and> tokenIn \<noteq> 0 \<and> tokenOut \<noteq> 0
      \<and> fa_minTimelock (fst w) \<le> duration \<and> duration \<le> fa_maxTimelock (fst w)
      \<and> unat (block_timestamp e) + unat duration < 2 ^ 256
      \<and> newHash = order_hash keccak e tokenIn tokenOut amountIn amountOut
           (block_timestamp e + duration) targetChainId receiver
      \<and> co_maker (fa_orders (fst w) newHash) = 0
      \<and> ext (ERC20TransferFrom tokenIn (msg_sender e) (this e) amountIn)
      \<and> ext (ERC20Approve tokenIn (fa_htlcContract (fst w)) amountIn)
      \<and> htlcNewToken (e\<lparr>msg_sender := this e, msg_value := 0,
             this := fa_htlcContract (fst w)\<rparr>) (this e)
           (order_hashlock keccak e amountIn amountOut) (block_timestamp e + duration)
           tokenIn amountIn (snd w) = Inr ((escrowId, escrows), escrowActs)
     \<longrightarrow> createCrossChainOrder keccak ext htlcNew htlcNewToken e tokenIn tokenOut
           amountIn amountOut receiver targetChainId customTimelock w
         = Inr ((newHash,
                 (fst w)\<lparr>fa_orders := (fa_orders (fst w))
                     (newHash := \<lparr>co_orderHash = newHash, co_tokenIn = tokenIn,
                        co_tokenOut = tokenOut, co_amountIn = amountIn,
                        co_amountOut = amountOut,
                        co_hashlock = order_hashlock keccak e amountIn amountOut,
                        co_timelock = block_timestamp e + duration, co_maker = msg_sender e,
                        co_monadReceiver = receiver, co_chainId = targetChainId,
                        co_isActive = True, co_isFulfilled = False,
                        co_createdAt = block_timestamp e, co_htlcContractId = escrowId\<rparr>),
                   fa_userOrders := (fa_userOrders (fst w))
                     (msg_sender e := fa_userOrders (fst w) (msg_sender e) @ [newHash])\<rparr>,
                 escrows),
                [Call (ERC20TransferFrom tokenIn (msg_sender e) (this e) amountIn),
                 Call (ERC20Approve tokenIn (fa_htlcContract (fst w)) amountIn)]
                @ escrowActs
                @ [Emit (CrossChainOrderCreated newHash (msg_sender e) tokenIn tokenOut
                           amountIn amountOut (order_hashlock keccak e amountIn amountOut)
                           (block_timestamp e + duration) targetChainId receiver),
                   Emit (SecretGenerated newHash
                           (order_secret keccak e amountIn amountOut))]))
   \<and> (span = effectiveTimelock customTimelock (mb_defaultTimelock (fst v))
      \<and> msg_value e = 0 \<and> mb_supportedChains (fst v) targetChainId
      \<and> 0 < amountIn \<and> 0 < amountOut \<and> receiver \<noteq> 0 \<and> tokenIn \<noteq> 0 \<and> tokenOut \<noteq> 0
      \<and> mb_minTimelock (fst v) \<le> span \<and> span \<le> mb_maxTimelock (fst v)
      \<and> unat (block_timestamp e) + unat span < 2 ^ 256
      \<and> outgoing = order_hash keccak e tokenIn tokenOut amountIn amountOut
           (block_timestamp e + span) targetChainId receiver
      \<and> oo_maker (mb_outgoingOrders (fst v) outgoing) = 0
      \<and> ext (ERC20TransferFrom tokenIn (msg_sender e) (this e) amountIn)
      \<and> ext (ERC20Approve tokenIn (mb_htlcContract (fst v)) amountIn)
      \<and> newContractERC20 keccak ext (e\<lparr>msg_sender := this e, msg_value := 0,
             this := mb_htlcContract (fst v)\<rparr>) (this e)
           (order_hashlock keccak e amountIn amountOut) (block_timestamp e + span)
           tokenIn amountIn (snd v) = Inr ((lockId, locks), lockActs)
     \<longrightarrow> createOutgoingOrder keccak ext e tokenIn tokenOut
           amountIn amountOut receiver targetChainId customTimelock v
         = Inr ((outgoing,
                 (fst v)\<lparr>mb_outgoingOrders := (mb_outgoingOrders (fst v))
                     (outgoing := \<lparr>oo_orderHash = outgoing, oo_tokenIn = tokenIn,
                        oo_tokenOut = tokenOut, oo_amountIn = amountIn,
                        oo_amountOut = amountOut,
                        oo_hashlock = order_hashlock keccak e amountIn amountOut,
                        oo_timelock = block_timestamp e + span, oo_maker = msg_sender e,
                        oo_ethereumReceiver = receiver, oo_isActive = True,
                        oo_targetChainId = targetChainId, oo_htlcContractId = lockId\<rparr>),
                   mb_userOutgoingOrders := (mb_userOutgoingOrders (fst v))
                     (msg_sender e := mb_userOutgoingOrders (fst v) (msg_sender e)
                        @ [outgoing])\<rparr>,
                 locks),
                [Call (ERC20TransferFrom tokenIn (msg_sender e) (this e) amountIn),
                 Call (ERC20Approve tokenIn (mb_htlcContract (fst v)) amountIn)]
                @ lockActs
                @ [Emit (OutgoingOrderCreated outgoing (msg_sender e) tokenIn tokenOut
                           amountIn amountOut (order_hashlock keccak e amountIn amountOut)
                           (block_timestamp e + span) targetChainId receiver),
                   Emit (SecretGenerated outgoing
                           (order_secret keccak e amountIn amountOut))]))
   \<and> (msg_value admin = 0 \<and> fa_owner adapter = msg_sender admin \<and> newMin < newMax
      \<and> newMin \<le> newDefault \<and> newDefault \<le> newMax
     \<longrightarrow> updateTimelockParams admin newMin newMax newDefault adapter
         = Inr (adapter\<lparr>fa_minTimelock := newMin, fa_maxTimelock := newMax,
                  fa_defaultTimelock := newDefault\<rparr>))"
proof (intro conjI impI)
  assume "effectiveTimelock customTimelock (fa_defaultTimelock (fst w)) < fa_minTimelock (fst w)
      \<or> fa_maxTimelock (fst w) < effectiveTimelock customTimelock (fa_defaultTimelock (fst w))"
  then show "isl (createCrossChainOrder keccak ext htlcNew htlcNewToken e tokenIn tokenOut
               amountIn amountOut receiver targetChainId customTimelock w)"
    by (auto simp add: createCrossChainOrder_def Let_def effectiveTimelock_def not_le)
next
  assume "effectiveTimelock customTimelock (mb_defaultTimelock (fst v)) < mb_minTimelock (fst v)
      \<or> mb_maxTimelock (fst v) < effectiveTimelock customTimelock (mb_defaultTimelock (fst v))"
  then show "isl (createOutgoingOrder keccak ext e tokenIn tokenOut
               amountIn amountOut receiver targetChainId customTimelock v)"
    by (auto simp add: createOutgoingOrder_def Let_def effectiveTimelock_def not_le)
next
  assume run: "createCrossChainOrder keccak ext htlcNew htlcNewToken e tokenIn tokenOut
         amountIn amountOut receiver targetChainId customTimelock w
         = Inr ((orderHash, newAdapter, newEscrows), acts)"
  from run show "fa_minTimelock (fst w) \<le> effectiveTimelock customTimelock (fa_defaultTimelock (fst w))"
    by (auto simp add: createCrossChainOrder_def Let_def effectiveTimelock_def
        split: if_splits sum.splits)
  from run show "effectiveTimelock customTimelock (fa_defaultTimelock (fst w)) \<le> fa_maxTimelock (fst w)"
    by (auto simp add: createCrossChainOrder_def Let_def effectiveTimelock_def
        split: if_splits sum.splits)
  from run show "co_timelock (fa_orders newAdapter orderHash)
           = block_timestamp e + effectiveTimelock customTimelock (fa_defaultTimelock (fst w))"
    by (auto simp add: createCrossChainOrder_def Let_def effectiveTimelock_def checked_add_def
        split: if_splits sum.splits prod.splits)
  from run show "unat (co_timelock (fa_orders newAdapter orderHash))
           = unat (block_timestamp e)
             + unat (effectiveTimelock customTimelock (fa_defaultTimelock (fst w)))"
    by (auto simp add: createCrossChainOrder_def Let_def effectiveTimelock_def checked_add_def
        unat_word_ariths split: if_splits sum.splits prod.splits)
next
  assume run: "createOutgoingOrder keccak ext e tokenIn tokenOut
         amountIn amountOut receiver targetChainId customTimelock v
         = Inr ((outHash, newBridge, outEscrows), outActs)"
  from run show "mb_minTimelock (fst v) \<le> effectiveTimelock customTimelock (mb_defaultTimelock (fst v))"
    by (auto simp add: createOutgoingOrder_def Let_def effectiveTimelock_def
        split: if_splits sum.splits)
  from run show "effectiveTimelock customTimelock (mb_defaultTimelock (fst v)) \<le> mb_maxTimelock (fst v)"
    by (auto simp add: createOutgoingOrder_def Let_def effectiveTimelock_def
        split: if_splits sum.splits)
  from run show "oo_timelock (mb_outgoingOrders newBridge outHash)
           = block_timestamp e + effectiveTimelock customTimelock (mb_defaultTimelock (fst v))"
    by (auto simp add: createOutgoingOrder_def Let_def effectiveTimelock_def checked_add_def
        split: if_splits sum.splits prod.splits)
  from run show "unat (oo_timelock (mb_outgoingOrders newBridge outHash))
           = unat (block_timestamp e)
             + unat (effectiveTimelock customTimelock (mb_defaultTimelock (fst v)))"
    by (auto simp add: createOutgoingOrder_def Let_def effectiveTimelock_def checked_add_def
        unat_word_ariths split: if_splits sum.splits prod.splits)
next
  assume "constructor_FusionMonadAdapter admin htlc = Inr freshAdapter"
  then show "fa_minTimelock freshAdapter = 3600" "fa_maxTimelock freshAdapter = 604800"
    "fa_defaultTimelock freshAdapter = 86400" "fa_owner freshAdapter = msg_sender admin"
    by (auto simp add: constructor_FusionMonadAdapter_def split: if_splits)
next
  assume "constructor_MonadBridge htlc = Inr freshBridge"
  then show "mb_minTimelock freshBridge = 3600" "mb_maxTimelock freshBridge = 604800" "mb_defaultTimelock freshBridge = 86400"
    by (auto simp add: constructor_MonadBridge_def split: if_splits)
next
  assume "duration = effectiveTimelock customTimelock (fa_defaultTimelock (fst w))
      \<and> msg_value e = 0 \<and> fa_supportedChains (fst w) targetChainId
      \<and> 0 < amountIn \<and> 0 < amountOut \<and> receiver \<noteq> 0 \<and> tokenIn \<noteq> 0 \<and> tokenOut \<noteq> 0
      \<and> fa_minTimelock (fst w) \<le> duration \<and> duration \<le> fa_maxTimelock (fst w)
      \<and> unat (block_timestamp e) + unat duration < 2 ^ 256
      \<and> newHash = order_hash keccak e tokenIn tokenOut amountIn amountOut
           (block_timestamp e + duration) targetChainId receiver
      \<and> co_maker (fa_orders (fst w) newHash) = 0
      \<and> ext (ERC20TransferFrom tokenIn (msg_sender e) (this e) amountIn)
      \<and> ext (ERC20Approve tokenIn (fa_htlcContract (fst w)) amountIn)
      \<and> htlcNewToken (e\<lparr>msg_sender := this e, msg_value := 0,
             this := fa_htlcContract (fst w)\<rparr>) (this e)
           (order_hashlock keccak e amountIn amountOut) (block_timestamp e + duration)
           tokenIn amountIn (snd w) = Inr ((escrowId, escrows), escrowActs)"
  then show "createCrossChainOrder keccak ext htlcNew htlcNewToken e tokenIn tokenOut
           amountIn amountOut receiver targetChainId customTimelock w
         = Inr ((newHash,
                 (fst w)\<lparr>fa_orders := (fa_orders (fst w))
                     (newHash := \<lparr>co_orderHash = newHash, co_tokenIn = tokenIn,
                        co_tokenOut = tokenOut, co_amountIn = amountIn,
                        co_amountOut = amountOut,
                        co_hashlock = order_hashlock keccak e amountIn amountOut,
                        co_timelock = block_timestamp e + duration, co_maker = msg_sender e,
                        co_monadReceiver = receiver, co_chainId = targetChainId,
                        co_isActive = True, co_isFulfilled = False,
                        co_createdAt = block_timestamp e, co_htlcContractId = escrowId\<rparr>),
                   fa_userOrders := (fa_userOrders (fst w))
                     (msg_sender e := fa_userOrders (fst w) (msg_sender e) @ [newHash])\<rparr>,
                 escrows),
                [Call (ERC20TransferFrom tokenIn (msg_sender e) (this e) amountIn),
                 Call (ERC20Approve tokenIn (fa_htlcContract (fst w)) amountIn)]
                @ escrowActs
                @ [Emit (CrossChainOrderCreated newHash (msg_sender e) tokenIn tokenOut
                           amountIn amountOut (order_hashlock keccak e amountIn amountOut)
                           (block_timestamp e + duration) targetChainId receiver),
                   Emit (SecretGenerated newHash
                           (order_secret keccak e amountIn amountOut))])"
    by (elim conjE) (rule create_order_succeeds)
next
  assume "span = effectiveTimelock customTimelock (mb_defaultTimelock (fst v))
      \<and> msg_value e = 0 \<and> mb_supportedChains (fst v) targetChainId
      \<and> 0 < amountIn \<and> 0 < amountOut \<and> receiver \<noteq> 0 \<and> tokenIn \<noteq> 0 \<and> tokenOut \<noteq> 0
      \<and> mb_minTimelock (fst v) \<le> span \<and> span \<le> mb_maxTimelock (fst v)
      \<and> unat (block_timestamp e) + unat span < 2 ^ 256
      \<and> outgoing = order_hash keccak e tokenIn tokenOut amountIn amountOut
           (block_timestamp e + span) targetChainId receiver
      \<and> oo_maker (mb_outgoingOrders (fst v) outgoing) = 0
      \<and> ext (ERC20TransferFrom tokenIn (msg_sender e) (this e) amountIn)
      \<and> ext (ERC20Approve tokenIn (mb_htlcContract (fst v)) amountIn)
      \<and> newContractERC20 keccak ext (e\<lparr>msg_sender := this e, msg_value := 0,
             this := mb_htlcContract (fst v)\<rparr>) (this e)
           (order_hashlock keccak e amountIn amountOut) (block_timestamp e + span)
           tokenIn amountIn (snd v) = Inr ((lockId, locks), lockActs)"
  then show "createOutgoingOrder keccak ext e tokenIn tokenOut
           amountIn amountOut receiver targetChainId customTimelock v
         = Inr ((outgoing,
                 (fst v)\<lparr>mb_outgoingOrders := (mb_outgoingOrders (fst v))
                     (outgoing := \<lparr>oo_orderHash = outgoing, oo_tokenIn = tokenIn,
                        oo_tokenOut = tokenOut, oo_amountIn = amountIn,
                        oo_amountOut = amountOut,
                        oo_hashlock = order_hashlock keccak e amountIn amountOut,
                        oo_timelock = block_timestamp e + span, oo_maker = msg_sender e,
                        oo_ethereumReceiver = receiver, oo_isActive = True,
                        oo_targetChainId = targetChainId, oo_htlcContractId = lockId\<rparr>),
                   mb_userOutgoingOrders := (mb_userOutgoingOrders (fst v))
                     (msg_sender e := mb_userOutgoingOrders (fst v) (msg_sender e)
                        @ [outgoing])\<rparr>,
                 locks),
                [Call (ERC20TransferFrom tokenIn (msg_sender e) (this e) amountIn),
                 Call (ERC20Approve tokenIn (mb_htlcContract (fst v)) amountIn)]
                @ lockActs
                @ [Emit (OutgoingOrderCreated outgoing (msg_sender e) tokenIn tokenOut
                           amountIn amountOut (order_hashlock keccak e amountIn amountOut)
                           (block_timestamp e + span) targetChainId receiver),
                   Emit (SecretGenerated outgoing
                           (order_secret keccak e amountIn amountOut))])"
    by (elim conjE) (rule create_outgoing_succeeds)
next
  assume "msg_value admin = 0 \<and> fa_owner adapter = msg_sender admin \<and> newMin < newMax
      \<and> newMin \<le> newDefault \<and> newDefault \<le> newMax"
  then show "updateTimelockParams admin newMin newMax newDefault adapter
         = Inr (adapter\<lparr>fa_minTimelock := newMin, fa_maxTimelock := newMax,
                  fa_defaultTimelock := newDefault\<rparr>)"
    by (simp add: updateTimelockParams_def)
qed

theorem timelock_bounds_enforced_witness:
  "isl (createCrossChainOrder toy_hash all_calls_succeed (newContract toy_hash)
          (newContractERC20 toy_hash all_calls_succeed) maker_env 1001 1002
          1000000000000000000 980000000000000000 45067 1 60 (deployed_adapter, empty_MonadHTLC))
   \<and> isl (createOutgoingOrder toy_hash all_calls_succeed maker_env 1001 1002
          1000000000000000000 980000000000000000 45067 1 604801 (deployed_bridge, empty_MonadHTLC))
   \<and> createCrossChainOrder toy_hash all_calls_succeed (newContract toy_hash)
          (newContractERC20 toy_hash all_calls_succeed) maker_env 1001 1002
          1000000000000000000 980000000000000000 45067 1 7200 (deployed_adapter, empty_MonadHTLC)
       = Inr ((3144, two_hour_adapter, two_hour_escrows), two_hour_actions)
   \<and> co_timelock (fa_orders two_hour_adapter 3144) = 1700000000 + 7200
   \<and> unat (co_timelock (fa_orders two_hour_adapter 3144)) = 1700007200
   \<and> createOutgoingOrder toy_hash all_calls_succeed maker_env 1001 1002
          1000000000000000000 980000000000000000 45067 1 7200 (deployed_bridge, empty_MonadHTLC)
       = Inr ((3144, two_hour_bridge, two_hour_escrows), two_hour_outgoing_actions)
   \<and> oo_timelock (mb_outgoingOrders two_hour_bridge 3144) = 1700000000 + 7200
   \<and> unat (oo_timelock (mb_outgoingOrders two_hour_bridge 3144)) = 1700007200
   \<and> constructor_FusionMonadAdapter deployer_env 4096 = Inr deployed_adapter
   \<and> fa_minTimelock deployed_adapter = 3600 \<and> fa_maxTimelock deployed_adapter = 604800
   \<and> fa_defaultTimelock deployed_adapter = 86400 \<and> fa_owner deployed_adapter = 57005
   \<and> constructor_MonadBridge 4096 = Inr deployed_bridge
   \<and> mb_minTimelock deployed_bridge = 3600 \<and> mb_maxTimelock deployed_bridge = 604800
   \<and> mb_defaultTimelock deployed_bridge = 86400
   \<and> updateTimelockParams deployer_env 60 604800 3600 deployed_adapter
       = Inr (deployed_adapter\<lparr>fa_minTimelock := 60, fa_maxTimelock := 604800,
                fa_defaultTimelock := 3600\<rparr>)"
proof -
  note low = timelock_bounds_enforced [where customTimelock = 60
      and w = "(deployed_adapter, empty_MonadHTLC)" and keccak = toy_hash
      and ext = all_calls_succeed and htlcNew = "newContract toy_hash"
      and htlcNewToken = "newContractERC20 toy_hash all_calls_succeed" and e = maker_env
      and tokenIn = 1001 and tokenOut = 1002 and amountIn = 1000000000000000000
      and amountOut = 980000000000000000 and receiver = 45067 and targetChainId = 1
      and orderHash = 3144 and newAdapter = two_hour_adapter and newEscrows = two_hour_escrows
      and acts = two_hour_actions and v = "(deployed_bridge, empty_MonadHTLC)"
      and outHash = 3144 and newBridge = two_hour_bridge and outEscrows = two_hour_escrows
      and outActs = two_hour_outgoing_actions and admin = deployer_env and htlc = 4096
      and freshAdapter = deployed_adapter and freshBridge = deployed_bridge
      and duration = 7200 and newHash = 3144 and escrowId = 2013
      and escrows = two_hour_escrows and escrowActs = two_hour_escrow_actions
      and span = 7200 and outgoing = 3144 and lockId = 2013 and locks = two_hour_escrows
      and lockActs = two_hour_escrow_actions and adapter = deployed_adapter
      and newMin = 60 and newMax = 604800 and newDefault = 3600]
  note high = timelock_bounds_enforced [where customTimelock = 604801
      and w = "(deployed_adapter, empty_MonadHTLC)" and keccak = toy_hash
      and ext = all_calls_succeed and htlcNew = "newContract toy_hash"
      and htlcNewToken = "newContractERC20 toy_hash all_calls_succeed" and e = maker_env
      and tokenIn = 1001 and tokenOut = 1002 and amountIn = 1000000000000000000
      and amountOut = 980000000000000000 and receiver = 45067 and targetChainId = 1
      and orderHash = 3144 and newAdapter = two_hour_adapter and newEscrows = two_hour_escrows
      and acts = two_hour_actions and v = "(deployed_bridge, empty_MonadHTLC)"
      and outHash = 3144 and newBridge = two_hour_bridge and outEscrows = two_hour_escrows
      and outActs = two_hour_outgoing_actions and admin = deployer_env and htlc = 4096
      and freshAdapter = deployed_adapter and freshBridge = deployed_bridge
      and duration = 7200 and newHash = 3144 and escrowId = 2013
      and escrows = two_hour_escrows and escrowActs = two_hour_escrow_actions
      and span = 7200 and outgoing = 3144 and lockId = 2013 and locks = two_hour_escrows
      and lockActs = two_hour_escrow_actions and adapter = deployed_adapter
      and newMin = 60 and newMax = 604800 and newDefault = 3600]
  note two = timelock_bounds_enforced [where customTimelock = 7200
      and w = "(deployed_adapter, empty_MonadHTLC)" and keccak = toy_hash
      and ext = all_calls_succeed and htlcNew = "newContract toy_hash"
      and htlcNewToken = "newContractERC20 toy_hash all_calls_succeed" and e = maker_env
      and tokenIn = 1001 and tokenOut = 1002 and amountIn = 1000000000000000000
      and amountOut = 980000000000000000 and receiver = 45067 and targetChainId = 1
      and orderHash = 3144 and newAdapter = two_hour_adapter and newEscrows = two_hour_escrows
      and acts = two_hour_actions and v = "(deployed_bridge, empty_MonadHTLC)"
      and outHash = 3144 and newBridge = two_hour_bridge and outEscrows = two_hour_escrows
      and outActs = two_hour_outgoing_actions and admin = deployer_env and htlc = 4096
      and freshAdapter = deployed_adapter and freshBridge = deployed_bridge
      and duration = 7200 and newHash = 3144 and escrowId = 2013
      and escrows = two_hour_escrows and escrowActs = two_hour_escrow_actions
      and span = 7200 and outgoing = 3144 and lockId = 2013 and locks = two_hour_escrows
      and lockActs = two_hour_escrow_actions and adapter = deployed_adapter
      and newMin = 60 and newMax = 604800 and newDefault = 3600]
  have c1: "isl (createCrossChainOrder toy_hash all_calls_succeed (newContract toy_hash)
          (newContractERC20 toy_hash all_calls_succeed) maker_env 1001 1002
          1000000000000000000 980000000000000000 45067 1 60 (deployed_adapter, empty_MonadHTLC))"
    using low [THEN conjunct1] by (simp add: effectiveTimelock_def deployed_adapter_def)
  have c2: "isl (createOutgoingOrder toy_hash all_calls_succeed maker_env 1001 1002
          1000000000000000000 980000000000000000 45067 1 604801 (deployed_bridge, empty_MonadHTLC))"
    using high [THEN conjunct2, THEN conjunct2, THEN conjunct1]
    by (simp add: effectiveTimelock_def deployed_bridge_def)
  have run: "createCrossChainOrder toy_hash all_calls_succeed (newContract toy_hash)
          (newContractERC20 toy_hash all_calls_succeed) maker_env 1001 1002
          1000000000000000000 980000000000000000 45067 1 7200 (deployed_adapter, empty_MonadHTLC)
       = Inr ((3144, two_hour_adapter, two_hour_escrows), two_hour_actions)"
    using two [THEN conjunct2, THEN conjunct2, THEN conjunct2, THEN conjunct2, THEN conjunct2,
        THEN conjunct2, THEN conjunct1]
    by (simp add: effectiveTimelock_def order_hash_def order_hashlock_def order_secret_def
        newContractERC20_def deployed_adapter_def maker_env_def two_hour_adapter_def
        two_hour_order_def created_order_def two_hour_escrows_def two_hour_actions_def
        two_hour_escrow_actions_def empty_MonadHTLC_def zero_HTLCData_def
        zero_CrossChainOrder_def contractExists_def all_calls_succeed_def Let_def
        toy_hash_order_secret toy_hash_order_hashlock toy_hash_two_hour_order_hash
        toy_hash_two_hour_escrow_id)
  have out: "createOutgoingOrder toy_hash all_calls_succeed maker_env 1001 1002
          1000000000000000000 980000000000000000 45067 1 7200 (deployed_bridge, empty_MonadHTLC)
       = Inr ((3144, two_hour_bridge, two_hour_escrows), two_hour_outgoing_actions)"
    using two [THEN conjunct2, THEN conjunct2, THEN conjunct2, THEN conjunct2, THEN conjunct2,
        THEN conjunct2, THEN conjunct2, THEN conjunct1]
    by (simp add: effectiveTimelock_def order_hash_def order_hashlock_def order_secret_def
        newContractERC20_def deployed_bridge_def maker_env_def two_hour_bridge_def
        two_hour_outgoing_def outgoing_order_def two_hour_escrows_def
        two_hour_outgoing_actions_def two_hour_escrow_actions_def empty_MonadHTLC_def
        zero_HTLCData_def zero_OutgoingOrder_def contractExists_def all_calls_succeed_def
        Let_def toy_hash_order_secret toy_hash_order_hashlock toy_hash_two_hour_order_hash
        toy_hash_two_hour_escrow_id)
  have stored: "co_timelock (fa_orders two_hour_adapter 3144) = 1700000000 + 7200"
    "unat (co_timelock (fa_orders two_hour_adapter 3144)) = 1700007200"
    using two [THEN conjunct2, THEN conjunct1, THEN mp, OF run]
    by (simp_all add: effectiveTimelock_def maker_env_def)
  have kept: "oo_timelock (mb_outgoingOrders two_hour_bridge 3144) = 1700000000 + 7200"
    "unat (oo_timelock (mb_outgoingOrders two_hour_bridge 3144)) = 1700007200"
    using two [THEN conjunct2, THEN conjunct2, THEN conjunct2, THEN conjunct1, THEN mp, OF out]
    by (simp_all add: effectiveTimelock_def maker_env_def)
  have fresh: "fa_minTimelock deployed_adapter = 3600 \<and> fa_maxTimelock deployed_adapter = 604800
       \<and> fa_defaultTimelock deployed_adapter = 86400
       \<and> fa_owner deployed_adapter = msg_sender deployer_env"
    using two [THEN conjunct2, THEN conjunct2, THEN conjunct2, THEN conjunct2, THEN conjunct1,
        THEN mp, OF constructor_deployed_adapter] .
  have bridge: "mb_minTimelock deployed_bridge = 3600 \<and> mb_maxTimelock deployed_bridge = 604800
       \<and> mb_defaultTimelock deployed_bridge = 86400"
    using two [THEN conjunct2, THEN conjunct2, THEN conjunct2, THEN conjunct2, THEN conjunct2,
        THEN conjunct1, THEN mp, OF constructor_deployed_bridge] .
  have update: "updateTimelockParams deployer_env 60 604800 3600 deployed_adapter
       = Inr (deployed_adapter\<lparr>fa_minTimelock := 60, fa_maxTimelock := 604800,
                fa_defaultTimelock := 3600\<rparr>)"
    using two [THEN conjunct2, THEN conjunct2, THEN conjunct2, THEN conjunct2, THEN conjunct2,
        THEN conjunct2, THEN conjunct2, THEN conjunct2]
    by (simp add: deployer_env_def deployed_adapter_def)
  from c1 c2 run out stored kept fresh bridge update constructor_deployed_adapter
    constructor_deployed_bridge
  show ?thesis
    by (simp add: deployer_env_def)
qed

text \<open>
  The claim as the specification states it fails: the owner of the adapter sets the
  minimum to 60 seconds, and a call with a custom timelock of 60 seconds, below one
  hour, does not revert: it stores the order with the timelock 1700000060.
\<close>

theorem short_timelock_accepted_after_update:
  "constructor_FusionMonadAdapter deployer_env 4096 = Inr deployed_adapter
   \<and> updateTimelockParams deployer_env 60 604800 3600 deployed_adapter = Inr short_adapter
   \<and> createCrossChainOrder toy_hash all_calls_succeed (newContract toy_hash)
        (newContractERC20 toy_hash all_calls_succeed) maker_env 1001 1002
        1000000000000000000 980000000000000000 45067 1 60 (short_adapter, empty_MonadHTLC)
     = Inr ((3399, minute_adapter, minute_escrows), minute_actions)
   \<and> co_timelock (fa_orders minute_adapter 3399) = 1700000060
   \<and> effectiveTimelock 60 (fa_defaultTimelock short_adapter) = 60
   \<and> (60 :: uint256) < 3600"
  unfolding constructor_deployed_adapter update_run minute_order_run
  by (simp add: minute_adapter_def minute_order_def effectiveTimelock_def)

section \<open>C4: the cursor of the event monitor\<close>

lemma relayUntilSent_result:
  assumes "relayUntilSent attempt n = Some y"
  shows "attempt y \<and> n \<le> y"
  by (rule relayUntilSent.raw_induct [where P = "\<lambda>a k z. a z \<and> k \<le> z", OF _ assms])
    (auto split: if_splits dest: Suc_leD)

lemma relayUntilSent_returns:
  "attempt (n + k) \<Longrightarrow> \<exists>y. relayUntilSent attempt n = Some y"
proof (induction k arbitrary: n)
  case 0
  then show ?case by (subst relayUntilSent.simps) simp
next
  case (Suc k)
  then have "\<exists>y. relayUntilSent attempt (Suc n) = Some y" by simp
  then show ?case by (subst relayUntilSent.simps) simp
qed

lemma relayUntilSent_None_iff:
  "(relayUntilSent attempt 0 = None) = (\<forall>n. \<not> attempt n)"
proof
  assume none: "relayUntilSent attempt 0 = None"
  show "\<forall>n. \<not> attempt n"
  proof (intro allI notI)
    fix n assume "attempt n"
    then have "attempt (0 + n)" by simp
    with relayUntilSent_returns [of attempt 0 n] none show False by simp
  qed
next
  assume never: "\<forall>n. \<not> attempt n"
  show "relayUntilSent attempt 0 = None"
  proof (cases "relayUntilSent attempt 0")
    case None then show ?thesis .
  next
    case (Some y)
    from relayUntilSent_result [OF this] never show ?thesis by simp
  qed
qed

lemma handleCrossChainOrderCreated_None_iff:
  "(handleCrossChainOrderCreated env event = None)
   = (ce_decodable event \<and> (\<forall>n. \<not> relayAttempt env event n))"
  by (auto simp: handleCrossChainOrderCreated_def relayUntilSent_None_iff [symmetric]
      split: option.splits)

lemma handleOrderCreatedEvents_None_iff:
  "(handleOrderCreatedEvents env events = None)
   = (\<exists>event \<in> set events. ce_decodable event \<and> (\<forall>n. \<not> relayAttempt env event n))"
proof (induction events)
  case Nil
  show ?case by simp
next
  case (Cons event events)
  show ?case
  proof (cases "handleCrossChainOrderCreated env event")
    case None
    then show ?thesis
      using handleCrossChainOrderCreated_None_iff [of env event] by simp
  next
    case (Some handled)
    then have "\<not> (ce_decodable event \<and> (\<forall>n. \<not> relayAttempt env event n))"
      using handleCrossChainOrderCreated_None_iff [of env event] by simp
    with Some Cons.IH show ?thesis
      by (auto split: option.splits)
  qed
qed

lemma processFusionAdapterEvents_None_iff:
  "(processFusionAdapterEvents env fromBlock toBlock = None)
   = (\<exists>events. queryFilter env ''CrossChainOrderCreated'' fromBlock toBlock = Inr events
        \<and> (\<exists>event \<in> set events. ce_decodable event \<and> (\<forall>n. \<not> relayAttempt env event n)))"
  by (auto simp: processFusionAdapterEvents_def handleOrderCreatedEvents_None_iff [symmetric]
      split: sum.splits option.splits)

lemma monitorEthereumEvents_running:
  assumes "isRunning m" "getBlockNumber env = Inr currentBlock"
    "lastProcessedEthereum m < currentBlock - 3"
  shows "monitorEthereumEvents env m
    = (case processFusionAdapterEvents env (lastProcessedEthereum m + 1)
              (min (currentBlock - 3) (lastProcessedEthereum m + 100)) of
         None \<Rightarrow> None
       | Some adapterActions \<Rightarrow>
           Some (m\<lparr>lastProcessedEthereum :=
                     min (currentBlock - 3) (lastProcessedEthereum m + 100)\<rparr>,
                 adapterActions @ processEthereumHTLCEvents env (lastProcessedEthereum m + 1)
                   (min (currentBlock - 3) (lastProcessedEthereum m + 100))))"
proof -
  have range: "lastProcessedEthereum m + 1 + MAX_BLOCKS_PER_QUERY - 1
      = lastProcessedEthereum m + 100"
    by (simp add: MAX_BLOCKS_PER_QUERY_def)
  from assms show ?thesis
    unfolding monitorEthereumEvents_def Let_def range BLOCK_CONFIRMATIONS_def
    by simp
qed

text \<open>
  C4, as the code has it. In an iteration of the monitor that returns, the cursor moves
  exactly when the monitor is running, the block number was fetched and the confirmed
  height \<open>currentBlock - 3\<close> lies beyond the cursor; it then moves to
  \<open>min (currentBlock - 3) (cursor + 100)\<close>, whatever the event queries and the
  handlers did: their errors are caught and logged inside the functions that process the
  events and never reach the iteration. The cursor stays where it is when the monitor is
  stopped, the block number cannot be fetched, or there is no new confirmed block. The
  iteration on Monad always returns. The iteration on Ethereum returns unless, in the
  range it reads, there is a \<^verbatim>\<open>CrossChainOrderCreated\<close> event with readable arguments
  whose relay fails at every attempt: the relay then retries without end and the cursor
  is never assigned. The cursor never moves backwards.
\<close>

theorem cursor_moves_when_height_is_known:
  "(isRunning m \<and> getBlockNumber env = Inr currentBlock
      \<and> lastProcessedEthereum m < currentBlock - 3
     \<longrightarrow> (monitorEthereumEvents env m = None)
         = (\<exists>events. queryFilter env ''CrossChainOrderCreated'' (lastProcessedEthereum m + 1)
                        (min (currentBlock - 3) (lastProcessedEthereum m + 100)) = Inr events
              \<and> (\<exists>event \<in> set events.
                    ce_decodable event \<and> (\<forall>n. \<not> relayAttempt env event n))))
   \<and> (isRunning m \<and> getBlockNumber env = Inr currentBlock
      \<and> lastProcessedEthereum m < currentBlock - 3
      \<and> monitorEthereumEvents env m = Some (moved, handled)
     \<longrightarrow> moved = m\<lparr>lastProcessedEthereum :=
                   min (currentBlock - 3) (lastProcessedEthereum m + 100)\<rparr>)
   \<and> (isRunning m \<and> getBlockNumber env = Inr currentBlock
      \<and> lastProcessedMonad m < currentBlock - 3
     \<longrightarrow> fst (monitorMonadEvents env m)
         = m\<lparr>lastProcessedMonad := min (currentBlock - 3) (lastProcessedMonad m + 100)\<rparr>)
   \<and> ((\<not> isRunning m) \<or> isl (getBlockNumber env)
      \<or> (getBlockNumber env = Inr currentBlock \<and> currentBlock - 3 \<le> lastProcessedEthereum m)
     \<longrightarrow> (\<exists>logged. monitorEthereumEvents env m = Some (m, logged)))
   \<and> ((\<not> isRunning m) \<or> isl (getBlockNumber env)
      \<or> (getBlockNumber env = Inr currentBlock \<and> currentBlock - 3 \<le> lastProcessedMonad m)
     \<longrightarrow> fst (monitorMonadEvents env m) = m)
   \<and> (monitorEthereumEvents env m = Some (moved, handled)
     \<longrightarrow> lastProcessedEthereum m \<le> lastProcessedEthereum moved)
   \<and> lastProcessedMonad m \<le> lastProcessedMonad (fst (monitorMonadEvents env m))"
proof (intro conjI impI)
  assume "isRunning m \<and> getBlockNumber env = Inr currentBlock
      \<and> lastProcessedEthereum m < currentBlock - 3"
  then have "(monitorEthereumEvents env m = None)
      = (processFusionAdapterEvents env (lastProcessedEthereum m + 1)
           (min (currentBlock - 3) (lastProcessedEthereum m + 100)) = None)"
    by (simp add: monitorEthereumEvents_running split: option.splits)
  then show "(monitorEthereumEvents env m = None)
         = (\<exists>events. queryFilter env ''CrossChainOrderCreated'' (lastProcessedEthereum m + 1)
                        (min (currentBlock - 3) (lastProcessedEthereum m + 100)) = Inr events
              \<and> (\<exists>event \<in> set events.
                    ce_decodable event \<and> (\<forall>n. \<not> relayAttempt env event n)))"
    unfolding processFusionAdapterEvents_None_iff .
next
  assume "isRunning m \<and> getBlockNumber env = Inr currentBlock
      \<and> lastProcessedEthereum m < currentBlock - 3
      \<and> monitorEthereumEvents env m = Some (moved, handled)"
  then show "moved = m\<lparr>lastProcessedEthereum :=
                   min (currentBlock - 3) (lastProcessedEthereum m + 100)\<rparr>"
    by (auto simp: monitorEthereumEvents_running split: option.splits)
next
  assume "isRunning m \<and> getBlockNumber env = Inr currentBlock
      \<and> lastProcessedMonad m < currentBlock - 3"
  then show "fst (monitorMonadEvents env m)
         = m\<lparr>lastProcessedMonad := min (currentBlock - 3) (lastProcessedMonad m + 100)\<rparr>"
    by (simp add: monitorMonadEvents_def BLOCK_CONFIRMATIONS_def MAX_BLOCKS_PER_QUERY_def
        Let_def)
next
  assume "(\<not> isRunning m) \<or> isl (getBlockNumber env)
      \<or> (getBlockNumber env = Inr currentBlock \<and> currentBlock - 3 \<le> lastProcessedEthereum m)"
  then show "\<exists>logged. monitorEthereumEvents env m = Some (m, logged)"
    by (auto simp: monitorEthereumEvents_def BLOCK_CONFIRMATIONS_def Let_def isl_def
        split: sum.splits)
next
  assume "(\<not> isRunning m) \<or> isl (getBlockNumber env)
      \<or> (getBlockNumber env = Inr currentBlock \<and> currentBlock - 3 \<le> lastProcessedMonad m)"
  then show "fst (monitorMonadEvents env m) = m"
    by (auto simp: monitorMonadEvents_def BLOCK_CONFIRMATIONS_def Let_def isl_def
        split: sum.splits)
next
  assume "monitorEthereumEvents env m = Some (moved, handled)"
  then show "lastProcessedEthereum m \<le> lastProcessedEthereum moved"
    by (auto simp: monitorEthereumEvents_def BLOCK_CONFIRMATIONS_def MAX_BLOCKS_PER_QUERY_def
        Let_def split: sum.splits option.splits if_splits)
next
  show "lastProcessedMonad m \<le> lastProcessedMonad (fst (monitorMonadEvents env m))"
    by (auto simp: monitorMonadEvents_def BLOCK_CONFIRMATIONS_def MAX_BLOCKS_PER_QUERY_def
        Let_def split: sum.splits)
qed

lemma third_attempt_run:
  "monitorEthereumEvents third_attempt_relays running_monitor
   = Some (running_monitor\<lparr>lastProcessedEthereum := 127\<rparr>, [Relayed order_event 2])"
proof -
  have "relayUntilSent (\<lambda>n. 2 \<le> n) 0 = relayUntilSent (\<lambda>n. 2 \<le> n) (Suc 0)"
    by (subst relayUntilSent.simps) simp
  also have "\<dots> = relayUntilSent (\<lambda>n. 2 \<le> n) (Suc (Suc 0))"
    by (subst relayUntilSent.simps) simp
  also have "\<dots> = Some 2"
    by (subst relayUntilSent.simps) simp
  finally have relay: "relayUntilSent (\<lambda>n. 2 \<le> n) 0 = Some 2" .
  show ?thesis
    by (simp add: monitorEthereumEvents_def processFusionAdapterEvents_def
        processEthereumHTLCEvents_def handleCrossChainOrderCreated_def third_attempt_relays_def
        one_order_found_def order_event_def running_monitor_def relay
        BLOCK_CONFIRMATIONS_def MAX_BLOCKS_PER_QUERY_def Let_def)
qed

theorem cursor_moves_when_height_is_known_witness:
  "monitorEthereumEvents never_relays running_monitor = None
   \<and> monitorEthereumEvents third_attempt_relays running_monitor
     = Some (running_monitor\<lparr>lastProcessedEthereum := 127\<rparr>, [Relayed order_event 2])
   \<and> lastProcessedEthereum (running_monitor\<lparr>lastProcessedEthereum := 127\<rparr>) = min (130 - 3) (100 + 100)
   \<and> fst (monitorMonadEvents failing_queries running_monitor)
     = running_monitor\<lparr>lastProcessedMonad := 200\<rparr>
   \<and> monitorEthereumEvents unreachable_chain running_monitor
     = Some (running_monitor, [LoggedError ''Failed to monitor Ethereum events:''])
   \<and> fst (monitorMonadEvents unreachable_chain running_monitor) = running_monitor"
proof -
  note stuck = cursor_moves_when_height_is_known [where m = running_monitor
      and env = never_relays and currentBlock = 130
      and moved = "running_monitor\<lparr>lastProcessedEthereum := 127\<rparr>"
      and handled = "[Relayed order_event 2]"]
  note third = cursor_moves_when_height_is_known [where m = running_monitor
      and env = third_attempt_relays and currentBlock = 130
      and moved = "running_monitor\<lparr>lastProcessedEthereum := 127\<rparr>"
      and handled = "[Relayed order_event 2]"]
  note far = cursor_moves_when_height_is_known [where m = running_monitor
      and env = failing_queries and currentBlock = 1000
      and moved = "running_monitor\<lparr>lastProcessedEthereum := 127\<rparr>"
      and handled = "[Relayed order_event 2]"]
  note down = cursor_moves_when_height_is_known [where m = running_monitor
      and env = unreachable_chain and currentBlock = 0
      and moved = "running_monitor\<lparr>lastProcessedEthereum := 127\<rparr>"
      and handled = "[Relayed order_event 2]"]
  have none: "monitorEthereumEvents never_relays running_monitor = None"
    using stuck
    by (simp add: never_relays_def one_order_found_def order_event_def running_monitor_def)
  have monad: "fst (monitorMonadEvents failing_queries running_monitor)
     = running_monitor\<lparr>lastProcessedMonad := 200\<rparr>"
    using far by (simp add: failing_queries_def running_monitor_def)
  have unreachable: "monitorEthereumEvents unreachable_chain running_monitor
     = Some (running_monitor, [LoggedError ''Failed to monitor Ethereum events:''])"
    "fst (monitorMonadEvents unreachable_chain running_monitor) = running_monitor"
    using down
    by (auto simp: unreachable_chain_def running_monitor_def monitorEthereumEvents_def)
  from third third_attempt_run none monad unreachable show ?thesis
    by (simp add: running_monitor_def)
qed

text \<open>
  The claim as the specification states it fails: every event query of the iteration
  fails, no event of the blocks 101 to 200 is handled, and the cursor is moved to 200
  all the same.
\<close>

theorem cursor_moves_past_failed_queries:
  "monitorEthereumEvents failing_queries running_monitor
     = Some (running_monitor\<lparr>lastProcessedEthereum := 200\<rparr>,
             [LoggedError ''Failed to process Fusion Adapter events:'',
              LoggedError ''Failed to process Ethereum HTLC events:''])
   \<and> monitorMonadEvents failing_queries running_monitor
     = (running_monitor\<lparr>lastProcessedMonad := 200\<rparr>,
        [LoggedError ''Failed to process Monad Bridge events:'',
         LoggedError ''Failed to process Monad HTLC events:''])
   \<and> lastProcessedEthereum running_monitor = 100"
  by (simp add: monitorEthereumEvents_def monitorMonadEvents_def processFusionAdapterEvents_def
      processEthereumHTLCEvents_def processMonadBridgeEvents_def processMonadHTLCEvents_def
      failing_queries_def running_monitor_def
      BLOCK_CONFIRMATIONS_def MAX_BLOCKS_PER_QUERY_def Let_def)

section \<open>C5: the timeout sweep\<close>

lemma to_double_exact: "\<bar>x\<bar> < 2 ^ 53 \<Longrightarrow> to_double x = x"
  by (simp add: to_double_def)

lemma expired_exact:
  assumes "\<bar>p_timelock q\<bar> < 2 ^ 43"
  shows "expired currentTime q
    = (p_status q = pending \<and> currentTime > (p_timelock q - 3600) * 1000)"
proof -
  from assms have small: "\<bar>p_timelock q\<bar> < 8796093022208" by simp
  then have product: "\<bar>p_timelock q * 1000\<bar> < 2 ^ 53"
    by (simp add: abs_mult)
  have buffer: "\<bar>ORDER_TIMEOUT_BUFFER * 1000\<bar> < (2 ^ 53 :: int)"
    by (simp add: ORDER_TIMEOUT_BUFFER_def)
  from small have difference: "\<bar>p_timelock q * 1000 - ORDER_TIMEOUT_BUFFER * 1000\<bar> < 2 ^ 53"
    by (simp add: ORDER_TIMEOUT_BUFFER_def abs_if split: if_splits)
  show ?thesis
    by (simp add: expired_def js_times_def js_minus_def to_double_exact [OF product]
        to_double_exact [OF buffer] to_double_exact [OF difference])
      (simp add: ORDER_TIMEOUT_BUFFER_def algebra_simps)
qed

lemma to_double_far: "to_double 72057594037929000 = 72057594037928992"
  by code_simp

lemma to_double_far_minus_buffer: "to_double 72057594034328992 = 72057594034328992"
  by code_simp

text \<open>
  Beyond 2^53 the selection follows the doubles: the timelock 72057594037929 s is
  72057594037929000 ms, which rounds down by 8, so that the order is selected at
  72057594034329000 ms, one hour before its timelock to the millisecond, where the
  exact difference would not select it.
\<close>

lemma far_order_expired:
  "expired 72057594034329000 far_order
   \<and> \<not> (72057594034329000 > (p_timelock far_order - 3600) * 1000)"
  by (simp add: expired_def js_times_def js_minus_def ORDER_TIMEOUT_BUFFER_def far_order_def
      sample_order_def to_double_far to_double_exact to_double_far_minus_buffer)

lemma refundEach_calls:
  "snd (refundEach sent stamp currentTime m)
   = map (\<lambda>p. AdapterRefund (p_orderHash (snd p)))
       (filter (\<lambda>p. expired currentTime (snd p) \<and> p_sourceChain (snd p) = ethereum) m)"
  by (induction m) (auto simp: processRefund_def split: prod.splits)

lemma refundEach_orders:
  "fst (refundEach sent stamp currentTime m)
   = map (\<lambda>p. (fst p, if expired currentTime (snd p) then fst (processRefund sent stamp (snd p))
                        else snd p)) m"
  by (induction m) (auto split: prod.splits)

text \<open>
  C5, as the code has it. For orders whose timelock is below 2^43 seconds in magnitude
  (so that the arithmetic of the selection is exact), the sweep submits the adapter's
  \<^verbatim>\<open>refund\<close> for exactly the orders from Ethereum that are pending and whose
  timelock is less than one hour ahead of the current time, or past
  (\<open>currentTime > (timelock - 3600) * 1000\<close>, the current time in milliseconds): the
  refund is submitted up to an hour before the source timelock is reached. Such an order
  is marked refunded once the submission has returned, and stays pending when the
  submission throws; an order from Ethereum that is not selected is left as it is. The
  secret store is not touched.
\<close>

theorem timeout_sweep_refunds_within_buffer:
  "(\<forall>p \<in> set (pendingOrders r). \<bar>p_timelock (snd p)\<bar> < 2 ^ 43) \<longrightarrow>
   snd (handleTimeoutRefunds sent stamp currentTime r)
     = map (\<lambda>p. AdapterRefund (p_orderHash (snd p)))
         (filter (\<lambda>p. p_status (snd p) = pending
                      \<and> currentTime > (p_timelock (snd p) - 3600) * 1000
                      \<and> p_sourceChain (snd p) = ethereum) (pendingOrders r))
   \<and> length (pendingOrders (fst (handleTimeoutRefunds sent stamp currentTime r)))
       = length (pendingOrders r)
   \<and> (\<forall>i < length (pendingOrders r).
        fst (pendingOrders (fst (handleTimeoutRefunds sent stamp currentTime r)) ! i)
          = fst (pendingOrders r ! i)
        \<and> (p_sourceChain (snd (pendingOrders r ! i)) = ethereum \<longrightarrow>
            snd (pendingOrders (fst (handleTimeoutRefunds sent stamp currentTime r)) ! i)
            = (if p_status (snd (pendingOrders r ! i)) = pending
                  \<and> currentTime > (p_timelock (snd (pendingOrders r ! i)) - 3600) * 1000
                  \<and> sent (AdapterRefund (p_orderHash (snd (pendingOrders r ! i))))
               then (snd (pendingOrders r ! i))
                      \<lparr>p_status := refunded,
                       p_refundedAt := Some (stamp (snd (pendingOrders r ! i)))\<rparr>
               else snd (pendingOrders r ! i))))
   \<and> secretStore (fst (handleTimeoutRefunds sent stamp currentTime r)) = secretStore r"
proof (intro impI)
  assume range: "\<forall>p \<in> set (pendingOrders r). \<bar>p_timelock (snd p)\<bar> < 2 ^ 43"
  have sel: "expired currentTime (snd p)
      = (p_status (snd p) = pending \<and> currentTime > (p_timelock (snd p) - 3600) * 1000)"
    if "p \<in> set (pendingOrders r)" for p
    using range that by (simp add: expired_exact)
  have run: "handleTimeoutRefunds sent stamp currentTime r
      = (r\<lparr>pendingOrders := fst (refundEach sent stamp currentTime (pendingOrders r))\<rparr>,
         snd (refundEach sent stamp currentTime (pendingOrders r)))"
    by (simp add: handleTimeoutRefunds_def split: prod.splits)
  have "filter (\<lambda>p. expired currentTime (snd p) \<and> p_sourceChain (snd p) = ethereum)
          (pendingOrders r)
      = filter (\<lambda>p. p_status (snd p) = pending
                      \<and> currentTime > (p_timelock (snd p) - 3600) * 1000
                      \<and> p_sourceChain (snd p) = ethereum) (pendingOrders r)"
    by (rule filter_cong) (auto simp: sel)
  then have calls: "snd (handleTimeoutRefunds sent stamp currentTime r)
     = map (\<lambda>p. AdapterRefund (p_orderHash (snd p)))
         (filter (\<lambda>p. p_status (snd p) = pending
                      \<and> currentTime > (p_timelock (snd p) - 3600) * 1000
                      \<and> p_sourceChain (snd p) = ethereum) (pendingOrders r))"
    unfolding run by (simp add: refundEach_calls)
  have len: "length (pendingOrders (fst (handleTimeoutRefunds sent stamp currentTime r)))
       = length (pendingOrders r)"
    unfolding run by (simp add: refundEach_orders)
  have each: "\<forall>i < length (pendingOrders r).
        fst (pendingOrders (fst (handleTimeoutRefunds sent stamp currentTime r)) ! i)
          = fst (pendingOrders r ! i)
        \<and> (p_sourceChain (snd (pendingOrders r ! i)) = ethereum \<longrightarrow>
            snd (pendingOrders (fst (handleTimeoutRefunds sent stamp currentTime r)) ! i)
            = (if p_status (snd (pendingOrders r ! i)) = pending
                  \<and> currentTime > (p_timelock (snd (pendingOrders r ! i)) - 3600) * 1000
                  \<and> sent (AdapterRefund (p_orderHash (snd (pendingOrders r ! i))))
               then (snd (pendingOrders r ! i))
                      \<lparr>p_status := refunded,
                       p_refundedAt := Some (stamp (snd (pendingOrders r ! i)))\<rparr>
               else snd (pendingOrders r ! i)))"
  proof (intro allI impI)
    fix i assume i: "i < length (pendingOrders r)"
    then have mem: "pendingOrders r ! i \<in> set (pendingOrders r)" by simp
    from i show "fst (pendingOrders (fst (handleTimeoutRefunds sent stamp currentTime r)) ! i)
          = fst (pendingOrders r ! i)
        \<and> (p_sourceChain (snd (pendingOrders r ! i)) = ethereum \<longrightarrow>
            snd (pendingOrders (fst (handleTimeoutRefunds sent stamp currentTime r)) ! i)
            = (if p_status (snd (pendingOrders r ! i)) = pending
                  \<and> currentTime > (p_timelock (snd (pendingOrders r ! i)) - 3600) * 1000
                  \<and> sent (AdapterRefund (p_orderHash (snd (pendingOrders r ! i))))
               then (snd (pendingOrders r ! i))
                      \<lparr>p_status := refunded,
                       p_refundedAt := Some (stamp (snd (pendingOrders r ! i)))\<rparr>
               else snd (pendingOrders r ! i)))"
      unfolding run by (auto simp: refundEach_orders sel [OF mem] processRefund_def)
  qed
  have store: "secretStore (fst (handleTimeoutRefunds sent stamp currentTime r)) = secretStore r"
    unfolding run by simp
  from calls len each store show "snd (handleTimeoutRefunds sent stamp currentTime r)
     = map (\<lambda>p. AdapterRefund (p_orderHash (snd p)))
         (filter (\<lambda>p. p_status (snd p) = pending
                      \<and> currentTime > (p_timelock (snd p) - 3600) * 1000
                      \<and> p_sourceChain (snd p) = ethereum) (pendingOrders r))
   \<and> length (pendingOrders (fst (handleTimeoutRefunds sent stamp currentTime r)))
       = length (pendingOrders r)
   \<and> (\<forall>i < length (pendingOrders r).
        fst (pendingOrders (fst (handleTimeoutRefunds sent stamp currentTime r)) ! i)
          = fst (pendingOrders r ! i)
        \<and> (p_sourceChain (snd (pendingOrders r ! i)) = ethereum \<longrightarrow>
            snd (pendingOrders (fst (handleTimeoutRefunds sent stamp currentTime r)) ! i)
            = (if p_status (snd (pendingOrders r ! i)) = pending
                  \<and> currentTime > (p_timelock (snd (pendingOrders r ! i)) - 3600) * 1000
                  \<and> sent (AdapterRefund (p_orderHash (snd (pendingOrders r ! i))))
               then (snd (pendingOrders r ! i))
                      \<lparr>p_status := refunded,
                       p_refundedAt := Some (stamp (snd (pendingOrders r ! i)))\<rparr>
               else snd (pendingOrders r ! i))))
   \<and> secretStore (fst (handleTimeoutRefunds sent stamp currentTime r)) = secretStore r"
    by blast
qed

lemma sample_timelock_exact: "to_double 1700086400000 = 1700086400000"
  "to_double 1700082800000 = 1700082800000" "to_double 3600000 = 3600000"
  by (simp_all add: to_double_exact)

lemma sweep_sample_run:
  "handleTimeoutRefunds all_sent stamp_at_sweep 1700084600000 sample_resolver
   = (\<lparr>pendingOrders = [(''0xaa'', sample_order\<lparr>p_status := refunded,
          p_refundedAt := Some 1700084600001\<rparr>)], secretStore = []\<rparr>,
      [AdapterRefund ''0xaa''])"
  by (simp add: handleTimeoutRefunds_def processRefund_def expired_def js_times_def
      js_minus_def ORDER_TIMEOUT_BUFFER_def sample_timelock_exact
      sample_resolver_def sample_order_def all_sent_def stamp_at_sweep_def)

theorem timeout_sweep_refunds_within_buffer_witness:
  "\<bar>p_timelock sample_order\<bar> < 2 ^ 43
   \<and> snd (handleTimeoutRefunds all_sent stamp_at_sweep 1700084600000 sample_resolver)
     = [AdapterRefund ''0xaa'']
   \<and> (0::nat) < length (pendingOrders sample_resolver)
   \<and> p_sourceChain (snd (pendingOrders sample_resolver ! 0)) = ethereum
   \<and> pendingOrders (fst (handleTimeoutRefunds all_sent stamp_at_sweep 1700084600000
        sample_resolver)) ! 0
     = (''0xaa'', sample_order\<lparr>p_status := refunded, p_refundedAt := Some 1700084600001\<rparr>)"
proof -
  have range: "\<forall>p \<in> set (pendingOrders sample_resolver). \<bar>p_timelock (snd p)\<bar> < 2 ^ 43"
    by (simp add: sample_resolver_def sample_order_def)
  have small: "\<bar>p_timelock sample_order\<bar> < 2 ^ 43"
    by (simp add: sample_order_def)
  note inst = timeout_sweep_refunds_within_buffer [where sent = all_sent
      and stamp = stamp_at_sweep and currentTime = 1700084600000 and r = sample_resolver,
      THEN mp, OF range]
  have len: "(0::nat) < length (pendingOrders sample_resolver)"
    by (simp add: sample_resolver_def)
  from inst have at0:
    "p_sourceChain (snd (pendingOrders sample_resolver ! 0)) = ethereum \<longrightarrow>
     snd (pendingOrders (fst (handleTimeoutRefunds all_sent stamp_at_sweep 1700084600000
            sample_resolver)) ! 0)
     = (if p_status (snd (pendingOrders sample_resolver ! 0)) = pending
           \<and> 1700084600000 > (p_timelock (snd (pendingOrders sample_resolver ! 0)) - 3600) * 1000
           \<and> all_sent (AdapterRefund (p_orderHash (snd (pendingOrders sample_resolver ! 0))))
        then (snd (pendingOrders sample_resolver ! 0))
               \<lparr>p_status := refunded,
                p_refundedAt := Some (stamp_at_sweep (snd (pendingOrders sample_resolver ! 0)))\<rparr>
        else snd (pendingOrders sample_resolver ! 0))"
    using len by blast
  from inst have calls:
    "snd (handleTimeoutRefunds all_sent stamp_at_sweep 1700084600000 sample_resolver)
     = map (\<lambda>p. AdapterRefund (p_orderHash (snd p)))
         (filter (\<lambda>p. p_status (snd p) = pending
                      \<and> 1700084600000 > (p_timelock (snd p) - 3600) * 1000
                      \<and> p_sourceChain (snd p) = ethereum) (pendingOrders sample_resolver))"
    by blast
  from inst len have key:
    "fst (pendingOrders (fst (handleTimeoutRefunds all_sent stamp_at_sweep 1700084600000
            sample_resolver)) ! 0) = fst (pendingOrders sample_resolver ! 0)"
    by blast
  have src: "p_sourceChain (snd (pendingOrders sample_resolver ! 0)) = ethereum"
    by (simp add: sample_resolver_def sample_order_def)
  from at0 src have val:
    "snd (pendingOrders (fst (handleTimeoutRefunds all_sent stamp_at_sweep 1700084600000
            sample_resolver)) ! 0)
     = sample_order\<lparr>p_status := refunded, p_refundedAt := Some 1700084600001\<rparr>"
    by (simp add: sample_resolver_def sample_order_def all_sent_def stamp_at_sweep_def)
  from calls have c: "snd (handleTimeoutRefunds all_sent stamp_at_sweep 1700084600000
       sample_resolver) = [AdapterRefund ''0xaa'']"
    by (simp add: sample_resolver_def sample_order_def)
  from key have k: "fst (pendingOrders (fst (handleTimeoutRefunds all_sent stamp_at_sweep
       1700084600000 sample_resolver)) ! 0) = ''0xaa''"
    by (simp add: sample_resolver_def)
  from small c len src k val show ?thesis
    by (simp add: prod_eq_iff)
qed

text \<open>
  The claim as the specification states it fails: at 1700084600000 ms, thirty minutes
  before the order's timelock 1700086400 s, the sweep submits the refund of the order
  and marks it refunded.
\<close>

theorem refund_submitted_before_timelock:
  "handleTimeoutRefunds all_sent stamp_at_sweep 1700084600000 sample_resolver
     = (\<lparr>pendingOrders = [(''0xaa'', sample_order\<lparr>p_status := refunded,
            p_refundedAt := Some 1700084600001\<rparr>)], secretStore = []\<rparr>,
        [AdapterRefund ''0xaa''])
   \<and> pendingOrders sample_resolver = [(''0xaa'', sample_order)]
   \<and> p_timelock sample_order = 1700086400
   \<and> \<not> (1700084600000 \<ge> p_timelock sample_order * 1000)"
  unfolding sweep_sample_run by (simp add: sample_resolver_def sample_order_def)

section \<open>C6: inserting into the pending-order table\<close>

lemma map_set_distinct:
  "distinct (map fst m) \<Longrightarrow> distinct (map fst (map_set k v m))"
  by (induction m) (auto simp: keys_map_set)

lemma length_map_set_distinct:
  "distinct (map fst m) \<Longrightarrow>
   length (map_set k v m) = Suc (length (filter (\<lambda>p. fst p \<noteq> k) m))"
proof (induction m)
  case Nil
  then show ?case by simp
next
  case (Cons p ps)
  show ?case
  proof (cases "fst p = k")
    case True
    with Cons.prems have "k \<notin> fst ` set ps" by auto
    then have "\<forall>q \<in> set ps. fst q \<noteq> k" by (metis image_eqI)
    then have "filter (\<lambda>q. fst q \<noteq> k) ps = ps" by (simp add: filter_id_conv)
    with True show ?thesis by simp
  next
    case False
    with Cons show ?thesis by simp
  qed
qed

lemma map_get_filter:
  "distinct (map fst m) \<Longrightarrow>
   map_get (filter P m) k
   = (case map_get m k of None \<Rightarrow> None | Some q \<Rightarrow> if P (k, q) then Some q else None)"
proof (induction m)
  case Nil
  then show ?case by (simp add: map_get_def)
next
  case (Cons p ps)
  then have fresh: "map_of ps (fst p) = None"
    by (simp add: map_of_eq_None_iff)
  from Cons have ih: "map_of (filter P ps) k
      = (case map_of ps k of None \<Rightarrow> None | Some q \<Rightarrow> if P (k, q) then Some q else None)"
    by (simp add: map_get_def)
  show ?case
    using fresh ih by (cases p) (auto simp: map_get_def)
qed

lemma cleanupOldOrders_keys:
  "distinct (map fst m) \<Longrightarrow> distinct (map fst (cleanupOldOrders now m))"
  by (simp add: cleanupOldOrders_def distinct_map_filter)

text \<open>
  C6, as the code has it. \<^verbatim>\<open>addPendingOrder\<close> always stores the order: there is no
  rejection. When the table holds 1000 entries or more it first deletes every entry
  that is not pending and was created more than 24 hours earlier, and no other entry;
  below 1000 entries nothing is deleted. Every entry that is not deleted keeps its
  order, the new order is stored under its hash (replacing an entry under that hash),
  and the table then holds the surviving entries under other hashes and the new one: it
  grows by at most one entry, and nothing keeps it at 1000. The keys of the table stay
  distinct, as those of a \<^verbatim>\<open>Map\<close> are.
\<close>

theorem addPendingOrder_always_inserts:
  "map_get (pendingOrders (addPendingOrder now order' r)) (p_orderHash order') = Some order'
   \<and> (length (pendingOrders r) < 1000
     \<longrightarrow> pendingOrders (addPendingOrder now order' r)
         = map_set (p_orderHash order') order' (pendingOrders r))
   \<and> length (pendingOrders (addPendingOrder now order' r)) \<le> length (pendingOrders r) + 1
   \<and> secretStore (addPendingOrder now order' r) = secretStore r
   \<and> (distinct (map fst (pendingOrders r)) \<longrightarrow>
        distinct (map fst (pendingOrders (addPendingOrder now order' r)))
      \<and> (\<forall>k. map_get (pendingOrders (addPendingOrder now order' r)) k
            = (if k = p_orderHash order' then Some order'
               else case map_get (pendingOrders r) k of
                      None \<Rightarrow> None
                    | Some q \<Rightarrow>
                        if 1000 \<le> length (pendingOrders r) \<and> p_status q \<noteq> pending
                           \<and> p_createdAt q < now - 86400000
                        then None else Some q))
      \<and> length (pendingOrders (addPendingOrder now order' r))
          = Suc (length (filter (\<lambda>p. fst p \<noteq> p_orderHash order'
                   \<and> \<not> (1000 \<le> length (pendingOrders r) \<and> p_status (snd p) \<noteq> pending
                          \<and> p_createdAt (snd p) < now - 86400000)) (pendingOrders r))))"
proof (intro conjI impI allI)
  show "map_get (pendingOrders (addPendingOrder now order' r)) (p_orderHash order') = Some order'"
    by (simp add: addPendingOrder_def Let_def map_get_map_set)
next
  assume "length (pendingOrders r) < 1000"
  then show "pendingOrders (addPendingOrder now order' r)
         = map_set (p_orderHash order') order' (pendingOrders r)"
    by (simp add: addPendingOrder_def MAX_PENDING_ORDERS_def)
next
  have "length (cleanupOldOrders now (pendingOrders r)) \<le> length (pendingOrders r)"
    by (simp add: cleanupOldOrders_def)
  then show "length (pendingOrders (addPendingOrder now order' r)) \<le> length (pendingOrders r) + 1"
    using length_map_set_le [of "p_orderHash order'" order' "cleanupOldOrders now (pendingOrders r)"]
      length_map_set_le [of "p_orderHash order'" order' "pendingOrders r"]
    by (auto simp: addPendingOrder_def Let_def)
next
  show "secretStore (addPendingOrder now order' r) = secretStore r"
    by (simp add: addPendingOrder_def Let_def)
next
  assume keys: "distinct (map fst (pendingOrders r))"
  then show "distinct (map fst (pendingOrders (addPendingOrder now order' r)))"
    by (simp add: addPendingOrder_def Let_def map_set_distinct cleanupOldOrders_keys)
next
  fix k
  assume keys: "distinct (map fst (pendingOrders r))"
  show "map_get (pendingOrders (addPendingOrder now order' r)) k
            = (if k = p_orderHash order' then Some order'
               else case map_get (pendingOrders r) k of
                      None \<Rightarrow> None
                    | Some q \<Rightarrow>
                        if 1000 \<le> length (pendingOrders r) \<and> p_status q \<noteq> pending
                           \<and> p_createdAt q < now - 86400000
                        then None else Some q)"
  proof (cases "k = p_orderHash order'")
    case True
    then show ?thesis by (simp add: addPendingOrder_def Let_def map_get_map_set)
  next
    case False
    then show ?thesis
      using keys
      by (auto simp: addPendingOrder_def Let_def map_get_map_set_other cleanupOldOrders_def
          map_get_filter MAX_PENDING_ORDERS_def split: option.splits)
  qed
next
  assume keys: "distinct (map fst (pendingOrders r))"
  show "length (pendingOrders (addPendingOrder now order' r))
          = Suc (length (filter (\<lambda>p. fst p \<noteq> p_orderHash order'
                   \<and> \<not> (1000 \<le> length (pendingOrders r) \<and> p_status (snd p) \<noteq> pending
                          \<and> p_createdAt (snd p) < now - 86400000)) (pendingOrders r)))"
  proof (cases "1000 \<le> length (pendingOrders r)")
    case True
    have "length (map_set (p_orderHash order') order' (cleanupOldOrders now (pendingOrders r)))
        = Suc (length (filter (\<lambda>p. fst p \<noteq> p_orderHash order')
                 (cleanupOldOrders now (pendingOrders r))))"
      by (rule length_map_set_distinct) (rule cleanupOldOrders_keys [OF keys])
    with True show ?thesis
      by (simp add: addPendingOrder_def Let_def MAX_PENDING_ORDERS_def cleanupOldOrders_def
          conj_commute cong: conj_cong)
  next
    case False
    with length_map_set_distinct [OF keys, of "p_orderHash order'" order']
    show ?thesis
      by (simp add: addPendingOrder_def Let_def MAX_PENDING_ORDERS_def)
  qed
qed

lemma numbered_key: "fst (aged_entry i) = ''order'' @ replicate i (CHR ''1'')"
  by (simp add: aged_entry_def aged_order_def numbered_order_def)

lemma aged_keys_inj: "inj fst_aged" if "fst_aged = (\<lambda>i. fst (aged_entry i))"
proof (rule injI)
  fix i j assume "fst_aged i = fst_aged j"
  then have "replicate i (CHR ''1'') = replicate j (CHR ''1'')"
    by (simp add: that numbered_key)
  then have "length (replicate i (CHR ''1'')) = length (replicate j (CHR ''1''))"
    by simp
  then show "i = j" by simp
qed

lemma aged_table_keys: "distinct (map fst (pendingOrders aged_resolver))"
proof -
  have "inj (\<lambda>i. fst (aged_entry i))" by (rule aged_keys_inj) simp
  then have "inj_on (\<lambda>i. fst (aged_entry i)) (set [0..<1000])"
    by (rule inj_on_subset) simp
  then show ?thesis
    by (simp add: aged_resolver_def distinct_map o_def del: upt_Suc)
qed

lemma aged_table_get:
  "i < 1000 \<Longrightarrow> map_get (pendingOrders aged_resolver) (fst (aged_entry i)) = Some (aged_order i)"
proof -
  assume "i < 1000"
  then have "aged_entry i \<in> set (pendingOrders aged_resolver)"
    by (simp add: aged_resolver_def del: upt_Suc)
  then have "map_of (pendingOrders aged_resolver) (fst (aged_entry i)) = Some (snd (aged_entry i))"
    using aged_table_keys by (metis map_of_eq_Some_iff prod.collapse)
  then show ?thesis by (simp add: map_get_def aged_entry_def)
qed

lemma aged_table_length: "length (pendingOrders aged_resolver) = 1000"
  by (simp add: aged_resolver_def)

lemma aged_table_survivors:
  "filter (\<lambda>p. fst p \<noteq> ''0xaa''
       \<and> \<not> (1000 \<le> length (pendingOrders aged_resolver) \<and> p_status (snd p) \<noteq> pending
              \<and> p_createdAt (snd p) < 1700000200000 - 86400000)) (pendingOrders aged_resolver)
   = map aged_entry [200..<1000]"
proof -
  define kept :: "string \<times> PendingOrder \<Rightarrow> bool" where
    "kept = (\<lambda>p. fst p \<noteq> ''0xaa''
       \<and> \<not> (1000 \<le> length (pendingOrders aged_resolver) \<and> p_status (snd p) \<noteq> pending
              \<and> p_createdAt (snd p) < 1700000200000 - 86400000))"
  have sel: "kept \<circ> aged_entry = (\<lambda>i. 200 \<le> i)"
    by (auto simp: kept_def fun_eq_iff aged_table_length aged_entry_def aged_order_def
        numbered_order_def)
  have split: "[0..<1000] = [0..<200] @ [200..<1000]"
    using upt_add_eq_append [of 0 200 800] by (simp del: upt_Suc upt_rec_numeral)
  have low: "filter (\<lambda>i. 200 \<le> i) [0..<200] = []"
    by (simp add: filter_empty_conv del: upt_Suc)
  have high: "filter (\<lambda>i. 200 \<le> i) [200..<1000] = [200..<1000]"
    by (simp add: filter_id_conv del: upt_Suc upt_rec_numeral)
  have "filter kept (pendingOrders aged_resolver)
      = map aged_entry (filter (kept \<circ> aged_entry) [0..<1000])"
    by (simp add: aged_resolver_def filter_map del: upt_Suc upt_rec_numeral)
  also have "\<dots> = map aged_entry (filter (\<lambda>i. 200 \<le> i) ([0..<200] @ [200..<1000]))"
    unfolding sel split ..
  also have "\<dots> = map aged_entry [200..<1000]"
    unfolding filter_append low high append_Nil ..
  finally show ?thesis unfolding kept_def .
qed

theorem addPendingOrder_always_inserts_witness:
  "distinct (map fst (pendingOrders aged_resolver))
   \<and> length (pendingOrders aged_resolver) = 1000
   \<and> map_get (pendingOrders aged_resolver) (fst (aged_entry 6)) = Some (aged_order 6)
   \<and> map_get (pendingOrders (addPendingOrder 1700000200000 sample_order aged_resolver)) ''0xaa''
     = Some sample_order
   \<and> map_get (pendingOrders (addPendingOrder 1700000200000 sample_order aged_resolver))
       (fst (aged_entry 6)) = None
   \<and> map_get (pendingOrders (addPendingOrder 1700000200000 sample_order aged_resolver))
       (fst (aged_entry 250)) = Some (aged_order 250)
   \<and> map_get (pendingOrders (addPendingOrder 1700000200000 sample_order aged_resolver))
       (fst (aged_entry 800)) = Some (aged_order 800)
   \<and> length (pendingOrders (addPendingOrder 1700000200000 sample_order aged_resolver)) = 801
   \<and> length (pendingOrders \<lparr>pendingOrders = [], secretStore = []\<rparr>) < 1000
   \<and> pendingOrders (addPendingOrder 1700000200000 sample_order
        \<lparr>pendingOrders = [], secretStore = []\<rparr>) = [(''0xaa'', sample_order)]"
proof -
  note full = addPendingOrder_always_inserts [where now = 1700000200000
      and order' = sample_order and r = aged_resolver]
  note empty = addPendingOrder_always_inserts [where now = 1700000200000
      and order' = sample_order and r = "\<lparr>pendingOrders = [], secretStore = []\<rparr>"]
  have key: "p_orderHash sample_order = ''0xaa''"
    by (simp add: sample_order_def)
  from full aged_table_keys have look:
    "map_get (pendingOrders (addPendingOrder 1700000200000 sample_order aged_resolver)) k
     = (if k = ''0xaa'' then Some sample_order
        else case map_get (pendingOrders aged_resolver) k of
               None \<Rightarrow> None
             | Some q \<Rightarrow>
                 if 1000 \<le> length (pendingOrders aged_resolver) \<and> p_status q \<noteq> pending
                    \<and> p_createdAt q < 1700000200000 - 86400000
                 then None else Some q)" for k
    unfolding key by blast
  from full aged_table_keys have size:
    "length (pendingOrders (addPendingOrder 1700000200000 sample_order aged_resolver))
     = Suc (length (filter (\<lambda>p. fst p \<noteq> ''0xaa''
          \<and> \<not> (1000 \<le> length (pendingOrders aged_resolver) \<and> p_status (snd p) \<noteq> pending
                 \<and> p_createdAt (snd p) < 1700000200000 - 86400000))
            (pendingOrders aged_resolver)))"
    unfolding key by blast
  have other: "fst (aged_entry i) \<noteq> ''0xaa''" for i
    by (simp add: numbered_key)
  have evicted: "map_get (pendingOrders (addPendingOrder 1700000200000 sample_order
      aged_resolver)) (fst (aged_entry 6)) = None"
    unfolding look by (simp add: other aged_table_get aged_table_length aged_order_def)
  have recent: "map_get (pendingOrders (addPendingOrder 1700000200000 sample_order
      aged_resolver)) (fst (aged_entry 250)) = Some (aged_order 250)"
    unfolding look by (simp add: other aged_table_get aged_table_length aged_order_def)
  have waiting: "map_get (pendingOrders (addPendingOrder 1700000200000 sample_order
      aged_resolver)) (fst (aged_entry 800)) = Some (aged_order 800)"
    unfolding look by (simp add: other aged_table_get aged_table_length aged_order_def)
  have stored: "map_get (pendingOrders (addPendingOrder 1700000200000 sample_order
      aged_resolver)) ''0xaa'' = Some sample_order"
    unfolding look by simp
  have count: "length (pendingOrders (addPendingOrder 1700000200000 sample_order
      aged_resolver)) = 801"
    unfolding size aged_table_survivors length_map length_upt by simp
  from empty have first: "pendingOrders (addPendingOrder 1700000200000 sample_order
        \<lparr>pendingOrders = [], secretStore = []\<rparr>) = [(''0xaa'', sample_order)]"
    by (simp add: key)
  from aged_table_keys aged_table_length aged_table_get [of 6] stored evicted recent waiting
    count first
  show ?thesis by simp
qed

lemma full_table_length: "length (pendingOrders full_resolver) = 1000"
  by (simp add: full_resolver_def)

lemma full_table_all_pending: "terminal_orders (pendingOrders full_resolver) = []"
  by (simp add: terminal_orders_def full_resolver_def numbered_entry_def numbered_order_def
      sample_order_def filter_empty_conv)

lemma full_table_cleanup:
  "cleanupOldOrders now (pendingOrders full_resolver) = pendingOrders full_resolver"
  by (simp add: cleanupOldOrders_def full_resolver_def numbered_entry_def numbered_order_def
      sample_order_def filter_id_conv)

lemma full_table_keys: "''0xaa'' \<notin> fst ` set (pendingOrders full_resolver)"
  by (auto simp: full_resolver_def numbered_entry_def numbered_order_def)

lemma full_table_insert:
  "pendingOrders (addPendingOrder now sample_order full_resolver)
   = map_set ''0xaa'' sample_order (pendingOrders full_resolver)"
  by (simp add: addPendingOrder_def Let_def full_table_cleanup sample_order_def)

text \<open>
  The claim as the specification states it fails: the table holds 1000 orders, all of
  them pending, and the insert of one more is not rejected; the table then holds 1001.
\<close>

theorem full_table_grows_past_the_cap:
  "length (pendingOrders full_resolver) = 1000
   \<and> terminal_orders (pendingOrders full_resolver) = []
   \<and> map_get (pendingOrders (addPendingOrder 1700000200000 sample_order full_resolver)) ''0xaa''
     = Some sample_order
   \<and> length (pendingOrders (addPendingOrder 1700000200000 sample_order full_resolver)) = 1001"
  using length_map_set_fresh [OF full_table_keys, of sample_order]
  by (simp add: full_table_length full_table_all_pending full_table_insert map_get_map_set)

end
